(* ===== verification/Prelude.thy ===== *)
theory Prelude
  imports Main "HOL-Library.Signed_Division" "HOL-Library.Sublist"
begin

text \<open>
  Shared vocabulary of the gohttpbench model: the Go run-time failures the
  code can hit (as values of \<open>go_panic\<close>), Go's truncating integer division
  and remainder that panic on a zero divisor, Go's bounds-checked slice
  indexing, and the type of durations (\<open>time.Duration\<close>, nanoseconds).
  The lemmas here are the generic facts the component theories share; they
  are collected in the named theorem list \<open>go_simps\<close>.
\<close>

named_theorems go_simps "evaluation rules for the Go run-time primitives of the model"

type_synonym duration = int \<comment> \<open>\<open>time.Duration\<close>: signed nanoseconds\<close>

text \<open>Go run-time panics that the modelled code can raise.\<close>

datatype go_panic =
    DivideByZero
  | CloseOfClosedChannel
  | NegativeWaitGroupCounter
  | InterfaceConversion string \<comment> \<open>failed type assertion \<open>x.(T)\<close>, key named\<close>
  | MakeSliceLenOutOfRange
  | MakeSliceCapOutOfRange
  | MakeChanSizeOutOfRange
  | IndexOutOfRange int int
  | NilPointerDereference
  | CustomPanic string \<comment> \<open>\<open>panic(s)\<close> with a string\<close>

text \<open>\<open>a / b\<close> and \<open>a % b\<close> on Go \<open>int\<close>: truncation towards zero, panic on zero.\<close>

definition go_div :: "int \<Rightarrow> int \<Rightarrow> go_panic + int" where
  "go_div a b = (if b = 0 then Inl DivideByZero else Inr (a sdiv b))"

definition go_mod :: "int \<Rightarrow> int \<Rightarrow> go_panic + int" where
  "go_mod a b = (if b = 0 then Inl DivideByZero else Inr (a smod b))"

text \<open>\<open>xs[i]\<close> on a Go slice: a panic outside \<open>0 \<le> i < len(xs)\<close>.\<close>

definition go_index :: "'a list \<Rightarrow> int \<Rightarrow> go_panic + 'a" where
  "go_index xs i =
     (if 0 \<le> i \<and> i < int (length xs) then Inr (xs ! nat i)
      else Inl (IndexOutOfRange i (int (length xs))))"

text \<open>Sequencing of steps that may panic: the first panic is the result.\<close>

definition go_bind :: "go_panic + 'a \<Rightarrow> ('a \<Rightarrow> go_panic + 'b) \<Rightarrow> go_panic + 'b" where
  "go_bind x f = (case x of Inl p \<Rightarrow> Inl p | Inr a \<Rightarrow> f a)"

fun go_map :: "('a \<Rightarrow> go_panic + 'b) \<Rightarrow> 'a list \<Rightarrow> go_panic + 'b list" where
  "go_map f [] = Inr []"
| "go_map f (x # xs) = go_bind (f x) (\<lambda>y. go_bind (go_map f xs) (\<lambda>ys. Inr (y # ys)))"

text \<open>\<open>strings.Split(s, sep)\<close> for a one-character separator: never empty,
  one piece more than there are separators.\<close>

fun go_split :: "char \<Rightarrow> string \<Rightarrow> string list" where
  "go_split c [] = [[]]"
| "go_split c (x # xs) =
     (if x = c then [] # go_split c xs
      else (case go_split c xs of [] \<Rightarrow> [[x]] | w # ws \<Rightarrow> (x # w) # ws))"

text \<open>\<open>strings.LastIndex(s, sep)\<close> for a one-character separator: the
  index of its last occurrence, -1 if there is none.\<close>

fun go_last_index :: "string \<Rightarrow> char \<Rightarrow> int" where
  "go_last_index [] c = -1"
| "go_last_index (x # xs) c =
     (let r = go_last_index xs c in if 0 \<le> r then r + 1 else if x = c then 0 else -1)"

text \<open>\<open>strings.HasSuffix\<close>, written the way Go computes it.\<close>

definition has_suffix :: "string \<Rightarrow> string \<Rightarrow> bool" where
  "has_suffix s sfx \<longleftrightarrow> length sfx \<le> length s \<and> drop (length s - length sfx) s = sfx"

subsection \<open>Shared lemmas\<close>

lemma sdiv_nonneg_eq_div [go_simps]:
  "0 \<le> a \<Longrightarrow> 0 \<le> b \<Longrightarrow> a sdiv b = a div (b::int)"
  by (simp add: signed_divide_int_def sgn_if abs_of_nonneg)

lemma smod_nonneg_eq_mod [go_simps]:
  "0 \<le> a \<Longrightarrow> 0 \<le> b \<Longrightarrow> a smod b = a mod (b::int)"
  by (simp add: signed_modulo_int_def sgn_if abs_of_nonneg)

lemma go_div_nonneg [go_simps]:
  "0 \<le> a \<Longrightarrow> 0 < b \<Longrightarrow> go_div a b = Inr (a div b)"
  by (simp add: go_div_def sdiv_nonneg_eq_div)

lemma go_mod_nonneg [go_simps]:
  "0 \<le> a \<Longrightarrow> 0 < b \<Longrightarrow> go_mod a b = Inr (a mod b)"
  by (simp add: go_mod_def smod_nonneg_eq_mod)

lemma go_index_in_range [go_simps]:
  "0 \<le> i \<Longrightarrow> i < int (length xs) \<Longrightarrow> go_index xs i = Inr (xs ! nat i)"
  by (simp add: go_index_def)

lemma go_index_nat [go_simps]:
  "k < length xs \<Longrightarrow> go_index xs (int k) = Inr (xs ! k)"
  by (simp add: go_index_def)

lemma go_bind_Inr [simp, go_simps]: "go_bind (Inr a) f = f a"
  by (simp add: go_bind_def)

lemma go_bind_Inl [simp, go_simps]: "go_bind (Inl p) f = Inl p"
  by (simp add: go_bind_def)

lemma go_bind_eq_Inl [go_simps]:
  "go_bind x f = Inl p \<longleftrightarrow> x = Inl p \<or> (\<exists>a. x = Inr a \<and> f a = Inl p)"
  by (cases x) simp_all

lemma go_map_Inr:
  "(\<forall>x\<in>set xs. f x = Inr (g x)) \<Longrightarrow> go_map f xs = Inr (map g xs)"
  by (induction xs) simp_all

lemma go_split_nonempty [simp]: "go_split c s \<noteq> []"
  by (induction s) (auto split: list.split)

lemma go_split_no_sep: "c \<notin> set s \<Longrightarrow> go_split c s = [s]"
  by (induction s) auto

lemma go_split_append_sep:
  "c \<notin> set k \<Longrightarrow> go_split c (k @ c # v) = k # go_split c v"
  by (induction k) auto

lemma go_split_hd: "hd (go_split c s) = takeWhile (\<lambda>x. x \<noteq> c) s"
  by (induction s) (auto split: list.split)

lemma go_last_index_none: "c \<notin> set xs \<Longrightarrow> go_last_index xs c = -1"
  by (induction xs) (auto simp: Let_def)

lemma go_last_index_nonneg_iff: "0 \<le> go_last_index xs c \<longleftrightarrow> c \<in> set xs"
  by (induction xs) (auto simp: Let_def)

lemma go_last_index_last:
  "c \<notin> set ys \<Longrightarrow> go_last_index (xs @ c # ys) c = int (length xs)"
  by (induction xs) (simp_all add: Let_def go_last_index_none)

lemma has_suffix_iff_suffix: "has_suffix s sfx \<longleftrightarrow> suffix sfx s"
proof
  assume "has_suffix s sfx"
  then have "s = take (length s - length sfx) s @ sfx"
    unfolding has_suffix_def by (metis append_take_drop_id)
  then show "suffix sfx s" unfolding suffix_def by blast
next
  assume "suffix sfx s"
  then obtain zs where "s = zs @ sfx" unfolding suffix_def by blast
  then show "has_suffix s sfx" by (simp add: has_suffix_def)
qed

lemma sum_list_replicate_int [go_simps]:
  "sum_list (replicate n (x::int)) = int n * x"
  by (induction n) (simp_all add: algebra_simps)

end
