(* ===== verification/Strconv.thy ===== *)
theory Strconv
  imports Prelude
begin

text \<open>
  The Go standard-library conversions between integers and decimal text
  that the program relies on: the \<open>%d\<close> verb of \<open>fmt\<close> (\<open>int_digits\<close>) and
  \<open>strconv.Atoi\<close> (\<open>go_atoi\<close>, with the value the code keeps when it ignores
  the error). They are library code; they are modelled from the Go
  documentation so that the claims about \<open>DetectHost\<close>,
  \<open>extractHostAndPort\<close> and the error messages can be stated.
\<close>

text \<open>Decimal rendering of \<open>%d\<close>.\<close>

fun nat_digits :: "nat \<Rightarrow> string" where
  "nat_digits n = (if n < 10 then [char_of (48 + n)] else nat_digits (n div 10) @ [char_of (48 + n mod 10)])"

definition int_digits :: "int \<Rightarrow> string" where
  "int_digits i = (if i < 0 then CHR ''-'' # nat_digits (nat (- i)) else nat_digits (nat i))"

text \<open>\<open>strconv.Atoi\<close>: an optional sign and at least one decimal digit; any
  other string is a syntax error, for which the code keeps the value 0.
  Out-of-range values are clamped to the 64-bit bounds, as \<open>ParseInt\<close>
  returns them with its range error.\<close>

definition digit_val :: "char \<Rightarrow> int option" where
  "digit_val c = (let k = of_char c :: nat in if 48 \<le> k \<and> k \<le> 57 then Some (int k - 48) else None)"

fun digits_val :: "int \<Rightarrow> string \<Rightarrow> int option" where
  "digits_val acc [] = Some acc"
| "digits_val acc (c # cs) = (case digit_val c of None \<Rightarrow> None | Some d \<Rightarrow> digits_val (acc * 10 + d) cs)"

definition parse_decimal :: "string \<Rightarrow> int option" where
  "parse_decimal s =
     (case s of
        [] \<Rightarrow> None
      | c # cs \<Rightarrow>
          if c = CHR ''-'' then (if cs = [] then None else map_option uminus (digits_val 0 cs))
          else if c = CHR ''+'' then (if cs = [] then None else digits_val 0 cs)
          else digits_val 0 s)"

definition go_atoi :: "string \<Rightarrow> int" where
  "go_atoi s = (case parse_decimal s of None \<Rightarrow> 0 | Some n \<Rightarrow> max (- (2 ^ 63)) (min (2 ^ 63 - 1) n))"

subsection \<open>Lemmas\<close>

declare nat_digits.simps [simp del]

lemma nat_digits_lt10: "n < 10 \<Longrightarrow> nat_digits n = [char_of (48 + n)]"
  by (simp add: nat_digits.simps)

lemma nat_digits_ge10: "\<not> n < 10 \<Longrightarrow> nat_digits n = nat_digits (n div 10) @ [char_of (48 + n mod 10)]"
  by (subst nat_digits.simps) simp

lemma digits_val_append:
  "digits_val acc (xs @ ys) = (case digits_val acc xs of None \<Rightarrow> None | Some a \<Rightarrow> digits_val a ys)"
  by (induction xs arbitrary: acc) (simp_all split: option.split)

lemma digit_val_char: "n < 10 \<Longrightarrow> digit_val (char_of (48 + n)) = Some (int n)"
  by (simp add: digit_val_def of_char_of)

lemma digits_val_nat_digits: "digits_val 0 (nat_digits n) = Some (int n)"
proof (induction n rule: nat_digits.induct)
  case (1 n)
  show ?case
  proof (cases "n < 10")
    case True
    then show ?thesis by (simp add: digit_val_char nat_digits_lt10)
  next
    case False
    then have "digits_val 0 (nat_digits n) = digits_val (int (n div 10)) [char_of (48 + n mod 10)]"
      using "1.IH" by (simp add: digits_val_append nat_digits_ge10)
    also have "\<dots> = Some (int (n div 10) * 10 + int (n mod 10))" by (simp add: digit_val_char)
    also have "int (n div 10) * 10 + int (n mod 10) = int n" by presburger
    finally show ?thesis by simp
  qed
qed

lemma nat_digits_hd: "\<exists>c cs. nat_digits n = c # cs \<and> digit_val c \<noteq> None"
proof (induction n rule: nat_digits.induct)
  case (1 n)
  show ?case
  proof (cases "n < 10")
    case True
    then show ?thesis by (simp add: digit_val_char nat_digits_lt10)
  next
    case False
    with "1.IH" show ?thesis by (auto simp: nat_digits_ge10)
  qed
qed

lemma nat_digits_digits: "c \<in> set (nat_digits n) \<Longrightarrow> digit_val c \<noteq> None"
proof (induction n rule: nat_digits.induct)
  case (1 n)
  show ?case
  proof (cases "n < 10")
    case True
    with "1.prems" show ?thesis by (auto simp: digit_val_char nat_digits_lt10)
  next
    case False
    with "1.prems" "1.IH" show ?thesis by (auto simp: digit_val_char nat_digits_ge10)
  qed
qed

lemma colon_not_digit: "digit_val CHR '':'' = None" "digit_val CHR '']'' = None"
  by (simp_all add: digit_val_def)

lemma colon_notin_int_digits: "CHR '':'' \<notin> set (int_digits i)"
proof
  assume a: "CHR '':'' \<in> set (int_digits i)"
  have "CHR '':'' \<in> set (nat_digits (nat (- i))) \<or> CHR '':'' \<in> set (nat_digits (nat i))"
    using a by (auto simp: int_digits_def split: if_splits)
  then show False using nat_digits_digits colon_not_digit(1) by metis
qed

lemma digits_val_snoc_nondigit: "digit_val c = None \<Longrightarrow> digits_val acc (xs @ [c]) = None"
  by (simp add: digits_val_append split: option.split)

lemma parse_decimal_snoc_nondigit:
  "digit_val c = None \<Longrightarrow> parse_decimal (xs @ [c]) = None"
  by (cases xs) (auto simp: parse_decimal_def digits_val_snoc_nondigit digits_val_append
                      split: option.split)

lemma sign_not_digit: "digit_val CHR ''-'' = None" "digit_val CHR ''+'' = None"
  by (simp_all add: digit_val_def)

lemma parse_decimal_nat_digits: "parse_decimal (nat_digits n) = Some (int n)"
proof -
  obtain c cs where nd: "nat_digits n = c # cs" and c: "digit_val c \<noteq> None"
    using nat_digits_hd by blast
  then have "c \<noteq> CHR ''-''" "c \<noteq> CHR ''+''" using sign_not_digit by auto
  with nd show ?thesis using digits_val_nat_digits [of n] by (simp add: parse_decimal_def)
qed

lemma parse_decimal_int_digits: "parse_decimal (int_digits i) = Some i"
proof (cases "i < 0")
  case True
  obtain c cs where "nat_digits (nat (- i)) = c # cs" using nat_digits_hd by blast
  with True show ?thesis using digits_val_nat_digits [of "nat (- i)"]
    by (simp add: int_digits_def parse_decimal_def)
next
  case False
  then show ?thesis using parse_decimal_nat_digits [of "nat i"] by (simp add: int_digits_def)
qed

text \<open>\<open>strconv.Atoi\<close> reads back the decimal rendering of every 64-bit
  integer.\<close>

lemma atoi_roundtrip:
  assumes "- (2 ^ 63) \<le> i" and "i \<le> 2 ^ 63 - 1"
  shows "go_atoi (int_digits i) = i"
  using assms by (simp add: go_atoi_def parse_decimal_int_digits)

end
