(* ===== verification/LoadPlan.thy ===== *)
theory LoadPlan
  imports Strconv
begin

text \<open>
  The load plan (\<open>src/config.go\<close>): the \<open>Config\<close> struct, the package
  constants of \<open>src/benchmark.go\<close>, and the part of \<open>LoadConfig\<close> that
  turns the parsed command-line flags into a configuration and validates it
  (method selection, the time-limit request cap, the validity checks).
  Flag parsing, file reading and \<open>url.Parse\<close> are external and enter as
  parameters; \<open>extractHostAndPort\<close> is modelled. The main fact is that a
  configuration \<open>LoadConfig\<close> accepts satisfies \<open>plan_ok\<close>:
  \<open>1 \<le> concurrency \<le> requests\<close>.
\<close>

text \<open>The \<open>Config\<close> struct. The field \<open>skip_first\<close> is read by
  \<open>benchmark.go\<close> and \<open>http.go\<close> but declared nowhere and never set by
  \<open>LoadConfig\<close>: it is modelled as a field that keeps its zero value.\<close>

record config =
  requests :: int
  concurrency :: int
  timelimit :: int
  execution_timeout :: duration
  req_method :: string
  body_content :: string
  content_type :: string
  headers :: "string list"
  cookies :: "string list"
  gzip :: bool
  keep_alive :: bool
  basic_authentication :: string
  user_agent :: string
  proxy_url :: "string option"
  url :: string
  host :: string
  port :: int
  skip_first :: bool

text \<open>Package constants (\<open>src/benchmark.go\<close>).\<close>

definition GBVersion :: string where "GBVersion = ''0.1.9''"

definition MaxExecutionTimeout :: duration where
  "MaxExecutionTimeout = 30 * 1000000000"

definition MaxRequests :: int where "MaxRequests = 50000"

text \<open>The package globals set from flags \<open>-v\<close>, \<open>-G\<close> and \<open>-r\<close>.\<close>

record globals =
  verbosity :: int
  go_max_procs :: int
  continue_on_error :: bool

text \<open>The values of the parsed flags that \<open>LoadConfig\<close> reads.\<close>

record flags =
  flag_n :: int
  flag_c :: int
  flag_t :: int
  flag_p :: string
  flag_u :: string
  flag_i :: bool
  flag_x :: string
  flag_T :: string
  flag_H :: "string list"
  flag_C :: "string list"
  flag_A :: string
  flag_k :: bool
  flag_z :: bool
  flag_h :: bool

text \<open>How \<open>LoadConfig\<close> fails: \<open>ExitUsage\<close> is \<open>flagSet.Usage()\<close>
  followed by \<open>os.Exit(-1)\<close> (no URL, a string that is not a URL, a
  malformed proxy URL), \<open>ExitHelp\<close> the same with \<open>os.Exit(0)\<close> for
  \<open>-h\<close>, \<open>ConfigPanic\<close> a panic raised
  while loading (by \<open>extractHostAndPort\<close>).\<close>

datatype config_error =
    ExitUsage
  | ExitHelp
  | FileError string
  | UrlError
  | WrongArguments
  | ConcurrencyTooHigh
  | ConfigPanic go_panic

text \<open>
  The zero \<open>Config{}\<close> with the two fields \<open>LoadConfig\<close> sets first.
\<close>

definition empty_config :: "int \<Rightarrow> int \<Rightarrow> config" where
  "empty_config n c =
     \<lparr>requests = n, concurrency = c, timelimit = 0, execution_timeout = 0,
      req_method = [], body_content = [], content_type = [], headers = [], cookies = [],
      gzip = False, keep_alive = False, basic_authentication = [], user_agent = [],
      proxy_url = None, url = [], host = [], port = 0, skip_first = False\<rparr>"

text \<open>\<open>Config.SetProxy\<close>: the empty string leaves the proxy unset.\<close>

definition set_proxy :: "(string \<Rightarrow> bool) \<Rightarrow> string \<Rightarrow> config \<Rightarrow> config option" where
  "set_proxy url_ok p c =
     (if p = [] then Some c
      else if url_ok p then Some (c\<lparr>proxy_url := Some p\<rparr>) else None)"

text \<open>\<open>loadFile\<close>: \<open>ioutil.ReadFile\<close> is the parameter \<open>read_file\<close>.\<close>

definition load_file :: "(string \<Rightarrow> string option) \<Rightarrow> config \<Rightarrow> string \<Rightarrow> config_error + config" where
  "load_file read_file c f =
     (case read_file f of None \<Rightarrow> Inl (FileError f) | Some b \<Rightarrow> Inr (c\<lparr>body_content := b\<rparr>))"

text \<open>The \<open>switch\<close> that selects the method, loading a body for POST and PUT.\<close>

definition select_method :: "(string \<Rightarrow> string option) \<Rightarrow> flags \<Rightarrow> config \<Rightarrow> config_error + config" where
  "select_method read_file fl c =
     (if flag_p fl \<noteq> [] then load_file read_file (c\<lparr>req_method := ''POST''\<rparr>) (flag_p fl)
      else if flag_u fl \<noteq> [] then load_file read_file (c\<lparr>req_method := ''PUT''\<rparr>) (flag_u fl)
      else if flag_i fl then Inr (c\<lparr>req_method := ''HEAD''\<rparr>)
      else Inr (c\<lparr>req_method := ''GET''\<rparr>))"

text \<open>The time-limit rule: \<open>-t\<close> raises a default request count of 1 to \<open>MaxRequests\<close>.\<close>

definition apply_timelimit :: "int \<Rightarrow> config \<Rightarrow> config" where
  "apply_timelimit t c =
     (if t > 0 then c\<lparr>timelimit := t,
                     requests := (if requests c = 1 then MaxRequests else requests c)\<rparr>
      else c)"

text \<open>The final validation of \<open>LoadConfig\<close>.\<close>

definition validate_config :: "globals \<Rightarrow> config \<Rightarrow> config_error + config" where
  "validate_config g c =
     (if requests c < 1 \<or> concurrency c < 1 \<or> timelimit c < 0 \<or> go_max_procs g < 1 \<or> verbosity g < 0
      then Inl WrongArguments
      else if concurrency c > requests c then Inl ConcurrencyTooHigh
      else Inr c)"

text \<open>\<open>extractHostAndPort\<close> on the \<open>Scheme\<close> and \<open>Host\<close> of the parsed URL:
  a port after the last colon (read with \<open>Atoi\<close>, its error ignored), else
  the default port of the scheme; another scheme panics.\<close>

definition extract_host_and_port :: "string \<Rightarrow> string \<Rightarrow> go_panic + (string \<times> int)" where
  "extract_host_and_port scheme hostname =
     (let pos = go_last_index hostname CHR '':''
      in if pos > 0 then Inr (take (nat pos) hostname, go_atoi (drop (nat pos + 1) hostname))
         else if scheme = ''http'' then Inr (hostname, 80)
         else if scheme = ''https'' then Inr (hostname, 443)
         else Inl (CustomPanic (''unsupported protocol schema:'' @ scheme)))"

text \<open>
  \<open>LoadConfig\<close> from the point the flags are parsed and the URL string is
  known (\<open>config = &Config{}\<close> onwards). \<open>url_ok\<close> is the proxy
  \<open>url.Parse\<close>; \<open>parse_url\<close> is \<open>url.Parse\<close> of the target, giving its
  scheme and host, or \<open>None\<close> for a parse error.
\<close>

definition load_config ::
  "(string \<Rightarrow> bool) \<Rightarrow> (string \<Rightarrow> string option) \<Rightarrow> (string \<Rightarrow> (string \<times> string) option) \<Rightarrow>
   globals \<Rightarrow> flags \<Rightarrow> string \<Rightarrow> config_error + config" where
  "load_config url_ok read_file parse_url g fl u =
     (case set_proxy url_ok (flag_x fl) (empty_config (flag_n fl) (flag_c fl)) of
        None \<Rightarrow> Inl ExitUsage
      | Some c0 \<Rightarrow>
          (case select_method read_file fl c0 of
             Inl e \<Rightarrow> Inl e
           | Inr c1 \<Rightarrow>
               (let c2 = (apply_timelimit (flag_t fl) c1)
                          \<lparr>execution_timeout := MaxExecutionTimeout,
                           content_type := flag_T fl, keep_alive := flag_k fl, gzip := flag_z fl,
                           basic_authentication := flag_A fl, headers := flag_H fl,
                           cookies := flag_C fl, user_agent := ''GoHttpBench/'' @ GBVersion\<rparr>
                in case parse_url u of
                     None \<Rightarrow> Inl UrlError
                   | Some (sch, hn) \<Rightarrow>
                       (case extract_host_and_port sch hn of
                          Inl p \<Rightarrow> Inl (ConfigPanic p)
                        | Inr (h, p) \<Rightarrow> validate_config g (c2\<lparr>host := h, port := p, url := u\<rparr>)))))"

text \<open>The load-plan invariant of the specification.\<close>

definition plan_ok :: "config \<Rightarrow> bool" where
  "plan_ok c \<longleftrightarrow> 1 \<le> concurrency c \<and> concurrency c \<le> requests c \<and> 0 \<le> timelimit c"

subsection \<open>Properties of the plan\<close>

lemma validate_config_Inr:
  "validate_config g c = Inr c' \<Longrightarrow> c' = c \<and> plan_ok c"
  by (auto simp: validate_config_def plan_ok_def split: if_splits)

lemma apply_timelimit_nonneg:
  "0 \<le> timelimit c \<Longrightarrow> 0 \<le> timelimit (apply_timelimit t c)"
  by (simp add: apply_timelimit_def)

lemma select_method_fields:
  "select_method rf fl c = Inr c' \<Longrightarrow>
     requests c' = requests c \<and> concurrency c' = concurrency c \<and> timelimit c' = timelimit c"
  by (auto simp: select_method_def load_file_def split: if_splits option.splits)

lemma set_proxy_fields:
  "set_proxy ok p c = Some c' \<Longrightarrow>
     requests c' = requests c \<and> concurrency c' = concurrency c \<and> timelimit c' = timelimit c"
  by (auto simp: set_proxy_def split: if_splits)

lemma load_config_Inr_cases:
  assumes "load_config ok rf hp g fl u = Inr c"
  obtains c0 c1 h p where
    "set_proxy ok (flag_x fl) (empty_config (flag_n fl) (flag_c fl)) = Some c0"
    "select_method rf fl c0 = Inr c1" "\<exists>sch hn. hp u = Some (sch, hn) \<and> extract_host_and_port sch hn = Inr (h, p)"
    "validate_config g ((apply_timelimit (flag_t fl) c1)
        \<lparr>execution_timeout := MaxExecutionTimeout,
         content_type := flag_T fl, keep_alive := flag_k fl, gzip := flag_z fl,
         basic_authentication := flag_A fl, headers := flag_H fl,
         cookies := flag_C fl, user_agent := ''GoHttpBench/'' @ GBVersion,
         host := h, port := p, url := u\<rparr>) = Inr c"
  using assms
  by (auto simp: load_config_def Let_def split: option.splits sum.splits prod.splits)

lemma load_config_requests:
  assumes "load_config ok rf hp g fl u = Inr c"
  shows "requests c = (if flag_t fl > 0 \<and> flag_n fl = 1 then MaxRequests else flag_n fl)
       \<and> concurrency c = flag_c fl \<and> timelimit c = max 0 (flag_t fl)"
proof -
  from assms obtain c0 c1 h p where
    s: "set_proxy ok (flag_x fl) (empty_config (flag_n fl) (flag_c fl)) = Some c0" and
    m: "select_method rf fl c0 = Inr c1" and
    v: "validate_config g ((apply_timelimit (flag_t fl) c1)
        \<lparr>execution_timeout := MaxExecutionTimeout,
         content_type := flag_T fl, keep_alive := flag_k fl, gzip := flag_z fl,
         basic_authentication := flag_A fl, headers := flag_H fl,
         cookies := flag_C fl, user_agent := ''GoHttpBench/'' @ GBVersion,
         host := h, port := p, url := u\<rparr>) = Inr c"
    by (rule load_config_Inr_cases)
  from s m have "requests c1 = flag_n fl \<and> concurrency c1 = flag_c fl \<and> timelimit c1 = 0"
    by (auto dest!: set_proxy_fields select_method_fields simp: empty_config_def)
  with validate_config_Inr [OF v] show ?thesis
    by (auto simp: apply_timelimit_def)
qed

text \<open>C6: every configuration \<open>LoadConfig\<close> returns without an error
  satisfies the load-plan invariant \<open>1 \<le> concurrency \<le> requests\<close>,
  \<open>0 \<le> timelimit\<close>; the request count is the \<open>-n\<close> flag, raised to
  \<open>MaxRequests\<close> when a time limit is set and \<open>-n\<close> kept its default 1.\<close>

theorem load_config_plan_ok:
  assumes "load_config ok rf hp g fl u = Inr c"
  shows "plan_ok c \<and>
         requests c = (if flag_t fl > 0 \<and> flag_n fl = 1 then MaxRequests else flag_n fl)"
proof -
  from assms obtain c0 c1 h p where
    v: "validate_config g ((apply_timelimit (flag_t fl) c1)
        \<lparr>execution_timeout := MaxExecutionTimeout,
         content_type := flag_T fl, keep_alive := flag_k fl, gzip := flag_z fl,
         basic_authentication := flag_A fl, headers := flag_H fl,
         cookies := flag_C fl, user_agent := ''GoHttpBench/'' @ GBVersion,
         host := h, port := p, url := u\<rparr>) = Inr c"
    by (rule load_config_Inr_cases)
  from validate_config_Inr [OF v] have "plan_ok c" by simp
  with load_config_requests [OF assms] show ?thesis by simp
qed

text \<open>Witness for C6: \<open>gb -t 10 -c 8 http://localhost/\<close>.\<close>

theorem load_config_plan_ok_witness:
  "\<exists>c. load_config (\<lambda>_. True) (\<lambda>_. None) (\<lambda>_. Some (''http'', ''localhost''))
      \<lparr>verbosity = 0, go_max_procs = 4, continue_on_error = False\<rparr>
      \<lparr>flag_n = 1, flag_c = 8, flag_t = 10, flag_p = [], flag_u = [], flag_i = False,
       flag_x = [], flag_T = ''text/plain'', flag_H = [], flag_C = [], flag_A = [],
       flag_k = False, flag_z = False, flag_h = False\<rparr> ''http://localhost/'' = Inr c
     \<and> plan_ok c \<and> requests c = 50000"
proof -
  have "\<exists>c. load_config (\<lambda>_. True) (\<lambda>_. None) (\<lambda>_. Some (''http'', ''localhost''))
      \<lparr>verbosity = 0, go_max_procs = 4, continue_on_error = False\<rparr>
      \<lparr>flag_n = 1, flag_c = 8, flag_t = 10, flag_p = [], flag_u = [], flag_i = False,
       flag_x = [], flag_T = ''text/plain'', flag_H = [], flag_C = [], flag_A = [],
       flag_k = False, flag_z = False, flag_h = False\<rparr> ''http://localhost/'' = Inr c"
    by (simp add: load_config_def set_proxy_def select_method_def apply_timelimit_def
        validate_config_def empty_config_def MaxRequests_def extract_host_and_port_def)
  then obtain c where c: "load_config (\<lambda>_. True) (\<lambda>_. None) (\<lambda>_. Some (''http'', ''localhost''))
      \<lparr>verbosity = 0, go_max_procs = 4, continue_on_error = False\<rparr>
      \<lparr>flag_n = 1, flag_c = 8, flag_t = 10, flag_p = [], flag_u = [], flag_i = False,
       flag_x = [], flag_T = ''text/plain'', flag_H = [], flag_C = [], flag_A = [],
       flag_k = False, flag_z = False, flag_h = False\<rparr> ''http://localhost/'' = Inr c" ..
  with load_config_plan_ok [OF c] show ?thesis by (auto simp: MaxRequests_def)
qed

subsection \<open>Host and port\<close>

lemma extract_at_last_colon:
  assumes "CHR '':'' \<notin> set ys" and "xs \<noteq> []"
  shows "extract_host_and_port sch (xs @ CHR '':'' # ys) = Inr (xs, go_atoi ys)"
proof -
  have pos: "go_last_index (xs @ CHR '':'' # ys) CHR '':'' = int (length xs)"
    using assms(1) by (rule go_last_index_last)
  show ?thesis unfolding extract_host_and_port_def Let_def pos using assms(2) by simp
qed

text \<open>C38: \<open>extractHostAndPort\<close> splits a \<open>host:port\<close> at its last colon
  and reads the port back: for a non-empty host name and any port in the
  64-bit range, it returns exactly the host and the port, whatever the scheme.\<close>

theorem host_port_roundtrip:
  assumes "h \<noteq> []" and "- (2 ^ 63) \<le> p" and "p \<le> 2 ^ 63 - 1"
  shows "extract_host_and_port sch (h @ CHR '':'' # int_digits p) = Inr (h, p)"
proof -
  have "go_atoi (int_digits p) = p" using assms(2,3) by (rule atoi_roundtrip)
  with extract_at_last_colon [OF colon_notin_int_digits assms(1)] show ?thesis by simp
qed

text \<open>Witness for C38: \<open>http://example.com:8080/\<close>.\<close>

theorem host_port_roundtrip_witness:
  "extract_host_and_port ''http'' (''example.com'' @ CHR '':'' # int_digits 8080) = Inr (''example.com'', 8080)"
  by (rule host_port_roundtrip) simp_all

text \<open>C39: a bracketed IPv6 literal without a port is split at its last
  inner colon: the host keeps the part before it and the port, \<open>Atoi\<close> of
  the rest with the bracket, is 0 instead of the scheme's default.\<close>

theorem ipv6_host_misparsed:
  assumes "CHR '':'' \<notin> set b"
  shows "extract_host_and_port sch (''['' @ a @ CHR '':'' # b @ '']'') = Inr (''['' @ a, 0)"
proof -
  have "go_atoi (b @ '']'') = 0"
    using parse_decimal_snoc_nondigit [OF colon_not_digit(2), of b] by (simp add: go_atoi_def)
  moreover have "CHR '':'' \<notin> set (b @ '']'')" using assms by simp
  ultimately show ?thesis using extract_at_last_colon [of "b @ '']''" "''['' @ a" sch] by simp
qed

text \<open>Witness for C39: \<open>http://[::1]/\<close> is benchmarked as host \<open>[:\<close>, port 0.\<close>

theorem ipv6_host_misparsed_witness:
  "extract_host_and_port ''http'' ''[::1]'' = Inr (''[:'', 0)"
  using ipv6_host_misparsed [of "''1''" "''http''" "'':''"] by simp

end
