(* ===== verification/RunContext.thy ===== *)
theory RunContext
  imports LoadPlan
begin

text \<open>
  The campaign context (\<open>src/context.go\<close>): the startup barrier \<open>start\<close>
  (a \<open>sync.WaitGroup\<close> of \<open>concurrency + 1\<close>), the begin gate
  \<open>startRun\<close> (a \<open>WaitGroup\<close> of 1), the \<open>stop\<close> channel closed to
  broadcast shutdown, and the probe-fact store \<open>map[string]interface{}\<close>.
  A \<open>WaitGroup\<close> is its counter: \<open>Add\<close> panics when the counter would
  become negative, \<open>Wait\<close> returns once it is zero. A channel close is a
  flag; closing a closed channel panics. The \<open>RWMutex\<close> makes every
  \<open>Set\<close>/\<open>Get\<close> atomic, so each is one step on the store.
\<close>

datatype store_val = SString string | SInt int

record gb_context =
  ctx_config :: config
  start :: int
  start_run :: int
  stop_closed :: bool
  store :: "string \<rightharpoonup> store_val"

definition new_context :: "config \<Rightarrow> gb_context" where
  "new_context cfg =
     \<lparr>ctx_config = cfg, start = concurrency cfg + 1, start_run = 1,
      stop_closed = False, store = Map.empty\<rparr>"

text \<open>\<open>WaitGroup.Add\<close>, \<open>WaitGroup.Done\<close> (\<open>Add(-1)\<close>) and the release condition of \<open>Wait\<close>.\<close>

definition wg_add :: "int \<Rightarrow> int \<Rightarrow> go_panic + int" where
  "wg_add n d = (if n + d < 0 then Inl NegativeWaitGroupCounter else Inr (n + d))"

definition wg_done :: "int \<Rightarrow> go_panic + int" where
  "wg_done n = wg_add n (-1)"

definition wg_released :: "int \<Rightarrow> bool" where
  "wg_released n \<longleftrightarrow> n = 0"

text \<open>\<open>NewContext\<close>: \<open>start.Add(concurrency + 1)\<close> on a fresh \<open>WaitGroup\<close>
  panics when the count is negative; otherwise the context is
  \<open>new_context\<close>, whose \<open>startRun.Add(1)\<close> cannot fail.\<close>

definition go_new_context :: "config \<Rightarrow> go_panic + gb_context" where
  "go_new_context cfg =
     (case wg_add 0 (concurrency cfg + 1) of Inl p \<Rightarrow> Inl p | Inr _ \<Rightarrow> Inr (new_context cfg))"

text \<open>\<open>c.start.Done()\<close> and \<open>c.startRun.Done()\<close>.\<close>

definition start_done :: "gb_context \<Rightarrow> go_panic + gb_context" where
  "start_done c = (case wg_done (start c) of Inl p \<Rightarrow> Inl p | Inr n \<Rightarrow> Inr (c\<lparr>start := n\<rparr>))"

definition start_run_done :: "gb_context \<Rightarrow> go_panic + gb_context" where
  "start_run_done c =
     (case wg_done (start_run c) of Inl p \<Rightarrow> Inl p | Inr n \<Rightarrow> Inr (c\<lparr>start_run := n\<rparr>))"

text \<open>\<open>close(c.stop)\<close>.\<close>

definition close_stop :: "gb_context \<Rightarrow> go_panic + gb_context" where
  "close_stop c = (if stop_closed c then Inl CloseOfClosedChannel else Inr (c\<lparr>stop_closed := True\<rparr>))"

text \<open>\<open>SetString\<close>, \<open>GetString\<close>, \<open>SetInt\<close>, \<open>GetInt\<close>: a missing key is
  the nil interface, and the assertion \<open>.(string)\<close> or \<open>.(int)\<close> panics on it
  as on a value of the other type.\<close>

definition set_string :: "gb_context \<Rightarrow> string \<Rightarrow> string \<Rightarrow> gb_context" where
  "set_string c k v = c\<lparr>store := (store c)(k \<mapsto> SString v)\<rparr>"

definition get_string :: "gb_context \<Rightarrow> string \<Rightarrow> go_panic + string" where
  "get_string c k =
     (case store c k of Some (SString v) \<Rightarrow> Inr v | _ \<Rightarrow> Inl (InterfaceConversion k))"

definition set_int :: "gb_context \<Rightarrow> string \<Rightarrow> int \<Rightarrow> gb_context" where
  "set_int c k v = c\<lparr>store := (store c)(k \<mapsto> SInt v)\<rparr>"

definition get_int :: "gb_context \<Rightarrow> string \<Rightarrow> go_panic + int" where
  "get_int c k =
     (case store c k of Some (SInt v) \<Rightarrow> Inr v | _ \<Rightarrow> Inl (InterfaceConversion k))"

text \<open>\<open>k\<close> calls of \<open>Done\<close> on one wait group, stopping at the first panic.\<close>

fun wg_done_n :: "nat \<Rightarrow> int \<Rightarrow> go_panic + int" where
  "wg_done_n 0 n = Inr n"
| "wg_done_n (Suc k) n = (case wg_done n of Inl p \<Rightarrow> Inl p | Inr n' \<Rightarrow> wg_done_n k n')"

subsection \<open>Lemmas\<close>

lemma wg_done_n_nonneg:
  "0 \<le> n \<Longrightarrow> wg_done_n k n = (if int k \<le> n then Inr (n - int k) else Inl NegativeWaitGroupCounter)"
proof (induction k arbitrary: n)
  case 0
  then show ?case by simp
next
  case (Suc k)
  show ?case
  proof (cases "n = 0")
    case True
    then show ?thesis by (simp add: wg_done_def wg_add_def)
  next
    case False
    with Suc.prems have "0 \<le> n - 1" by simp
    with False Suc.IH [of "n - 1"] Suc.prems show ?thesis
      by (simp add: wg_done_def wg_add_def)
  qed
qed

lemma start_done_Inr:
  "start_done c = Inr c' \<longleftrightarrow> 0 < start c \<and> c' = c\<lparr>start := start c - 1\<rparr>"
  by (auto simp: start_done_def wg_done_def wg_add_def)

lemma start_run_done_Inr:
  "start_run_done c = Inr c' \<longleftrightarrow> 0 < start_run c \<and> c' = c\<lparr>start_run := start_run c - 1\<rparr>"
  by (auto simp: start_run_done_def wg_done_def wg_add_def)

lemma store_other_key [simp]:
  "k' \<noteq> k \<Longrightarrow> store (set_string c k v) k' = store c k'"
  "k' \<noteq> k \<Longrightarrow> store (set_int c k i) k' = store c k'"
  by (simp_all add: set_string_def set_int_def)

lemma get_string_set_string [simp]: "get_string (set_string c k v) k = Inr v"
  by (simp add: get_string_def set_string_def)

lemma get_int_set_int [simp]: "get_int (set_int c k v) k = Inr v"
  by (simp add: get_int_def set_int_def)

lemma store_ops_keep_sync [simp]:
  "start (set_string c k v) = start c" "start_run (set_string c k v) = start_run c"
  "stop_closed (set_string c k v) = stop_closed c" "ctx_config (set_string c k v) = ctx_config c"
  "start (set_int c k i) = start c" "start_run (set_int c k i) = start_run c"
  "stop_closed (set_int c k i) = stop_closed c" "ctx_config (set_int c k i) = ctx_config c"
  by (simp_all add: set_string_def set_int_def)

end
