(* ===== verification/Results.thy ===== *)
theory Results
  imports Prelude
begin

text \<open>
  The message type of the results queue, shared by the workers
  (\<open>src/http.go\<close>) and the monitor (\<open>src/monitor.go\<close>): the \<open>Record\<close>
  struct of \<open>src/benchmark.go\<close> and the six error wrapper types of
  \<open>src/http.go\<close>. A Go \<open>error\<close> carried by a record is either one of the
  wrappers (each holds the message of the error it wraps) or any other error
  value, e.g. a run-time error recovered from a panic (\<open>PlainError\<close>).
\<close>

datatype gb_error =
    LengthError string
  | ConnectError string
  | ReceiveError string
  | ExceptionError string
  | ResponseError string
  | ResponseTimeoutError string
  | PlainError string

text \<open>The \<open>Error()\<close> methods: every wrapper returns the wrapped message.\<close>

fun error_msg :: "gb_error \<Rightarrow> string" where
  "error_msg (LengthError m) = m"
| "error_msg (ConnectError m) = m"
| "error_msg (ReceiveError m) = m"
| "error_msg (ExceptionError m) = m"
| "error_msg (ResponseError m) = m"
| "error_msg (ResponseTimeoutError m) = m"
| "error_msg (PlainError m) = m"

record gb_record =
  response_time :: duration
  content_size :: int
  rec_error :: "gb_error option"

definition is_success :: "gb_record \<Rightarrow> bool" where
  "is_success r \<longleftrightarrow> rec_error r = None"

end
