(* ===== verification/Monitor.thy ===== *)
theory Monitor
  imports RunContext Results
begin

text \<open>
  The aggregator (\<open>src/monitor.go\<close>): the \<open>Stats\<close> accumulator,
  \<open>updateStats\<close>, and \<open>Monitor.Run\<close>: wait on the startup barrier, open the
  begin gate, consume results under the termination policy (fail-fast on an
  error unless \<open>ContinueOnError\<close>, the planned count reached, the time limit,
  an interrupt), then record the elapsed time and close \<open>stop\<close>.
  The \<open>select\<close> of the loop is driven by the sequence of events that the
  environment makes ready (\<open>mon_event\<close>); a time-limit event with no timer
  armed is a nil channel, never ready, and is skipped. The loop ends in
  \<open>LoopStopped\<close> (with the events left unread), \<open>LoopWaiting\<close> (still
  blocked in \<open>select\<close> when the events run out) or \<open>LoopPanic\<close>.
\<close>

record stats =
  response_time_data :: "duration list"
  total_requests :: int
  total_success :: int
  total_execution_time :: duration
  total_response_time :: duration
  total_received :: int
  total_failed_requests :: int
  err_length :: int
  err_length_dur :: duration
  err_connect :: int
  err_connect_dur :: duration
  err_receive :: int
  err_receive_dur :: duration
  err_exception :: int
  err_exception_dur :: duration
  err_response :: int
  err_response_dur :: duration

definition init_stats :: stats where
  "init_stats =
     \<lparr>response_time_data = [], total_requests = 0, total_success = 0,
      total_execution_time = 0, total_response_time = 0, total_received = 0,
      total_failed_requests = 0, err_length = 0, err_length_dur = 0, err_connect = 0,
      err_connect_dur = 0, err_receive = 0, err_receive_dur = 0, err_exception = 0,
      err_exception_dur = 0, err_response = 0, err_response_dur = 0\<rparr>"

text \<open>The type switch of \<open>updateStats\<close>: the failure categories.\<close>

fun count_error :: "gb_error \<Rightarrow> duration \<Rightarrow> stats \<Rightarrow> stats" where
  "count_error (ConnectError _) d s =
     s\<lparr>err_connect := err_connect s + 1, err_connect_dur := err_connect_dur s + d\<rparr>"
| "count_error (ExceptionError _) d s =
     s\<lparr>err_exception := err_exception s + 1, err_exception_dur := err_exception_dur s + d\<rparr>"
| "count_error (LengthError _) d s =
     s\<lparr>err_length := err_length s + 1, err_length_dur := err_length_dur s + d\<rparr>"
| "count_error (ReceiveError _) d s =
     s\<lparr>err_receive := err_receive s + 1, err_receive_dur := err_receive_dur s + d\<rparr>"
| "count_error (ResponseError _) d s =
     s\<lparr>err_response := err_response s + 1, err_response_dur := err_response_dur s + d\<rparr>"
| "count_error _ d s =
     s\<lparr>err_exception := err_exception s + 1, err_exception_dur := err_exception_dur s + d\<rparr>"

definition update_stats :: "stats \<Rightarrow> gb_record \<Rightarrow> stats" where
  "update_stats s r =
     (let s1 = s\<lparr>total_requests := total_requests s + 1\<rparr> in
      case rec_error r of
        Some e \<Rightarrow>
          count_error e (response_time r) (s1\<lparr>total_failed_requests := total_failed_requests s1 + 1\<rparr>)
      | None \<Rightarrow>
          s1\<lparr>total_response_time := total_response_time s1 + response_time r,
             total_received := total_received s1 + content_size r,
             response_time_data := response_time_data s1 @ [response_time r],
             total_success := total_success s1 + 1\<rparr>)"

text \<open>The progress report condition
  \<open>totalRequests >= 10 && totalRequests % (requests / 10) == 0\<close>,
  evaluated left to right with Go's short-circuit \<open>&&\<close>.\<close>

definition progress_due :: "int \<Rightarrow> int \<Rightarrow> go_panic + bool" where
  "progress_due n t =
     (if t \<ge> 10 then
        (case go_div n 10 of
           Inl p \<Rightarrow> Inl p
         | Inr d \<Rightarrow> (case go_mod t d of Inl p \<Rightarrow> Inl p | Inr m \<Rightarrow> Inr (m = 0)))
      else Inr False)"

datatype mon_event = Collected gb_record | TimeLimitFired | UserInterrupt

datatype loop_result =
    LoopStopped stats "mon_event list"
  | LoopWaiting stats
  | LoopPanic go_panic stats

text \<open>The \<open>for { select { ... } }\<close> loop; \<open>coe\<close> is \<open>ContinueOnError\<close>.\<close>

fun monitor_loop :: "bool \<Rightarrow> config \<Rightarrow> stats \<Rightarrow> mon_event list \<Rightarrow> loop_result" where
  "monitor_loop coe cfg s [] = LoopWaiting s"
| "monitor_loop coe cfg s (Collected r # es) =
     (let s' = update_stats s r in
      if rec_error r \<noteq> None \<and> \<not> coe then LoopStopped s' es
      else (case progress_due (requests cfg) (total_requests s') of
              Inl p \<Rightarrow> LoopPanic p s'
            | Inr _ \<Rightarrow>
                if total_requests s' = requests cfg then LoopStopped s' es
                else monitor_loop coe cfg s' es))"
| "monitor_loop coe cfg s (TimeLimitFired # es) =
     (if timelimit cfg > 0 then LoopStopped s es else monitor_loop coe cfg s es)"
| "monitor_loop coe cfg s (UserInterrupt # es) = LoopStopped s es"

datatype mon_outcome =
    MonBlocked \<comment> \<open>still in \<open>m.c.start.Wait()\<close>\<close>
  | MonRunning stats
  | MonPanic go_panic
  | MonDone stats gb_context

text \<open>
  \<open>Monitor.Run\<close>: \<open>elapsed\<close> is what the stopwatch reads at \<open>sw.Stop()\<close>.
  Before the barrier wait, \<open>make([]time.Duration, 0, requests)\<close> panics on a
  negative capacity. The stats handed to \<open>m.Output\<close> and the context after \<open>close(m.c.stop)\<close>
  are the result.
\<close>

definition monitor_run :: "bool \<Rightarrow> gb_context \<Rightarrow> duration \<Rightarrow> mon_event list \<Rightarrow> mon_outcome" where
  "monitor_run coe c elapsed es =
     (if requests (ctx_config c) < 0 then MonPanic MakeSliceCapOutOfRange
      else if \<not> wg_released (start c) then MonBlocked
      else case start_run_done c of
        Inl p \<Rightarrow> MonPanic p
      | Inr c1 \<Rightarrow>
          (case monitor_loop coe (ctx_config c) init_stats es of
             LoopWaiting s \<Rightarrow> MonRunning s
           | LoopPanic p s \<Rightarrow> MonPanic p
           | LoopStopped s _ \<Rightarrow>
               (case close_stop c1 of
                  Inl p \<Rightarrow> MonPanic p
                | Inr c2 \<Rightarrow> MonDone (s\<lparr>total_execution_time := elapsed\<rparr>) c2)))"

text \<open>The accounting invariant of \<open>Stats\<close>.\<close>

definition stats_inv :: "stats \<Rightarrow> bool" where
  "stats_inv s \<longleftrightarrow>
     total_requests s = total_success s + total_failed_requests s \<and>
     total_failed_requests s =
       err_length s + err_connect s + err_receive s + err_exception s + err_response s \<and>
     total_success s = int (length (response_time_data s)) \<and>
     total_response_time s = sum_list (response_time_data s) \<and>
     0 \<le> total_failed_requests s"

text \<open>The stats a loop result carries.\<close>

fun loop_stats :: "loop_result \<Rightarrow> stats" where
  "loop_stats (LoopStopped s _) = s"
| "loop_stats (LoopWaiting s) = s"
| "loop_stats (LoopPanic _ s) = s"

subsection \<open>Accounting\<close>

lemma count_error_frame [simp]:
  "total_requests (count_error e d s) = total_requests s"
  "total_success (count_error e d s) = total_success s"
  "total_failed_requests (count_error e d s) = total_failed_requests s"
  "response_time_data (count_error e d s) = response_time_data s"
  "total_response_time (count_error e d s) = total_response_time s"
  "total_received (count_error e d s) = total_received s"
  by (cases e; simp)+

lemma count_error_categories:
  "err_length (count_error e d s) + err_connect (count_error e d s) + err_receive (count_error e d s)
     + err_exception (count_error e d s) + err_response (count_error e d s)
   = err_length s + err_connect s + err_receive s + err_exception s + err_response s + 1"
  by (cases e) simp_all

lemma update_stats_total_requests [simp]:
  "total_requests (update_stats s r) = total_requests s + 1"
  by (simp add: update_stats_def Let_def split: option.split)

lemma update_stats_success:
  "rec_error r = None \<Longrightarrow> update_stats s r =
     s\<lparr>total_requests := total_requests s + 1,
       total_response_time := total_response_time s + response_time r,
       total_received := total_received s + content_size r,
       response_time_data := response_time_data s @ [response_time r],
       total_success := total_success s + 1\<rparr>"
  by (simp add: update_stats_def)

lemma update_stats_error:
  "rec_error r = Some e \<Longrightarrow> update_stats s r =
     count_error e (response_time r)
       (s\<lparr>total_requests := total_requests s + 1,
          total_failed_requests := total_failed_requests s + 1\<rparr>)"
  by (simp add: update_stats_def)

lemma init_stats_fields [simp]:
  "total_requests init_stats = 0" "total_success init_stats = 0"
  "total_failed_requests init_stats = 0" "response_time_data init_stats = []"
  "total_response_time init_stats = 0" "total_received init_stats = 0"
  "err_length init_stats = 0" "err_connect init_stats = 0" "err_receive init_stats = 0"
  "err_exception init_stats = 0" "err_response init_stats = 0"
  by (simp_all add: init_stats_def)

lemma init_stats_inv: "stats_inv init_stats"
  by (simp add: stats_inv_def)

lemma update_stats_keeps_inv:
  assumes "stats_inv s" shows "stats_inv (update_stats s r)"
proof (cases "rec_error r")
  case None
  with assms show ?thesis by (simp add: stats_inv_def update_stats_success)
next
  case (Some e)
  with assms show ?thesis
    using count_error_categories [of e "response_time r"
        "s\<lparr>total_requests := total_requests s + 1,
           total_failed_requests := total_failed_requests s + 1\<rparr>"]
    by (simp add: stats_inv_def update_stats_error)
qed

lemma foldl_update_stats_total [simp]:
  "total_requests (foldl update_stats s rs) = total_requests s + int (length rs)"
  by (induction rs arbitrary: s) simp_all

lemma foldl_update_stats_inv:
  "stats_inv s \<Longrightarrow> stats_inv (foldl update_stats s rs)"
  by (induction rs arbitrary: s) (simp_all add: update_stats_keeps_inv)

lemma foldl_update_stats_successes:
  "\<forall>r\<in>set rs. rec_error r = None \<Longrightarrow>
     response_time_data (foldl update_stats s rs) = response_time_data s @ map response_time rs \<and>
     total_success (foldl update_stats s rs) = total_success s + int (length rs) \<and>
     total_failed_requests (foldl update_stats s rs) = total_failed_requests s \<and>
     total_received (foldl update_stats s rs) = total_received s + sum_list (map content_size rs) \<and>
     total_response_time (foldl update_stats s rs) = total_response_time s + sum_list (map response_time rs)"
  by (induction rs arbitrary: s) (simp_all add: update_stats_success algebra_simps)

subsection \<open>The termination policy\<close>

lemma progress_due_defined:
  assumes "1 \<le> t" "t \<le> n" shows "\<exists>b. progress_due n t = Inr b"
proof (cases "t \<ge> 10")
  case True
  with assms have "0 < n div 10" by simp
  with True assms show ?thesis by (simp add: progress_due_def go_div_nonneg go_mod_nonneg)
next
  case False
  then show ?thesis by (auto simp: progress_due_def)
qed

text \<open>Records that do not stop the loop are consumed one by one.\<close>

lemma monitor_loop_prefix:
  assumes "\<forall>r\<in>set rs. rec_error r = None \<or> coe"
    and "0 \<le> total_requests s" and "total_requests s + int (length rs) < requests cfg"
  shows "monitor_loop coe cfg s (map Collected rs @ es) = monitor_loop coe cfg (foldl update_stats s rs) es"
  using assms
proof (induction rs arbitrary: s)
  case Nil
  then show ?case by simp
next
  case (Cons r rs)
  let ?s' = "update_stats s r"
  from Cons.prems have "1 \<le> total_requests ?s'" "total_requests ?s' \<le> requests cfg"
    by simp_all
  then obtain b where "progress_due (requests cfg) (total_requests ?s') = Inr b"
    using progress_due_defined by blast
  with Cons.prems have "monitor_loop coe cfg s (map Collected (r # rs) @ es)
      = monitor_loop coe cfg ?s' (map Collected rs @ es)"
    by (auto simp: Let_def)
  also have "\<dots> = monitor_loop coe cfg (foldl update_stats ?s' rs) es"
    using Cons.prems by (intro Cons.IH) auto
  finally show ?case by simp
qed

lemma monitor_loop_last:
  assumes "rec_error r = None \<or> coe" and "0 \<le> total_requests s"
    and "total_requests s + 1 = requests cfg"
  shows "monitor_loop coe cfg s (Collected r # es) = LoopStopped (update_stats s r) es"
proof -
  from assms obtain b where "progress_due (requests cfg) (total_requests (update_stats s r)) = Inr b"
    using progress_due_defined [of "total_requests s + 1" "requests cfg"] by auto
  with assms show ?thesis by (auto simp: Let_def)
qed

text \<open>With every result a success, the loop consumes exactly the planned
  number of results and stops with their fold.\<close>

lemma monitor_loop_all_success:
  assumes "\<forall>r\<in>set rs. rec_error r = None" and "requests cfg = int (length rs)" and "rs \<noteq> []"
  shows "monitor_loop coe cfg init_stats (map Collected rs @ es)
           = LoopStopped (foldl update_stats init_stats rs) es"
proof -
  from assms(3) obtain rs' r where rs: "rs = rs' @ [r]" by (cases rs rule: rev_cases) auto
  let ?s = "foldl update_stats init_stats rs'"
  have pre: "monitor_loop coe cfg init_stats (map Collected rs' @ (Collected r # es))
       = monitor_loop coe cfg ?s (Collected r # es)"
    using assms rs by (intro monitor_loop_prefix) auto
  have last: "monitor_loop coe cfg ?s (Collected r # es) = LoopStopped (update_stats ?s r) es"
    using assms rs by (intro monitor_loop_last) auto
  have eq: "map Collected rs @ es = map Collected rs' @ (Collected r # es)" using rs by simp
  have fold_eq: "foldl update_stats init_stats rs = update_stats ?s r" using rs by simp
  show ?thesis unfolding eq fold_eq pre last by (rule refl)
qed

text \<open>C1: with every result a success, the monitor stops exactly when the
  planned number of results has been consumed; it then counts every one of them
  as attempted and successful, keeps their latencies in arrival order, and
  leaves the later events unread.\<close>

theorem monitor_stops_at_requests:
  assumes "\<forall>r\<in>set rs. rec_error r = None" and "requests cfg = int (length rs)" and "rs \<noteq> []"
  shows "\<exists>s. monitor_loop coe cfg init_stats (map Collected rs @ es) = LoopStopped s es
           \<and> total_requests s = requests cfg \<and> total_success s = requests cfg
           \<and> total_failed_requests s = 0 \<and> response_time_data s = map response_time rs
           \<and> stats_inv s"
proof -
  have "monitor_loop coe cfg init_stats (map Collected rs @ es)
       = LoopStopped (foldl update_stats init_stats rs) es"
    using assms by (rule monitor_loop_all_success)
  moreover have "stats_inv (foldl update_stats init_stats rs)"
    by (intro foldl_update_stats_inv init_stats_inv)
  ultimately show ?thesis
    using assms foldl_update_stats_successes [of rs init_stats] by simp
qed

text \<open>Witness for C1: three successful results of a plan of three requests.\<close>

theorem monitor_stops_at_requests_witness:
  "\<exists>s. monitor_loop False (empty_config 3 2) init_stats
         (map Collected (replicate 3 \<lparr>response_time = 50, content_size = 12, rec_error = None\<rparr>)
          @ [UserInterrupt]) = LoopStopped s [UserInterrupt]
     \<and> total_requests s = 3 \<and> total_success s = 3 \<and> total_failed_requests s = 0
     \<and> response_time_data s = [50, 50, 50] \<and> stats_inv s"
  using monitor_stops_at_requests
    [of "replicate 3 \<lparr>response_time = 50, content_size = 12, rec_error = None\<rparr>"
        "empty_config 3 2" False "[UserInterrupt]"]
  by (simp add: empty_config_def numeral_3_eq_3)

lemma monitor_loop_stats_inv:
  "stats_inv s \<Longrightarrow> stats_inv (loop_stats (monitor_loop coe cfg s es))"
  by (induction coe cfg s es rule: monitor_loop.induct)
     (auto simp: Let_def update_stats_keeps_inv split: sum.split)

text \<open>C2: whatever the events, the stats the monitor holds (when it stops,
  while it waits, or when it panics) satisfy the accounting invariant:
  attempted = succeeded + failed, failed = the sum of the five categories,
  one latency sample per success, and the response-time total is the sum of
  the samples.\<close>

theorem monitor_stats_consistent:
  "stats_inv (loop_stats (monitor_loop coe cfg init_stats es))"
  by (intro monitor_loop_stats_inv init_stats_inv)

text \<open>C3: with \<open>ContinueOnError\<close> unset, the first failed result stops the
  monitor: the results before it were counted as successes and it is the one
  failure.\<close>

theorem monitor_fail_fast:
  assumes "\<forall>r\<in>set rs. rec_error r = None" and "rec_error e \<noteq> None"
    and "int (length rs) < requests cfg"
  shows "\<exists>s. monitor_loop False cfg init_stats (map Collected (rs @ [e]) @ es) = LoopStopped s es
           \<and> total_requests s = int (length rs) + 1 \<and> total_success s = int (length rs)
           \<and> total_failed_requests s = 1 \<and> stats_inv s"
proof -
  let ?s = "foldl update_stats init_stats rs"
  have pre: "monitor_loop False cfg init_stats (map Collected rs @ (Collected e # es))
       = monitor_loop False cfg ?s (Collected e # es)"
    using assms by (intro monitor_loop_prefix) auto
  have stop: "monitor_loop False cfg ?s (Collected e # es) = LoopStopped (update_stats ?s e) es"
    using assms(2) by (simp add: Let_def)
  from assms(2) obtain err where err: "rec_error e = Some err" by auto
  have inv: "stats_inv (update_stats ?s e)"
    by (intro update_stats_keeps_inv foldl_update_stats_inv init_stats_inv)
  show ?thesis
    using pre stop inv err foldl_update_stats_successes [OF assms(1), of init_stats]
    by (simp add: update_stats_error)
qed

text \<open>Witness for C3: the third result of a plan of ten is a 500.\<close>

theorem monitor_fail_fast_witness:
  "\<exists>s. monitor_loop False (empty_config 10 2) init_stats
        (map Collected (replicate 2 \<lparr>response_time = 50, content_size = 12, rec_error = None\<rparr>
           @ [\<lparr>response_time = 7, content_size = 0, rec_error = Some (ResponseError ''Response is 500'')\<rparr>]))
        = LoopStopped s []
     \<and> total_requests s = 3 \<and> total_success s = 2 \<and> total_failed_requests s = 1 \<and> stats_inv s"
  using monitor_fail_fast
    [of "replicate 2 \<lparr>response_time = 50, content_size = 12, rec_error = None\<rparr>"
        "\<lparr>response_time = 7, content_size = 0, rec_error = Some (ResponseError ''Response is 500'')\<rparr>"
        "empty_config 10 2" "[]"]
  by (simp add: empty_config_def numeral_2_eq_2)

text \<open>C4: the progress report \<open>totalRequests % (requests / 10)\<close> never
  divides by zero while fewer results than planned have been consumed, so a
  monitor started with a valid plan never panics, whatever the events.\<close>

theorem monitor_loop_never_panics:
  "0 \<le> total_requests s \<Longrightarrow> total_requests s < requests cfg \<Longrightarrow>
     monitor_loop coe cfg s es \<noteq> LoopPanic p s'"
proof (induction coe cfg s es rule: monitor_loop.induct)
  case (2 coe cfg s r es)
  let ?s' = "update_stats s r"
  from "2.prems" obtain b where b: "progress_due (requests cfg) (total_requests ?s') = Inr b"
    using progress_due_defined [of "total_requests ?s'" "requests cfg"] by auto
  show ?case
  proof (cases "(rec_error r \<noteq> None \<and> \<not> coe) \<or> total_requests ?s' = requests cfg")
    case True
    with b show ?thesis by (auto simp: Let_def)
  next
    case False
    with "2.prems" have "0 \<le> total_requests ?s'" "total_requests ?s' < requests cfg" by auto
    with False b "2.IH" [OF refl] show ?thesis by (auto simp: Let_def)
  qed
qed simp_all

text \<open>Witness for C4: a plan of one request, fed two results.\<close>

theorem monitor_loop_never_panics_witness:
  "monitor_loop True (empty_config 1 1) init_stats
     [Collected \<lparr>response_time = 5, content_size = 0, rec_error = None\<rparr>,
      Collected \<lparr>response_time = 5, content_size = 0, rec_error = None\<rparr>]
   \<noteq> LoopPanic DivideByZero init_stats"
  by (rule monitor_loop_never_panics) (simp_all add: empty_config_def)

text \<open>C5: a result carrying a \<open>ResponseTimeoutError\<close> has no case of its
  own in \<open>updateStats\<close>: it is counted, with its latency, as an exception.\<close>

theorem timeout_counted_as_exception:
  "rec_error r = Some (ResponseTimeoutError m) \<Longrightarrow>
     err_exception (update_stats s r) = err_exception s + 1 \<and>
     err_exception_dur (update_stats s r) = err_exception_dur s + response_time r \<and>
     err_connect (update_stats s r) = err_connect s \<and>
     err_response (update_stats s r) = err_response s \<and>
     total_failed_requests (update_stats s r) = total_failed_requests s + 1"
  by (simp add: update_stats_error)

theorem timeout_counted_as_exception_witness:
  "err_exception (update_stats init_stats
      \<lparr>response_time = 0, content_size = 0, rec_error = Some (ResponseTimeoutError ''execution timeout'')\<rparr>) = 1"
  using timeout_counted_as_exception
    [of "\<lparr>response_time = 0, content_size = 0, rec_error = Some (ResponseTimeoutError ''execution timeout'')\<rparr>"
        "''execution timeout''" init_stats]
  by simp

end
