(* ===== verification/Report.thy ===== *)
theory Report
  imports Complex_Main Monitor
begin

text \<open>
  The statistics reducer (\<open>src/report.go\<close>): \<open>div\<close>, \<open>stdDev\<close>, and the
  numeric part of \<open>PrintReport\<close> (mean, median, min, max and the percentile
  table, computed over the sorted samples when there is at least one sample
  and the total response time is positive). Go's \<open>float64\<close> arithmetic is
  modelled by real arithmetic; integer divisions truncate (\<open>sdiv\<close>) and
  panic on zero; slice indexing is bounds-checked (\<open>go_index\<close>).
  \<open>sort.Sort(durationSlice(...))\<close> yields the unique ascending permutation,
  HOL's \<open>sort\<close>. Formatting and printing are not modelled.
\<close>

definition report_div :: "duration \<Rightarrow> int \<Rightarrow> real" where
  "report_div dur count =
     (if count = 0 then 0 else real_of_int dur / 1000000 / real_of_int count)"

text \<open>\<open>stdDev\<close>: the mean is an integer division, converted to float afterwards.\<close>

definition std_dev :: "duration list \<Rightarrow> go_panic + real" where
  "std_dev data =
     go_bind (go_div (sum_list data) (int (length data)))
       (\<lambda>a. Inr (sqrt (sum_list (map (\<lambda>d. (real_of_int d - real_of_int a)\<^sup>2) data)
                        / real (length data))))"

definition percentages :: "int list" where
  "percentages = [50, 66, 75, 80, 90, 95, 98, 99]"

record latency_report =
  lr_std_dev :: real
  lr_mean :: int
  lr_median :: int
  lr_min :: int
  lr_max :: int
  lr_percentiles :: "(int \<times> int) list"

text \<open>The block of \<open>PrintReport\<close> under \<open>len(responseTimeData) > 0 &&
  totalResponseTime > 0\<close>; \<open>Inr None\<close> when the block is skipped.\<close>

definition report_latencies :: "stats \<Rightarrow> go_panic + latency_report option" where
  "report_latencies s =
     (let data = response_time_data s in
      if \<not> (0 < length data \<and> 0 < total_response_time s) then Inr None
      else
        go_bind (std_dev data) (\<lambda>sd.
        let sorted = sort data; n = int (length sorted) in
        go_bind (go_div (total_response_time s) (total_requests s - total_failed_requests s)) (\<lambda>m.
        go_bind (go_index sorted (n sdiv 2)) (\<lambda>med.
        go_bind (go_index sorted 0) (\<lambda>mn.
        go_bind (go_index sorted (n - 1)) (\<lambda>mx.
        go_bind (go_map (\<lambda>p. go_index sorted (p * n sdiv 100)) percentages) (\<lambda>ps.
        Inr (Some \<lparr>lr_std_dev = sd / 1000000, lr_mean = m sdiv 1000000,
                   lr_median = med sdiv 1000000, lr_min = mn sdiv 1000000,
                   lr_max = mx sdiv 1000000,
                   lr_percentiles = zip percentages (map (\<lambda>v. v sdiv 1000000) ps)
                                    @ [(100, mx sdiv 1000000)]\<rparr>))))))))"

text \<open>The report the block computes from the sorted samples, the standard
  deviation and the mean, once every index is known to be in range.\<close>

definition summary :: "real \<Rightarrow> int \<Rightarrow> duration list \<Rightarrow> latency_report" where
  "summary sd m xs =
     (let n = int (length xs) in
      \<lparr>lr_std_dev = sd / 1000000, lr_mean = m sdiv 1000000,
       lr_median = xs ! nat (n sdiv 2) sdiv 1000000, lr_min = xs ! 0 sdiv 1000000,
       lr_max = xs ! nat (n - 1) sdiv 1000000,
       lr_percentiles = map (\<lambda>p. (p, xs ! nat (p * n sdiv 100) sdiv 1000000)) percentages
                        @ [(100, xs ! nat (n - 1) sdiv 1000000)]\<rparr>)"

subsection \<open>Standard deviation\<close>

lemma std_dev_Nil: "std_dev [] = Inl DivideByZero"
  by (simp add: std_dev_def go_div_def)

lemma std_dev_nonempty:
  "data \<noteq> [] \<Longrightarrow>
     std_dev data = Inr (sqrt (sum_list (map (\<lambda>d. (real_of_int d - real_of_int (sum_list data sdiv int (length data)))\<^sup>2) data)
                              / real (length data)))"
  by (simp add: std_dev_def go_div_def)

lemma sdiv_mult_cancel: "0 < (n::int) \<Longrightarrow> (n * c) sdiv n = c"
  by (simp add: signed_divide_int_def abs_mult sgn_mult sgn_mult_abs)

text \<open>The standard deviation of a non-empty list of equal samples (one
  sample in particular) is 0; on an empty list \<open>stdDev\<close> does not return 0
  but panics with an integer division by zero.\<close>

lemma std_dev_constant:
  "(data \<noteq> [] \<and> (\<forall>d\<in>set data. d = c) \<longrightarrow> std_dev data = Inr 0) \<and> std_dev [] = Inl DivideByZero"
proof -
  have "std_dev data = Inr 0" if ne: "data \<noteq> []" and eq: "\<forall>d\<in>set data. d = c"
  proof -
    have rep: "data = replicate (length data) c" using eq by (simp add: replicate_length_same)
    then have "sum_list data = int (length data) * c" by (metis sum_list_replicate_int)
    then have sd: "sum_list data sdiv int (length data) = c" using ne by (simp add: sdiv_mult_cancel)
    have meq: "map (\<lambda>d. (real_of_int d - real_of_int c)\<^sup>2) data = map (\<lambda>d. 0) data"
      by (rule map_cong) (simp_all add: eq)
    have "std_dev data = Inr (sqrt (sum_list (map (\<lambda>d. (real_of_int d - real_of_int (sum_list data sdiv int (length data)))\<^sup>2) data)
                              / real (length data)))"
      by (rule std_dev_nonempty [OF ne])
    also have "\<dots> = Inr (sqrt (sum_list (map (\<lambda>d. (real_of_int d - real_of_int c)\<^sup>2) data) / real (length data)))"
      by (simp only: sd)
    also have "\<dots> = Inr 0" unfolding meq by simp
    finally show ?thesis .
  qed
  then show ?thesis using std_dev_Nil by blast
qed


subsection \<open>Percentiles\<close>

lemma pct_index:
  assumes "0 \<le> p" and "p < 100" and "0 < n"
  shows "p * int n sdiv 100 = int (nat p * n div 100) \<and> nat p * n div 100 < n"
proof
  have "p * int n sdiv 100 = p * int n div 100" using assms by (simp add: sdiv_nonneg_eq_div)
  also have "\<dots> = int (nat p * n) div 100" using assms by simp
  also have "\<dots> = int (nat p * n div 100)" by (simp add: zdiv_int)
  finally show "p * int n sdiv 100 = int (nat p * n div 100)" .
  have "nat p * n < n * 100" using assms by simp
  then show "nat p * n div 100 < n" by (simp add: div_less_iff_less_mult)
qed

lemma percentages_range: "p \<in> set percentages \<Longrightarrow> 0 \<le> p \<and> p < 100"
  by (auto simp: percentages_def)

lemma sdiv_mono:
  assumes "a \<le> b" and "0 < (k::int)"
  shows "a sdiv k \<le> b sdiv k"
proof -
  have eq: "x sdiv k = (if 0 \<le> x then x div k else - ((- x) div k))" for x
    using \<open>0 < k\<close> by (auto simp: signed_divide_int_def sgn_if)
  show ?thesis
  proof (cases "0 \<le> a")
    case True
    with assms show ?thesis by (simp add: eq zdiv_mono1)
  next
    case False
    show ?thesis
    proof (cases "0 \<le> b")
      case True
      have "0 \<le> (- a) div k" using False \<open>0 < k\<close> by (simp add: pos_imp_zdiv_nonneg_iff)
      moreover have "0 \<le> b div k" using True \<open>0 < k\<close> by (simp add: pos_imp_zdiv_nonneg_iff)
      ultimately show ?thesis using False True by (simp add: eq)
    next
      case b: False
      from assms have "- b \<le> - a" by simp
      with False b assms show ?thesis by (simp add: eq zdiv_mono1)
    qed
  qed
qed

lemma report_latencies_nonempty:
  assumes "response_time_data s \<noteq> []" and "0 < total_response_time s"
  shows "report_latencies s =
           go_bind (std_dev (response_time_data s)) (\<lambda>sd.
           go_bind (go_div (total_response_time s) (total_requests s - total_failed_requests s)) (\<lambda>m.
           Inr (Some (summary sd m (sort (response_time_data s))))))"
proof -
  let ?xs = "sort (response_time_data s)"
  let ?n = "length ?xs"
  have n: "0 < ?n" using assms(1) by simp
  have half: "int ?n div 2 < int ?n" using n by arith
  have med: "go_index ?xs (int ?n sdiv 2) = Inr (?xs ! nat (int ?n sdiv 2))"
    using n half by (intro go_index_in_range) (simp_all add: sdiv_nonneg_eq_div)
  have mn: "go_index ?xs 0 = Inr (?xs ! 0)" using n by (simp add: go_index_def)
  have mx: "go_index ?xs (int ?n - 1) = Inr (?xs ! nat (int ?n - 1))"
    using n by (intro go_index_in_range) simp_all
  have ps: "go_map (\<lambda>p. go_index ?xs (p * int ?n sdiv 100)) percentages
             = Inr (map (\<lambda>p. ?xs ! nat (p * int ?n sdiv 100)) percentages)"
  proof (rule go_map_Inr, intro ballI)
    fix p assume "p \<in> set percentages"
    then have "0 \<le> p" "p < 100" by (simp_all add: percentages_range)
    from pct_index [OF this n] show "go_index ?xs (p * int ?n sdiv 100) = Inr (?xs ! nat (p * int ?n sdiv 100))"
      by (simp add: go_index_def)
  qed
  show ?thesis
    using assms med mn mx ps
    by (simp add: report_latencies_def summary_def Let_def zip_map2 zip_same_conv_map o_def
)
qed

lemma sorted_nth_Min: "sorted xs \<Longrightarrow> xs \<noteq> [] \<Longrightarrow> xs ! 0 = Min (set xs)"
  by (rule Min_eqI [symmetric]) (auto simp: in_set_conv_nth intro: sorted_nth_mono)

lemma sorted_nth_Max:
  assumes "sorted xs" and "xs \<noteq> []" shows "xs ! (length xs - 1) = Max (set xs)"
proof (rule Max_eqI [symmetric])
  show "finite (set xs)" by simp
  show "xs ! (length xs - 1) \<in> set xs" using assms(2) by simp
  fix y assume "y \<in> set xs"
  then obtain i where "i < length xs" "y = xs ! i" by (auto simp: in_set_conv_nth)
  with assms(1) show "y \<le> xs ! (length xs - 1)" by (simp add: sorted_nth_mono)
qed

lemma summary_monotone:
  assumes "sorted xs" and "xs \<noteq> []"
  shows "sorted (map snd (lr_percentiles (summary sd m xs)))
         \<and> lr_min (summary sd m xs) \<le> lr_median (summary sd m xs)
         \<and> lr_median (summary sd m xs) \<le> lr_max (summary sd m xs)"
proof -
  let ?n = "length xs"
  let ?f = "\<lambda>p. xs ! nat (p * int ?n sdiv 100) sdiv 1000000"
  have n: "0 < ?n" using assms(2) by simp
  have last_idx: "nat (int ?n - 1) = ?n - 1" using n by simp
  have val: "xs ! i sdiv 1000000 \<le> xs ! j sdiv 1000000" if "i \<le> j" "j < ?n" for i j
    using that assms(1) by (intro sdiv_mono sorted_nth_mono) simp_all
  have idx: "nat (p * int ?n sdiv 100) = nat p * ?n div 100 \<and> nat p * ?n div 100 < ?n"
    if "p \<in> set percentages" for p
    using pct_index [OF _ _ n, of p] percentages_range [OF that] by simp
  have mono: "?f p \<le> ?f q" if "p \<in> set percentages" "q \<in> set percentages" "p \<le> q" for p q
  proof -
    have "nat p * ?n div 100 \<le> nat q * ?n div 100" using that(3) by (intro div_le_mono mult_le_mono1) simp
    with idx [OF that(1)] idx [OF that(2)] show ?thesis by (simp add: val)
  qed
  have "sorted (map ?f percentages)"
    unfolding sorted_map
    by (rule sorted_wrt_mono_rel [of _ "(\<le>)"]) (auto simp: mono percentages_def)
  moreover have "?f p \<le> xs ! nat (int ?n - 1) sdiv 1000000" if "p \<in> set percentages" for p
  proof -
    from idx [OF that] have "nat p * ?n div 100 \<le> ?n - 1" by linarith
    with val [of "nat p * ?n div 100" "?n - 1"] idx [OF that] n show ?thesis by (simp add: last_idx)
  qed
  moreover have "nat (int ?n sdiv 2) = ?n div 2" by (simp add: sdiv_nonneg_eq_div nat_div_distrib)
  ultimately show ?thesis
    using n by (auto simp: summary_def Let_def sorted_append o_def val last_idx)
qed

lemma report_latencies_defined:
  assumes "stats_inv s" and "response_time_data s \<noteq> []" and "0 < total_response_time s"
  shows "\<exists>sd. report_latencies s =
           Inr (Some (summary sd (total_response_time s sdiv int (length (response_time_data s)))
                       (sort (response_time_data s))))"
proof -
  obtain sd where sd: "std_dev (response_time_data s) = Inr sd"
    using std_dev_nonempty [OF assms(2)] by blast
  have den: "total_requests s - total_failed_requests s = int (length (response_time_data s))"
    using assms(1) by (simp add: stats_inv_def)
  have "go_div (total_response_time s) (int (length (response_time_data s)))
        = Inr (total_response_time s sdiv int (length (response_time_data s)))"
    using assms(2) by (simp add: go_div_def)
  with report_latencies_nonempty [OF assms(2,3)] sd den show ?thesis by auto
qed

text \<open>C21: for the stats of a campaign with at least one success and a
  positive total response time, the latency block of \<open>PrintReport\<close> never
  panics: every index it uses is in range. Each percentile \<open>p\<close> of the
  table is the nearest-rank sample \<open>sorted[p * len / 100]\<close> (in whole
  milliseconds), the 100\% row, like the maximum, is the longest latency, the
  minimum is the shortest, and the mean is the success-only mean.\<close>

theorem report_percentiles_nearest_rank:
  assumes "stats_inv s" and "response_time_data s \<noteq> []" and "0 < total_response_time s"
  shows "\<exists>r. report_latencies s = Inr (Some r)
    \<and> lr_percentiles r =
        map (\<lambda>p. (p, sort (response_time_data s) ! (nat p * length (response_time_data s) div 100) sdiv 1000000))
            percentages
        @ [(100, Max (set (response_time_data s)) sdiv 1000000)]
    \<and> lr_min r = Min (set (response_time_data s)) sdiv 1000000
    \<and> lr_max r = Max (set (response_time_data s)) sdiv 1000000
    \<and> lr_mean r = (total_response_time s sdiv int (length (response_time_data s))) sdiv 1000000"
proof -
  let ?d = "response_time_data s"
  let ?xs = "sort ?d"
  obtain sd where rep: "report_latencies s =
      Inr (Some (summary sd (total_response_time s sdiv int (length ?d)) ?xs))"
    using report_latencies_defined [OF assms] by blast
  have ne: "?xs \<noteq> []" using assms(2) by (metis length_0_conv length_sort)
  have li: "nat (int (length ?xs) - 1) = length ?xs - 1" using ne by simp
  have mx: "?xs ! nat (int (length ?xs) - 1) = Max (set ?d)"
    using sorted_nth_Max [OF sorted_sort ne] unfolding li by simp
  have mn: "?xs ! 0 = Min (set ?d)" using sorted_nth_Min [OF sorted_sort ne] by simp
  have ps: "map (\<lambda>p. (p, ?xs ! nat (p * int (length ?xs) sdiv 100) sdiv 1000000)) percentages
          = map (\<lambda>p. (p, ?xs ! (nat p * length ?d div 100) sdiv 1000000)) percentages"
  proof (rule map_cong [OF refl])
    fix p assume "p \<in> set percentages"
    with percentages_range have "0 \<le> p" "p < 100" by auto
    with pct_index [of p "length ?d"] assms(2)
    show "(p, ?xs ! nat (p * int (length ?xs) sdiv 100) sdiv 1000000)
          = (p, ?xs ! (nat p * length ?d div 100) sdiv 1000000)" by simp
  qed
  show ?thesis using rep mx mn ps by (simp add: summary_def Let_def)
qed

text \<open>Whenever the latency block is printed, its percentile column is
  non-decreasing from the 50\% row to the 100\% row, and min \<le> median \<le> max.\<close>

lemma percentile_table_monotone:
  assumes "report_latencies s = Inr (Some r)"
  shows "sorted (map snd (lr_percentiles r)) \<and> lr_min r \<le> lr_median r \<and> lr_median r \<le> lr_max r"
proof -
  have guard: "response_time_data s \<noteq> [] \<and> 0 < total_response_time s"
  proof (rule ccontr)
    assume "\<not> (response_time_data s \<noteq> [] \<and> 0 < total_response_time s)"
    then have "report_latencies s = Inr None" by (auto simp: report_latencies_def Let_def)
    with assms show False by simp
  qed
  then obtain sd m where "r = summary sd m (sort (response_time_data s))"
    using assms report_latencies_nonempty [of s]
    by (auto simp: go_bind_def split: sum.splits)
  moreover have "sort (response_time_data s) \<noteq> []" using guard by (metis length_0_conv length_sort)
  ultimately show ?thesis using summary_monotone [OF sorted_sort] by simp
qed

text \<open>Witness for C21: three successes of 30, 10 and 20 ms.\<close>

definition sample_stats :: stats where
  "sample_stats = init_stats\<lparr>response_time_data := [30000000, 10000000, 20000000],
     total_requests := 3, total_success := 3, total_response_time := 60000000\<rparr>"

theorem report_percentiles_nearest_rank_witness:
  "\<exists>r. report_latencies sample_stats = Inr (Some r)
     \<and> lr_percentiles r = [(50, 20), (66, 20), (75, 30), (80, 30), (90, 30), (95, 30), (98, 30), (99, 30), (100, 30)]
     \<and> lr_min r = 10 \<and> lr_max r = 30 \<and> lr_mean r = 20"
proof -
  have inv: "stats_inv sample_stats" by (simp add: sample_stats_def stats_inv_def)
  have "sort [30000000, 10000000, 20000000 :: int] = [10000000, 20000000, 30000000]" by simp
  moreover have "Max (set [30000000, 10000000, 20000000 :: int]) = 30000000" by simp
  moreover have "Min (set [30000000, 10000000, 20000000 :: int]) = 10000000" by simp
  ultimately show ?thesis
    using report_percentiles_nearest_rank [OF inv]
    by (simp add: sample_stats_def percentages_def signed_divide_int_def)
qed

subsection \<open>A uniform campaign, end to end\<close>

lemma summary_replicate:
  assumes "0 < n"
  shows "summary sd m (replicate n d) =
           \<lparr>lr_std_dev = sd / 1000000, lr_mean = m sdiv 1000000,
            lr_median = d sdiv 1000000, lr_min = d sdiv 1000000, lr_max = d sdiv 1000000,
            lr_percentiles = map (\<lambda>p. (p, d sdiv 1000000)) (percentages @ [100])\<rparr>"
proof -
  have half: "nat (int n sdiv 2) < n" using assms by (simp add: sdiv_nonneg_eq_div nat_div_distrib)
  have pct: "replicate n d ! nat (p * int n sdiv 100) = d" if "p \<in> set percentages" for p
  proof -
    from that have "0 \<le> p" "p < 100" by (simp_all add: percentages_range)
    from pct_index [OF this assms] show ?thesis by simp
  qed
  show ?thesis
    using assms half pct by (simp add: summary_def Let_def)
qed

text \<open>C22: the end-to-end scenario of the specification with any plan size.
  When all \<open>n\<close> planned results succeed with the same latency, the monitor
  stops after exactly \<open>n\<close> of them with \<open>n\<close> successes and no failure, and
  the latency block reports a standard deviation of 0 and that latency (in
  whole milliseconds) as mean, median, minimum, maximum and every
  percentile.\<close>

theorem uniform_campaign_report:
  assumes "0 < n" and "requests cfg = int n" and "rec_error r = None" and "0 < response_time r"
  shows "\<exists>s. monitor_loop coe cfg init_stats (replicate n (Collected r) @ es) = LoopStopped s es
           \<and> total_success s = int n \<and> total_failed_requests s = 0
           \<and> report_latencies s =
               Inr (Some \<lparr>lr_std_dev = 0, lr_mean = response_time r sdiv 1000000,
                 lr_median = response_time r sdiv 1000000, lr_min = response_time r sdiv 1000000,
                 lr_max = response_time r sdiv 1000000,
                 lr_percentiles = map (\<lambda>p. (p, response_time r sdiv 1000000)) (percentages @ [100])\<rparr>)"
proof -
  let ?rs = "replicate n r"
  let ?s = "foldl update_stats init_stats ?rs"
  have ok: "\<forall>x\<in>set ?rs. rec_error x = None" using assms(3) by simp
  have run: "monitor_loop coe cfg init_stats (map Collected ?rs @ es) = LoopStopped ?s es"
    using ok assms(1,2) by (intro monitor_loop_all_success) simp_all
  have f: "response_time_data ?s = replicate n (response_time r)" "total_success ?s = int n"
    "total_failed_requests ?s = 0" "total_requests ?s = int n"
    "total_response_time ?s = int n * response_time r"
    using foldl_update_stats_successes [OF ok, of init_stats] by (simp_all add: sum_list_replicate_int)
  have sd: "std_dev (replicate n (response_time r)) = Inr 0"
    using std_dev_constant [of "replicate n (response_time r)" "response_time r"] assms(1) by simp
  have m: "go_div (int n * response_time r) (int n) = Inr (response_time r)"
    using assms(1) by (simp add: go_div_def sdiv_mult_cancel)
  have "report_latencies ?s =
          Inr (Some (summary 0 (response_time r) (sort (replicate n (response_time r)))))"
    using report_latencies_nonempty [of ?s] assms f sd m by simp
  also have "sort (replicate n (response_time r)) = replicate n (response_time r)"
    by (simp add: sorted_sort_id)
  finally have "report_latencies ?s = Inr (Some (summary 0 (response_time r) (replicate n (response_time r))))" .
  then show ?thesis using run f summary_replicate [OF assms(1)] by (simp add: map_replicate)
qed
text \<open>Witness for C22: \<open>N = 100\<close>, \<open>C = 10\<close>, every request 50 ms.\<close>

theorem uniform_campaign_report_witness:
  "\<exists>s. monitor_loop False (empty_config 100 10) init_stats
        (replicate 100 (Collected \<lparr>response_time = 50000000, content_size = 612, rec_error = None\<rparr>))
        = LoopStopped s []
     \<and> total_success s = 100 \<and> total_failed_requests s = 0
     \<and> report_latencies s =
         Inr (Some \<lparr>lr_std_dev = 0, lr_mean = 50, lr_median = 50, lr_min = 50, lr_max = 50,
                    lr_percentiles = [(50, 50), (66, 50), (75, 50), (80, 50), (90, 50),
                                      (95, 50), (98, 50), (99, 50), (100, 50)]\<rparr>)"
  using uniform_campaign_report [of 100 "empty_config 100 10"
      "\<lparr>response_time = 50000000, content_size = 612, rec_error = None\<rparr>" False "[]"]
  by (simp add: empty_config_def percentages_def)
end
