(* ===== verification/Diagnostics.thy ===== *)
theory Diagnostics
  imports Prelude
begin

text \<open>
  \<open>src/common.go\<close>: the \<open>StopWatch\<close> (with the clock reading passed in)
  and the diagnostics sink \<open>TraceException\<close>, whose package-level state
  (\<open>errorCount\<close>, a \<open>map[string]int\<close>, and \<open>cancelCnt\<close>) is the record
  \<open>diag\<close>. \<open>TraceException\<close> returns what it writes to stderr:
  nothing, the message (\<open>Verbosity > 0\<close>), or the message with a stack trace
  (\<open>Verbosity > 1\<close>).
\<close>

record stop_watch =
  sw_start :: int
  sw_elapsed :: duration

definition sw_start_at :: "int \<Rightarrow> stop_watch \<Rightarrow> stop_watch" where
  "sw_start_at now s = s\<lparr>sw_start := now\<rparr>"

definition sw_stop_at :: "int \<Rightarrow> stop_watch \<Rightarrow> stop_watch" where
  "sw_stop_at now s = s\<lparr>sw_elapsed := now - sw_start s\<rparr>"

record diag =
  error_count :: "string \<rightharpoonup> int"
  cancel_cnt :: int

definition init_diag :: diag where
  "init_diag = \<lparr>error_count = Map.empty, cancel_cnt = 0\<rparr>"

text \<open>Reading a Go map: a missing key reads as the zero value.\<close>

definition count_of :: "(string \<rightharpoonup> int) \<Rightarrow> string \<Rightarrow> int" where
  "count_of m k = (case m k of None \<Rightarrow> 0 | Some c \<Rightarrow> c)"

datatype trace_output = NoOutput | PrintMsg string | PrintStack string

definition cancel_suffix :: string where
  "cancel_suffix = ''net/http: request canceled''"

text \<open>The \<open>switch\<close> on \<open>Verbosity\<close> at the end of \<open>TraceException\<close>.\<close>

definition trace_print :: "int \<Rightarrow> string \<Rightarrow> trace_output" where
  "trace_print v msg =
     (if v > 1 then PrintStack msg else if v > 0 then PrintMsg msg else NoOutput)"

definition trace_exception :: "int \<Rightarrow> diag \<Rightarrow> string \<Rightarrow> diag \<times> trace_output" where
  "trace_exception v d msg =
     (let c = count_of (error_count d) msg;
          d1 = d\<lparr>error_count := (error_count d)(msg \<mapsto> count_of (error_count d) msg + 1)\<rparr>
      in if c > 1 then (d1, NoOutput)
         else if has_suffix msg cancel_suffix then
           (if cancel_cnt d1 > 0 then (d1, NoOutput)
            else (d1\<lparr>cancel_cnt := cancel_cnt d1 + 1\<rparr>, trace_print v msg))
         else (d1, trace_print v msg))"

text \<open>A sequence of calls, with the outputs in order.\<close>

fun trace_all :: "int \<Rightarrow> diag \<Rightarrow> string list \<Rightarrow> diag \<times> trace_output list" where
  "trace_all v d [] = (d, [])"
| "trace_all v d (m # ms) =
     (let r = trace_exception v d m; rest = trace_all v (fst r) ms in (fst rest, snd r # snd rest))"

subsection \<open>Lemmas\<close>

lemma trace_exception_count:
  "count_of (error_count (fst (trace_exception v d msg))) k
     = count_of (error_count d) k + (if k = msg then 1 else 0)"
  by (simp add: trace_exception_def Let_def count_of_def)

lemma trace_exception_output:
  "\<not> has_suffix msg cancel_suffix \<Longrightarrow>
     snd (trace_exception v d msg)
       = (if count_of (error_count d) msg > 1 then NoOutput else trace_print v msg)"
  by (simp add: trace_exception_def Let_def)

lemma trace_print_nonempty: "0 < v \<Longrightarrow> trace_print v msg \<noteq> NoOutput"
  by (simp add: trace_print_def)

lemma trace_all_length [simp]: "length (snd (trace_all v d ms)) = length ms"
  by (induction ms arbitrary: d) (simp_all add: Let_def)

text \<open>C7: \<open>TraceException\<close> suppresses a repeated diagnostic only from its
  third occurrence on (\<open>if c > 1 { return }\<close> with \<open>c\<close> the count before
  this call): with \<open>Verbosity > 0\<close>, the \<open>i\<close>-th call, for a message that is not
  a transport-cancellation message, writes output exactly when the message
  occurred at most once before.\<close>

theorem trace_prints_first_two:
  assumes "i < length ms" and "\<not> has_suffix (ms ! i) cancel_suffix" and "0 < v"
  shows "snd (trace_all v d ms) ! i \<noteq> NoOutput
         \<longleftrightarrow> count_of (error_count d) (ms ! i) + int (count_list (take i ms) (ms ! i)) \<le> 1"
  using assms
proof (induction ms arbitrary: d i)
  case Nil
  then show ?case by simp
next
  case (Cons m ms)
  show ?case
  proof (cases i)
    case 0
    with Cons.prems show ?thesis
      by (simp add: Let_def trace_exception_output trace_print_nonempty)
  next
    case (Suc j)
    with Cons.prems have "j < length ms" "\<not> has_suffix (ms ! j) cancel_suffix" by simp_all
    from Cons.IH [OF this Cons.prems(3), of "fst (trace_exception v d m)"] Suc show ?thesis
      by (simp add: Let_def trace_exception_count add.assoc)
  qed
qed

text \<open>Witness for C7: the same failure reported three times is printed twice.\<close>

theorem trace_prints_first_two_witness:
  "snd (trace_all 1 init_diag [''dial tcp: refused'', ''dial tcp: refused'', ''dial tcp: refused''])
     = [PrintMsg ''dial tcp: refused'', PrintMsg ''dial tcp: refused'', NoOutput]
   \<and> snd (trace_all 1 init_diag [''dial tcp: refused'', ''dial tcp: refused'', ''dial tcp: refused'']) ! 1
     \<noteq> NoOutput"
proof -
  have ns: "\<not> has_suffix ''dial tcp: refused'' cancel_suffix"
    by (simp add: has_suffix_def cancel_suffix_def)
  have "snd (trace_all 1 init_diag [''dial tcp: refused'', ''dial tcp: refused'', ''dial tcp: refused'']) ! 1
     \<noteq> NoOutput"
    using trace_prints_first_two [of 1 "[''dial tcp: refused'', ''dial tcp: refused'', ''dial tcp: refused'']" 1 init_diag] ns
    by (simp add: init_diag_def count_of_def)
  moreover have "snd (trace_all 1 init_diag [''dial tcp: refused'', ''dial tcp: refused'', ''dial tcp: refused''])
     = [PrintMsg ''dial tcp: refused'', PrintMsg ''dial tcp: refused'', NoOutput]"
    using ns by (simp add: trace_exception_def init_diag_def count_of_def trace_print_def Let_def)
  ultimately show ?thesis by simp
qed

end
