(* ===== verification/HttpWorker.thy ===== *)
theory HttpWorker
  imports RunContext Results Diagnostics
begin

text \<open>
  The worker (\<open>src/http.go\<close>): \<open>NewHTTPWorker\<close> with its body-drain
  buffer, \<open>Discard.ReadFrom\<close>, the request goroutine \<open>send\<close> (bounded
  retry, status and body classification, panic recovery, the diagnostics
  call), and the job loop \<open>HTTPWorker.Run\<close>.
  The network is the environment: \<open>client.Do\<close> is a function from the
  attempt number to its outcome, and a response body is a reader of
  \<open>remaining\<close> bytes that ends with EOF, an unexpected EOF or another error.
  Reading follows the \<open>io.Reader\<close> contract: \<open>Read(p)\<close> returns up to
  \<open>len(p)\<close> bytes, and \<open>0, nil\<close> when \<open>len(p) = 0\<close>.
\<close>

definition FieldServerName :: string where "FieldServerName = ''ServerName''"
definition FieldContentSize :: string where "FieldContentSize = ''ContentSize''"
definition MaxBufferSize :: int where "MaxBufferSize = 8192"

subsection \<open>Response bodies and \<open>Discard.ReadFrom\<close>\<close>

datatype read_end = EOF | UnexpectedEOF | ReadFailed string

fun read_end_msg :: "read_end \<Rightarrow> string" where
  "read_end_msg EOF = ''EOF''"
| "read_end_msg UnexpectedEOF = ''unexpected EOF''"
| "read_end_msg (ReadFailed m) = m"

record body =
  remaining :: nat
  body_end :: read_end

text \<open>One \<open>r.Read(buf)\<close> with \<open>len(buf) = len\<close>: bytes read, error, rest.\<close>

definition body_read :: "nat \<Rightarrow> body \<Rightarrow> nat \<times> read_end option \<times> body" where
  "body_read len b =
     (if remaining b = 0 then (0, Some (body_end b), b)
      else (min len (remaining b), None, b\<lparr>remaining := remaining b - min len (remaining b)\<rparr>))"

text \<open>\<open>Discard.ReadFrom\<close>: read until an error; EOF is success. The loop has
  no bound of its own, so it is a partial function: \<open>None\<close> is "never returns".\<close>

partial_function (option) read_from :: "nat \<Rightarrow> body \<Rightarrow> int \<Rightarrow> (int \<times> read_end option) option" where
  "read_from len b n =
     (case body_read len b of
        (k, None, b') \<Rightarrow> read_from len b' (n + int k)
      | (k, Some EOF, b') \<Rightarrow> Some (n + int k, None)
      | (k, Some e, b') \<Rightarrow> Some (n + int k, Some e))"

subsection \<open>The worker and its buffer\<close>

text \<open>A \<open>CustomRequest\<close>'s \<open>HandleResult\<close> consumes a response (status and
  body) and returns the byte count and error, or panics, or never returns.\<close>

datatype panic_value = PanicErr gb_error | PanicVal string

datatype handled = Handled int "read_end option" | HandlerPanic panic_value

record http_worker =
  discard_len :: nat
  custom_handler :: "(int \<Rightarrow> body \<Rightarrow> handled option) option"

text \<open>\<open>NewHTTPWorker\<close>: the scratch buffer is the probed content size capped
  at \<open>MaxBufferSize\<close>; \<open>GetInt\<close> panics when the probe stored nothing, and
  \<open>make\<close> panics on a negative length.\<close>

definition new_http_worker :: "gb_context \<Rightarrow> go_panic + http_worker" where
  "new_http_worker c =
     (case get_int c FieldContentSize of
        Inl p \<Rightarrow> Inl p
      | Inr n \<Rightarrow>
          (let len = (if n < MaxBufferSize then n else MaxBufferSize) in
           if len < 0 then Inl MakeSliceLenOutOfRange
           else Inr \<lparr>discard_len = nat len, custom_handler = None\<rparr>))"

text \<open>\<open>NewClient\<close>: the settings of the worker's \<open>http.Transport\<close>. The
  transport itself (connection pooling, TLS) is the library's and is not
  modelled; only what the plan decides about it is.\<close>

record client_settings =
  cs_insecure_skip_verify :: bool
  cs_disable_compression :: bool
  cs_disable_keep_alives :: bool
  cs_max_idle_conns_per_host :: int
  cs_proxy :: "string option"

definition new_client :: "config \<Rightarrow> client_settings" where
  "new_client cfg =
     \<lparr>cs_insecure_skip_verify = True, cs_disable_compression = \<not> gzip cfg,
      cs_disable_keep_alives = \<not> keep_alive cfg,
      cs_max_idle_conns_per_host = concurrency cfg * 2, cs_proxy = proxy_url cfg\<rparr>"

subsection \<open>\<open>send\<close>: retry, classification, recovery\<close>

datatype do_result = DoError string | DoResponse int body | DoPanic panic_value

text \<open>The retry loop: \<open>retry\<close> starts at 3 and is decremented after every
  \<open>client.Do\<close>; an error with \<open>retry <= 0\<close> left gives up. The result is
  the last outcome and the number of attempts made.\<close>

function retry_loop :: "(nat \<Rightarrow> do_result) \<Rightarrow> int \<Rightarrow> nat \<Rightarrow> do_result \<times> nat" where
  "retry_loop att retry i =
     (case att i of
        DoError e \<Rightarrow> (if retry - 1 \<le> 0 then (DoError e, Suc i) else retry_loop att (retry - 1) (Suc i))
      | r \<Rightarrow> (r, Suc i))"
  by pat_completeness auto
termination
  by (relation "measure (\<lambda>(att, retry, i). nat retry)") auto

text \<open>The recovered panic value becomes the record's error.\<close>

fun recover_error :: "panic_value \<Rightarrow> gb_error" where
  "recover_error (PanicErr e) = e"
| "recover_error (PanicVal s) = ExceptionError s"

text \<open>The status and read-error checks after the body is consumed; the
  \<open>LengthError\<close> assignment is followed by the unconditional
  \<open>ReceiveError\<close> one, as in the code.\<close>

definition classify :: "int \<Rightarrow> read_end option \<Rightarrow> gb_error option" where
  "classify status err =
     (if status < 200 \<or> status > 300 then Some (ResponseError (''Response is '' @ int_digits status))
      else case err of
        None \<Rightarrow> None
      | Some e \<Rightarrow>
          (let e1 = (if e = UnexpectedEOF then Some (LengthError ''invalid content size'') else None)
           in Some (ReceiveError (read_end_msg e))))"

text \<open>The body is consumed by the custom handler if one is set, else drained
  through the worker's buffer.\<close>

definition consume :: "http_worker \<Rightarrow> int \<Rightarrow> body \<Rightarrow> handled option" where
  "consume w status b =
     (case custom_handler w of
        Some h \<Rightarrow> h status b
      | None \<Rightarrow> map_option (\<lambda>(n, e). Handled n e) (read_from (discard_len w) b 0))"

text \<open>The goroutine of \<open>send\<close> up to the deferred function: the record it
  builds, or \<open>None\<close> when it never finishes.\<close>

definition send_record :: "http_worker \<Rightarrow> (nat \<Rightarrow> do_result) \<Rightarrow> duration \<Rightarrow> gb_record option" where
  "send_record w att elapsed =
     (case fst (retry_loop att 3 0) of
        DoError e \<Rightarrow>
          Some \<lparr>response_time = elapsed, content_size = 0, rec_error = Some (ConnectError e)\<rparr>
      | DoPanic v \<Rightarrow>
          Some \<lparr>response_time = elapsed, content_size = 0, rec_error = Some (recover_error v)\<rparr>
      | DoResponse status b \<Rightarrow>
          (case consume w status b of
             None \<Rightarrow> None
           | Some (HandlerPanic v) \<Rightarrow>
               Some \<lparr>response_time = elapsed, content_size = 0, rec_error = Some (recover_error v)\<rparr>
           | Some (Handled n err) \<Rightarrow>
               Some \<lparr>response_time = elapsed, content_size = n, rec_error = classify status err\<rparr>))"

text \<open>\<open>send\<close> with its deferred diagnostics call: a failed record is reported
  to \<open>TraceException\<close> before it is put on \<open>asyncResult\<close>.\<close>

definition send :: "int \<Rightarrow> diag \<Rightarrow> http_worker \<Rightarrow> (nat \<Rightarrow> do_result) \<Rightarrow> duration
                      \<Rightarrow> (gb_record \<times> diag \<times> trace_output) option" where
  "send v d w att elapsed =
     map_option
       (\<lambda>r. case rec_error r of
              None \<Rightarrow> (r, d, NoOutput)
            | Some e \<Rightarrow> (let (d', out) = trace_exception v d (error_msg e) in (r, d', out)))
       (send_record w att elapsed)"

subsection \<open>The job loop \<open>HTTPWorker.Run\<close>\<close>

text \<open>
  Each dequeued job is raced in a \<open>select\<close> between the send goroutine's
  result, the per-job timer and the \<open>stop\<close> channel. A job of the loop is
  its id, what \<open>send\<close> eventually delivers (\<open>None\<close>: never) and the case
  the \<open>select\<close> takes; a \<open>ResultReady\<close> case on a send that never
  delivers cannot happen, and the worker is then blocked (\<open>Stuck\<close>).
  \<open>TakeRatelimitToken\<close> is the parameter \<open>take_token\<close> on the limiter's
  state (\<open>None\<close>: it never returns). The loop returns the records put on the
  collector, the jobs whose request was cancelled (\<open>CancelRequest\<close>), how
  it ended, and the limiter's state.
\<close>

datatype job_event = ResultReady | TimerFired | StopClosed

datatype worker_end = QueueDrained | StoppedBySignal | Stuck

definition timeout_record :: gb_record where
  "timeout_record =
     \<lparr>response_time = 0, content_size = 0, rec_error = Some (ResponseTimeoutError ''execution timeout'')\<rparr>"

type_synonym worker_job = "nat \<times> gb_record option \<times> job_event"

fun prepend :: "gb_record list \<Rightarrow> nat list \<Rightarrow> gb_record list \<times> nat list \<times> worker_end \<times> 'rl
                  \<Rightarrow> gb_record list \<times> nat list \<times> worker_end \<times> 'rl" where
  "prepend rs cs (rs', cs', e, rl) = (rs @ rs', cs @ cs', e, rl)"

fun worker_loop :: "('rl \<Rightarrow> 'rl option) \<Rightarrow> bool \<Rightarrow> nat \<Rightarrow> 'rl \<Rightarrow> worker_job list
                      \<Rightarrow> gb_record list \<times> nat list \<times> worker_end \<times> 'rl" where
  "worker_loop take_token skip cnt rl [] = ([], [], QueueDrained, rl)"
| "worker_loop take_token skip cnt rl ((j, res, ev) # js) =
     (case take_token rl of
        None \<Rightarrow> ([], [], Stuck, rl)
      | Some rl' \<Rightarrow>
          (case ev of
             ResultReady \<Rightarrow>
               (case res of
                  None \<Rightarrow> ([], [], Stuck, rl')
                | Some r \<Rightarrow>
                    prepend (if \<not> skip \<or> Suc cnt > 1 then [r] else []) []
                      (worker_loop take_token skip (Suc cnt) rl' js))
           | TimerFired \<Rightarrow>
               prepend [timeout_record] [j] (worker_loop take_token skip (Suc cnt) rl' js)
           | StopClosed \<Rightarrow> ([], [j], StoppedBySignal, rl')))"

text \<open>The record a job contributes when it is neither suppressed nor stopped.\<close>

fun job_record :: "worker_job \<Rightarrow> gb_record option" where
  "job_record (j, res, ResultReady) = res"
| "job_record (j, res, TimerFired) = Some timeout_record"
| "job_record (j, res, StopClosed) = None"

text \<open>Every job of the list is decided by its result or its timer.\<close>

definition well_raced :: "worker_job list \<Rightarrow> bool" where
  "well_raced js \<longleftrightarrow> (\<forall>(j, res, ev) \<in> set js. ev \<noteq> StopClosed \<and> (ev = ResultReady \<longrightarrow> res \<noteq> None))"

definition timed_out :: "worker_job list \<Rightarrow> nat list" where
  "timed_out js = map fst (filter (\<lambda>(j, res, ev). ev = TimerFired) js)"

subsection \<open>Draining a body\<close>

lemma read_from_unfold:
  "read_from len b n =
     (if remaining b = 0 then
        Some (n, if body_end b = EOF then None else Some (body_end b))
      else read_from len (b\<lparr>remaining := remaining b - min len (remaining b)\<rparr>)
             (n + int (min len (remaining b))))"
  by (subst read_from.simps) (auto simp: body_read_def split: read_end.split)

text \<open>With a buffer of positive length, \<open>Discard.ReadFrom\<close> returns, with
  the number of bytes the body held and no error when it ends in EOF (the
  body's own error otherwise).\<close>

lemma read_from_drains:
  assumes "0 < len"
  shows "read_from len b n =
           Some (n + int (remaining b), if body_end b = EOF then None else Some (body_end b))"
  using assms
proof (induction "remaining b" arbitrary: b n rule: less_induct)
  case less
  show ?case
  proof (cases "remaining b = 0")
    case True
    then show ?thesis by (simp add: read_from_unfold [of len b n])
  next
    case False
    let ?k = "min len (remaining b)"
    let ?b' = "b\<lparr>remaining := remaining b - ?k\<rparr>"
    from False less.prems have "remaining ?b' < remaining b" by simp
    from less.hyps [OF this less.prems, of "n + int ?k"] False less.prems show ?thesis
      by (simp add: read_from_unfold [of len b n])
  qed
qed

text \<open>With a zero-length buffer, a body with bytes left is never drained:
  every \<open>Read\<close> returns \<open>0, nil\<close> and \<open>Discard.ReadFrom\<close> loops forever.\<close>

lemma read_from_zero_len_hangs:
  assumes "0 < remaining b"
  shows "read_from 0 b n = None"
proof (rule ccontr)
  assume "read_from 0 b n \<noteq> None"
  then obtain r where ret: "read_from 0 b n = Some r" by blast
  have "\<not> (0 < remaining b \<and> (0::nat) = 0)"
  proof (rule read_from.raw_induct [where P = "\<lambda>len b n r. \<not> (0 < remaining b \<and> len = 0)", OF _ ret])
    fix f :: "nat \<Rightarrow> body \<Rightarrow> int \<Rightarrow> (int \<times> read_end option) option" and len b n r
    assume IH: "\<And>len b n r. f len b n = Some r \<Longrightarrow> \<not> (0 < remaining b \<and> len = 0)"
      and eq: "(case body_read len b of
                 (k, None, b') \<Rightarrow> f len b' (n + int k)
               | (k, Some EOF, b') \<Rightarrow> Some (n + int k, None)
               | (k, Some e, b') \<Rightarrow> Some (n + int k, Some e)) = Some r"
    show "\<not> (0 < remaining b \<and> len = 0)"
    proof
      assume z: "0 < remaining b \<and> len = 0"
      then have "body_read len b = (0, None, b)" by (simp add: body_read_def)
      with eq have "f len b n = Some r" by simp
      with IH z show False by blast
    qed
  qed
  with assms show False by simp
qed

subsection \<open>Retry\<close>

text \<open>The retry loop of \<open>send\<close> unrolled: three attempts at most.\<close>

lemma retry_loop_step:
  "retry_loop att retry i =
     (case att i of
        DoError e \<Rightarrow> (if retry \<le> 1 then (DoError e, Suc i) else retry_loop att (retry - 1) (Suc i))
      | r \<Rightarrow> (r, Suc i))"
  by (subst retry_loop.simps) (simp split: do_result.split)

declare retry_loop.simps [simp del]

lemma retry_loop_3:
  "retry_loop att 3 0 =
     (case att 0 of
        DoError e0 \<Rightarrow>
          (case att 1 of
             DoError e1 \<Rightarrow> (case att 2 of DoError e2 \<Rightarrow> (DoError e2, 3) | r \<Rightarrow> (r, 3))
           | r \<Rightarrow> (r, 2))
      | r \<Rightarrow> (r, 1))"
proof -
  have a: "retry_loop att 1 2 = (case att 2 of DoError e \<Rightarrow> (DoError e, 3) | r \<Rightarrow> (r, 3))"
    by (subst retry_loop_step) (simp split: do_result.split)
  have b: "retry_loop att 2 1 = (case att 1 of DoError e \<Rightarrow> retry_loop att 1 2 | r \<Rightarrow> (r, 2))"
    by (subst retry_loop_step) (simp add: numeral_2_eq_2 split: do_result.split)
  have c: "retry_loop att 3 0 = (case att 0 of DoError e \<Rightarrow> retry_loop att 2 1 | r \<Rightarrow> (r, 1))"
    by (subst retry_loop_step) (simp split: do_result.split)
  show ?thesis unfolding c b a by (simp split: do_result.split)
qed

lemma send_record_response:
  "fst (retry_loop att 3 0) = DoResponse st b \<Longrightarrow> custom_handler w = None \<Longrightarrow> 0 < discard_len w \<Longrightarrow>
     send_record w att el =
       Some \<lparr>response_time = el, content_size = int (remaining b),
             rec_error = classify st (if body_end b = EOF then None else Some (body_end b))\<rparr>"
  by (simp add: send_record_def consume_def read_from_drains)

text \<open>C8: a connection that fails twice and answers on the third attempt
  yields a success record, not a \<open>ConnectError\<close>: with a 2xx status and a
  body that ends in EOF, the record has no error and counts the body's bytes.\<close>

theorem send_retry_success:
  assumes "att 0 = DoError e0" and "att 1 = DoError e1" and "att 2 = DoResponse st b"
    and "200 \<le> st" and "st < 300" and "body_end b = EOF"
    and "custom_handler w = None" and "0 < discard_len w"
  shows "send_record w att el =
           Some \<lparr>response_time = el, content_size = int (remaining b), rec_error = None\<rparr>
         \<and> snd (retry_loop att 3 0) = 3"
proof -
  have r: "retry_loop att 3 0 = (DoResponse st b, 3)"
    using assms(1-3) by (simp add: retry_loop_3)
  with assms(4-8) show ?thesis
    by (simp add: send_record_response classify_def)
qed

theorem send_retry_success_witness:
  "send_record \<lparr>discard_len = 8192, custom_handler = None\<rparr>
     (\<lambda>i. if i < 2 then DoError ''connection reset by peer''
          else DoResponse 200 \<lparr>remaining = 612, body_end = EOF\<rparr>) 50
   = Some \<lparr>response_time = 50, content_size = 612, rec_error = None\<rparr>"
  using send_retry_success
    [of "\<lambda>i. if i < 2 then DoError ''connection reset by peer''
             else DoResponse 200 \<lparr>remaining = 612, body_end = EOF\<rparr>"
        "''connection reset by peer''" "''connection reset by peer''" 200
        "\<lparr>remaining = 612, body_end = EOF\<rparr>" "\<lparr>discard_len = 8192, custom_handler = None\<rparr>" 50]
  by simp

text \<open>C9: three failed connection attempts give up with a \<open>ConnectError\<close>
  carrying the last error, after exactly three calls of \<open>client.Do\<close>.\<close>

theorem send_connect_error:
  assumes "att 0 = DoError e0" and "att 1 = DoError e1" and "att 2 = DoError e2"
  shows "send_record w att el =
           Some \<lparr>response_time = el, content_size = 0, rec_error = Some (ConnectError e2)\<rparr>
         \<and> snd (retry_loop att 3 0) = 3"
  using assms by (simp add: send_record_def retry_loop_3)

theorem send_connect_error_witness:
  "send_record \<lparr>discard_len = 8192, custom_handler = None\<rparr> (\<lambda>i. DoError ''connection refused'') 1000
   = Some \<lparr>response_time = 1000, content_size = 0, rec_error = Some (ConnectError ''connection refused'')\<rparr>"
  using send_connect_error [of "\<lambda>i. DoError ''connection refused''"] by simp

text \<open>C10: \<open>send\<close> calls \<open>client.Do\<close> at least once and at most three
  times, and stops early only on an outcome that is not a connection error.\<close>

theorem retry_attempts_bounded:
  "1 \<le> snd (retry_loop att 3 0) \<and> snd (retry_loop att 3 0) \<le> 3 \<and>
   fst (retry_loop att 3 0) = att (snd (retry_loop att 3 0) - 1) \<and>
   (\<forall>i. i + 1 < snd (retry_loop att 3 0) \<longrightarrow> (\<exists>e. att i = DoError e)) \<and>
   (snd (retry_loop att 3 0) < 3 \<longrightarrow> (\<forall>e. fst (retry_loop att 3 0) \<noteq> DoError e))"
proof (cases "att 0")
  case (DoError e0)
  show ?thesis
  proof (cases "att 1")
    case (DoError e1)
    have "\<forall>i. i + 1 < 3 \<longrightarrow> (\<exists>e. att i = DoError e)"
    proof (intro allI impI)
      fix i :: nat assume "i + 1 < 3"
      then have "i = 0 \<or> i = 1" by arith
      with \<open>att 0 = DoError e0\<close> \<open>att 1 = DoError e1\<close> show "\<exists>e. att i = DoError e" by auto
    qed
    with \<open>att 0 = DoError e0\<close> DoError show ?thesis
      by (simp add: retry_loop_3 split: do_result.split)
  next
    case (DoResponse st b)
    with \<open>att 0 = DoError e0\<close> show ?thesis by (simp add: retry_loop_3 less_Suc_eq)
  next
    case (DoPanic v)
    with \<open>att 0 = DoError e0\<close> show ?thesis by (simp add: retry_loop_3 less_Suc_eq)
  qed
qed (simp_all add: retry_loop_3)

theorem retry_attempts_bounded_witness:
  "snd (retry_loop (\<lambda>i. if i = 0 then DoError ''connection reset'' else DoResponse 200 \<lparr>remaining = 5, body_end = EOF\<rparr>) 3 0) = 2
   \<and> (\<exists>e. (\<lambda>i. if i = 0 then DoError ''connection reset'' else DoResponse 200 \<lparr>remaining = 5, body_end = EOF\<rparr>) 0 = DoError e)"
  using retry_attempts_bounded
    [of "\<lambda>i. if i = 0 then DoError ''connection reset'' else DoResponse 200 \<lparr>remaining = 5, body_end = EOF\<rparr>"]
  by (simp add: retry_loop_3)

lemma retry_loop_result: "\<exists>k. fst (retry_loop att retry i) = att k"
proof (induction att retry i rule: retry_loop.induct)
  case (1 att retry i)
  show ?case
  proof (cases "att i")
    case (DoError e)
    show ?thesis
    proof (cases "retry \<le> 1")
      case True
      with DoError have "fst (retry_loop att retry i) = att i"
        by (simp add: retry_loop_step [of att retry i])
      then show ?thesis ..
    next
      case False
      with DoError "1" show ?thesis by (simp add: retry_loop_step [of att retry i])
    qed
  next
    case (DoResponse st b)
    then have "fst (retry_loop att retry i) = att i" by (simp add: retry_loop_step [of att retry i])
    then show ?thesis ..
  next
    case (DoPanic v)
    then have "fst (retry_loop att retry i) = att i" by (simp add: retry_loop_step [of att retry i])
    then show ?thesis ..
  qed
qed

text \<open>C13: the default body handling never reports a \<open>LengthError\<close>: a body
  cut short (\<open>io.ErrUnexpectedEOF\<close>) is reported as a \<open>ReceiveError\<close>,
  because the \<open>LengthError\<close> assignment is overwritten by the next statement.\<close>

theorem length_error_never_reported:
  assumes "custom_handler w = None" and "\<forall>i v. att i \<noteq> DoPanic v"
    and "send_record w att el = Some r"
  shows "rec_error r \<noteq> Some (LengthError m)"
proof -
  obtain k where "fst (retry_loop att 3 0) = att k" using retry_loop_result by blast
  with assms(2) have np: "\<forall>v. fst (retry_loop att 3 0) \<noteq> DoPanic v" by simp
  show ?thesis
    using assms(1,3) np
    by (auto simp: send_record_def consume_def classify_def Let_def
             split: do_result.splits option.splits handled.splits prod.splits if_splits)
qed

theorem length_error_never_reported_witness:
  "send_record \<lparr>discard_len = 4096, custom_handler = None\<rparr>
     (\<lambda>i. DoResponse 200 \<lparr>remaining = 100, body_end = UnexpectedEOF\<rparr>) 30
   = Some \<lparr>response_time = 30, content_size = 100, rec_error = Some (ReceiveError ''unexpected EOF'')\<rparr>
   \<and> rec_error \<lparr>response_time = (30::int), content_size = 100, rec_error = Some (ReceiveError ''unexpected EOF'')\<rparr>
       \<noteq> Some (LengthError ''invalid content size'')"
proof -
  have r: "send_record \<lparr>discard_len = 4096, custom_handler = None\<rparr>
     (\<lambda>i. DoResponse 200 \<lparr>remaining = 100, body_end = UnexpectedEOF\<rparr>) 30
   = Some \<lparr>response_time = 30, content_size = 100, rec_error = Some (ReceiveError ''unexpected EOF'')\<rparr>"
    by (simp add: send_record_response retry_loop_3 classify_def)
  have "rec_error \<lparr>response_time = (30::int), content_size = 100, rec_error = Some (ReceiveError ''unexpected EOF'')\<rparr>
       \<noteq> Some (LengthError ''invalid content size'')"
    by (rule length_error_never_reported [OF _ _ r]) simp_all
  with r show ?thesis by simp
qed

text \<open>A response with status 300 counts as a success (the check is
  \<open>StatusCode > 300\<close>), although only 2xx statuses are successes by the
  specification.\<close>

theorem status_300_is_success:
  assumes "fst (retry_loop att 3 0) = DoResponse 300 b" and "body_end b = EOF"
    and "custom_handler w = None" and "0 < discard_len w"
  shows "send_record w att el = Some \<lparr>response_time = el, content_size = int (remaining b), rec_error = None\<rparr>"
  using assms by (simp add: send_record_response classify_def)

theorem status_300_is_success_witness:
  "send_record \<lparr>discard_len = 8192, custom_handler = None\<rparr>
     (\<lambda>i. DoResponse 300 \<lparr>remaining = 0, body_end = EOF\<rparr>) 12
   = Some \<lparr>response_time = 12, content_size = 0, rec_error = None\<rparr>"
  using status_300_is_success [of "\<lambda>i. DoResponse 300 \<lparr>remaining = 0, body_end = EOF\<rparr>"
      "\<lparr>remaining = 0, body_end = EOF\<rparr>" "\<lparr>discard_len = 8192, custom_handler = None\<rparr>" 12]
  by (simp add: retry_loop_3)

subsection \<open>The job loop\<close>

lemma prepend_Nil [simp]: "prepend [] [] x = x"
  by (cases x) simp

lemma prepend_prepend [simp]: "prepend a b (prepend c d x) = prepend (a @ c) (b @ d) x"
  by (cases x) simp

lemma well_raced_Cons [simp]:
  "well_raced ((j, res, ev) # js) \<longleftrightarrow>
     ev \<noteq> StopClosed \<and> (ev = ResultReady \<longrightarrow> res \<noteq> None) \<and> well_raced js"
  by (simp add: well_raced_def)

lemma timed_out_Cons [simp]:
  "timed_out ((j, res, ev) # js) = (if ev = TimerFired then j # timed_out js else timed_out js)"
  by (simp add: timed_out_def)

lemma timed_out_Nil [simp]: "timed_out [] = []"
  by (simp add: timed_out_def)

text \<open>A prefix of jobs that are decided by result or timer, once no first job
  is to be suppressed: one record per job, in order, and one cancellation per
  timed-out job.\<close>

lemma prepend_fst [simp]: "fst (prepend rs cs x) = rs @ fst x"
  by (cases x) simp

lemma worker_loop_records_le:
  "length (fst (worker_loop take_token skip cnt rl js)) \<le> length js"
  by (induction take_token skip cnt rl js rule: worker_loop.induct)
     (auto split: option.splits job_event.splits prod.splits simp: le_SucI)

lemma worker_loop_append:
  assumes "\<forall>rl. take_token rl \<noteq> None" and "well_raced pre" and "\<not> skip \<or> 0 < cnt"
  shows "\<exists>rs rl'. worker_loop take_token skip cnt rl (pre @ rest)
            = prepend rs (timed_out pre) (worker_loop take_token skip (cnt + length pre) rl' rest)
          \<and> map Some rs = map job_record pre"
  using assms(2,3)
proof (induction pre arbitrary: cnt rl)
  case Nil
  show ?case by (rule exI [of _ "[]"], rule exI [of _ rl]) simp
next
  case (Cons job pre)
  obtain j res ev where job: "job = (j, res, ev)" by (cases job) auto
  from assms(1) obtain rl1 where rl1: "take_token rl = Some rl1" by blast
  from Cons.prems job have ev: "ev \<noteq> StopClosed" "ev = ResultReady \<longrightarrow> res \<noteq> None" "well_raced pre"
    by simp_all
  from Cons.IH [OF ev(3), of "Suc cnt" rl1] obtain rs rl' where
    ih: "worker_loop take_token skip (Suc cnt) rl1 (pre @ rest)
           = prepend rs (timed_out pre) (worker_loop take_token skip (Suc cnt + length pre) rl' rest)"
    and rs: "map Some rs = map job_record pre" by auto
  show ?case
  proof (cases ev)
    case ResultReady
    with ev obtain r where r: "res = Some r" by auto
    with ResultReady job rl1 ih rs Cons.prems show ?thesis
      by (intro exI [of _ "r # rs"] exI [of _ rl']) simp
  next
    case TimerFired
    with job rl1 ih rs show ?thesis
      by (intro exI [of _ "timeout_record # rs"] exI [of _ rl']) simp
  next
    case StopClosed
    with ev show ?thesis by simp
  qed
qed

text \<open>C15: without skip-first and without a stop, a worker puts exactly one
  record on the collector for every job it dequeues, in the order of the jobs
  (the send result, or the timeout record when the timer won), cancels exactly
  the timed-out requests, and ends when the queue is drained.\<close>

theorem worker_one_record_per_job:
  assumes "\<forall>rl. take_token rl \<noteq> None" and "well_raced js"
  shows "\<exists>rs rl'. worker_loop take_token False 0 rl js = (rs, timed_out js, QueueDrained, rl')
           \<and> map Some rs = map job_record js \<and> length rs = length js"
proof -
  from worker_loop_append [OF assms, of False 0 rl "[]"] obtain rs rl' where
    "worker_loop take_token False 0 rl js = prepend rs (timed_out js) ([], [], QueueDrained, rl')"
    "map Some rs = map job_record js" by auto
  moreover from this(2) have "length rs = length js" by (metis length_map)
  ultimately show ?thesis by auto
qed

theorem worker_one_record_per_job_witness:
  "\<exists>rs rl'. worker_loop (\<lambda>u::unit. Some u) False 0 ()
       [(0, Some \<lparr>response_time = 40, content_size = 9, rec_error = None\<rparr>, ResultReady),
        (1, None, TimerFired)]
     = (rs, [1], QueueDrained, rl') \<and> length rs = 2"
  using worker_one_record_per_job
    [of "\<lambda>u::unit. Some u" "[(0, Some \<lparr>response_time = 40, content_size = 9, rec_error = None\<rparr>, ResultReady),
        (1, None, TimerFired)]" ]
  by (simp add: timed_out_def)

subsection \<open>The body-drain buffer\<close>

lemma new_http_worker_Inr:
  "get_int c FieldContentSize = Inr n \<Longrightarrow> 0 \<le> n \<Longrightarrow>
     new_http_worker c = Inr \<lparr>discard_len = nat (min n MaxBufferSize), custom_handler = None\<rparr>"
  by (simp add: new_http_worker_def MaxBufferSize_def min_def)

text \<open>C11: a worker built after a probe that stored a positive content size
  \<open>n\<close> has a scratch buffer of \<open>min n 8192\<close> bytes (bounded whatever the
  probe saw), and drains every response body to its end, counting its bytes.\<close>

theorem new_worker_drains_body:
  assumes "get_int c FieldContentSize = Inr n" and "0 < n"
  shows "\<exists>w. new_http_worker c = Inr w \<and> 0 < discard_len w \<and> discard_len w \<le> 8192
           \<and> int (discard_len w) = min n 8192
           \<and> read_from (discard_len w) b 0
               = Some (int (remaining b), if body_end b = EOF then None else Some (body_end b))"
proof -
  let ?w = "\<lparr>discard_len = nat (min n MaxBufferSize), custom_handler = None\<rparr> :: http_worker"
  have w: "new_http_worker c = Inr ?w" using assms by (intro new_http_worker_Inr) simp_all
  have "0 < discard_len ?w" "discard_len ?w \<le> 8192" "int (discard_len ?w) = min n 8192"
    using assms(2) by (auto simp: MaxBufferSize_def)
  with w show ?thesis using read_from_drains [of "discard_len ?w" b 0] by auto
qed

theorem new_worker_drains_body_witness:
  "\<exists>w. new_http_worker (set_int (new_context (empty_config 10 2)) FieldContentSize 612) = Inr w
     \<and> discard_len w = 612
     \<and> read_from (discard_len w) \<lparr>remaining = 612, body_end = EOF\<rparr> 0 = Some (612, None)"
  using new_worker_drains_body
    [of "set_int (new_context (empty_config 10 2)) FieldContentSize 612" 612 "\<lparr>remaining = 612, body_end = EOF\<rparr>"]
  by auto

text \<open>A worker built after a probe that stored content size 0 (an empty
  probe body, or a \<open>Content-Length\<close> that \<open>Atoi\<close> rejects) gets a
  zero-length buffer, and its \<open>send\<close> never finishes on any later response
  that has a body: \<open>Discard.ReadFrom\<close> spins on \<open>0, nil\<close> reads.\<close>

lemma zero_probe_send_hangs:
  assumes "get_int c FieldContentSize = Inr 0"
    and "fst (retry_loop att 3 0) = DoResponse st b" and "0 < remaining b"
  shows "\<exists>w. new_http_worker c = Inr w \<and> discard_len w = 0 \<and> send_record w att el = None"
proof -
  let ?w = "\<lparr>discard_len = 0, custom_handler = None\<rparr> :: http_worker"
  have "new_http_worker c = Inr ?w" using new_http_worker_Inr [OF assms(1)] by (simp add: MaxBufferSize_def)
  moreover have "send_record ?w att el = None"
    using assms(2,3) read_from_zero_len_hangs [OF assms(3)] by (simp add: send_record_def consume_def)
  ultimately show ?thesis by auto
qed

subsection \<open>Timeouts, skip-first and stop\<close>

text \<open>C17: with skip-first on, a worker suppresses its first job's record
  only when that job's result won the \<open>select\<close>; if the first job timed out,
  its timeout record reaches the collector and no record of the worker is
  suppressed at all.\<close>

theorem skip_first_suppresses_only_delivered:
  assumes "\<forall>rl. take_token rl \<noteq> None" and "well_raced ((j, res, ev) # js)"
  shows "\<exists>rs rl'. worker_loop take_token True 0 rl ((j, res, ev) # js)
             = (rs, timed_out ((j, res, ev) # js), QueueDrained, rl')
           \<and> map Some rs = (if ev = ResultReady then map job_record js
                             else map job_record ((j, res, ev) # js))"
proof -
  from assms(1) obtain rl1 where rl1: "take_token rl = Some rl1" by blast
  from assms(2) have ev: "ev \<noteq> StopClosed" "ev = ResultReady \<longrightarrow> res \<noteq> None" "well_raced js"
    by simp_all
  from worker_loop_append [OF assms(1) ev(3), of True 1 rl1 "[]"] obtain rs rl' where
    tail: "worker_loop take_token True 1 rl1 js = prepend rs (timed_out js) ([], [], QueueDrained, rl')"
    and rs: "map Some rs = map job_record js" by auto
  show ?thesis
  proof (cases ev)
    case ResultReady
    with ev obtain r where "res = Some r" by auto
    with ResultReady rl1 tail rs show ?thesis by (intro exI [of _ rs] exI [of _ rl']) simp
  next
    case TimerFired
    with rl1 tail rs show ?thesis by (intro exI [of _ "timeout_record # rs"] exI [of _ rl']) simp
  next
    case StopClosed
    with ev show ?thesis by simp
  qed
qed

theorem skip_first_suppresses_only_delivered_witness:
  "\<exists>rs rl'. worker_loop (\<lambda>u::unit. Some u) True 0 ()
       [(0, None, TimerFired), (1, Some \<lparr>response_time = 40, content_size = 9, rec_error = None\<rparr>, ResultReady)]
     = (rs, [0], QueueDrained, rl')
     \<and> map Some rs = [Some timeout_record, Some \<lparr>response_time = 40, content_size = 9, rec_error = None\<rparr>]"
  using skip_first_suppresses_only_delivered
    [of "\<lambda>u::unit. Some u" 0 None TimerFired
        "[(1, Some \<lparr>response_time = 40, content_size = 9, rec_error = None\<rparr>, ResultReady)]" "()"]
  by simp

text \<open>C18: when the stop channel wins the \<open>select\<close> for a job, that job's
  request is cancelled, no record is emitted for it, and the worker returns
  without dequeuing another job; the jobs before it were accounted one record
  each.\<close>

theorem stop_cancels_and_exits:
  assumes "\<forall>rl. take_token rl \<noteq> None" and "well_raced pre"
  shows "\<exists>rs rl'. worker_loop take_token False 0 rl (pre @ (j, res, StopClosed) # rest)
             = (rs, timed_out pre @ [j], StoppedBySignal, rl')
           \<and> map Some rs = map job_record pre"
proof -
  from worker_loop_append [OF assms, of False 0 rl "(j, res, StopClosed) # rest"] obtain rs rl1 where
    pre: "worker_loop take_token False 0 rl (pre @ (j, res, StopClosed) # rest)
            = prepend rs (timed_out pre) (worker_loop take_token False (length pre) rl1 ((j, res, StopClosed) # rest))"
    and rs: "map Some rs = map job_record pre" by auto
  from assms(1) obtain rl2 where "take_token rl1 = Some rl2" by blast
  with pre rs show ?thesis by (intro exI [of _ rs] exI [of _ rl2]) simp
qed

theorem stop_cancels_and_exits_witness:
  "\<exists>rs rl'. worker_loop (\<lambda>u::unit. Some u) False 0 ()
       [(0, None, TimerFired), (1, None, StopClosed), (2, None, TimerFired)]
     = (rs, [0, 1], StoppedBySignal, rl') \<and> map Some rs = [Some timeout_record]"
  using stop_cancels_and_exits [of "\<lambda>u::unit. Some u" "[(0, None, TimerFired)]" "()" 1 None "[(2, None, TimerFired)]"]
  by (simp add: well_raced_def)

end
