(* ===== verification/PrintReport.thy ===== *)
theory PrintReport
  imports Report HttpWorker
begin

text \<open>
  \<open>PrintReport\<close> (\<open>src/report.go\<close>) as the values it formats: the probe
  facts read back from the context store (\<open>GetString\<close>, \<open>GetInt\<close>, which
  panic on a missing fact), the plan's host, port and concurrency, the
  totals, the table of failure categories with their mean times
  (\<open>div\<close>), the non-2xx count, the bytes received, and, under the guard of
  the latency block, the latency summary of \<open>Report\<close> and the four rates.
  Every line is written to a buffer printed at the end, so a panic anywhere
  prints nothing. A \<open>float64\<close> quotient is a value of \<open>go_float\<close>: a
  division by zero gives an infinity or NaN rather than a panic. The
  \<open>Document Path\<close> line (\<open>url.Parse\<close>, \<open>RequestURI\<close>) is library code and
  is left out.
\<close>

datatype go_float = Fin real | PosInf | NegInf | NaN

text \<open>\<open>x / y\<close> on \<open>float64\<close> (IEEE 754, rounding not modelled).\<close>

definition go_fdiv :: "real \<Rightarrow> real \<Rightarrow> go_float" where
  "go_fdiv x y =
     (if y \<noteq> 0 then Fin (x / y) else if 0 < x then PosInf else if x < 0 then NegInf else NaN)"

text \<open>The columns of the table are success, connect, receive, response,
  length and exceptions: their counts and their mean times in milliseconds.\<close>

record failed_table =
  ft_counts :: "int list"
  ft_times :: "real list"

record rates =
  rt_requests_per_sec :: go_float
  rt_time_per_request :: go_float
  rt_time_per_request_all :: go_float
  rt_transfer_kb_per_sec :: go_float

record report_out =
  ro_server :: string
  ro_host :: string
  ro_port :: int
  ro_doc_length :: int
  ro_concurrency :: int
  ro_time_taken :: real
  ro_time_millis :: int
  ro_complete :: int
  ro_success :: int
  ro_failed :: int
  ro_failed_table :: "failed_table option"
  ro_non2xx :: "int option"
  ro_html :: int
  ro_latency :: "latency_report option"
  ro_rates :: "rates option"

text \<open>The \<open>Failed types\<close> block, printed when some request failed.\<close>

definition report_failed_table :: "stats \<Rightarrow> failed_table" where
  "report_failed_table s =
     \<lparr>ft_counts = [total_success s, err_connect s, err_receive s, err_response s, err_length s,
                   err_exception s],
      ft_times = [report_div (total_response_time s) (total_success s),
                  report_div (err_connect_dur s) (err_connect s),
                  report_div (err_receive_dur s) (err_receive s),
                  report_div (err_response_dur s) (err_response s),
                  report_div (err_length_dur s) (err_length s),
                  report_div (err_exception_dur s) (err_exception s)]\<rparr>"

text \<open>The four rate lines of the latency block.\<close>

definition report_rates :: "config \<Rightarrow> stats \<Rightarrow> rates" where
  "report_rates cfg s =
     (let secs = real_of_int (total_execution_time s) / 1000000000 in
      \<lparr>rt_requests_per_sec = go_fdiv (real_of_int (total_requests s)) secs,
       rt_time_per_request =
         go_fdiv (real_of_int (concurrency cfg) * real_of_int (total_execution_time s) / 1000000)
                 (real_of_int (total_requests s)),
       rt_time_per_request_all =
         go_fdiv (real_of_int (total_execution_time s) / 1000000) (real_of_int (total_requests s)),
       rt_transfer_kb_per_sec = go_fdiv (real_of_int (total_received s sdiv 1024)) secs\<rparr>)"

definition print_report :: "gb_context \<Rightarrow> stats \<Rightarrow> go_panic + report_out" where
  "print_report c s =
     (let cfg = ctx_config c in
      go_bind (get_string c FieldServerName) (\<lambda>sv.
      go_bind (get_int c FieldContentSize) (\<lambda>dl.
      go_bind (report_latencies s) (\<lambda>lat.
      Inr \<lparr>ro_server = sv, ro_host = host cfg, ro_port = port cfg, ro_doc_length = dl,
           ro_concurrency = concurrency cfg,
           ro_time_taken = real_of_int (total_execution_time s) / 1000000000,
           ro_time_millis = total_response_time s sdiv 1000000,
           ro_complete = total_requests s, ro_success = total_success s,
           ro_failed = total_failed_requests s,
           ro_failed_table =
             (if total_failed_requests s = 0 then None else Some (report_failed_table s)),
           ro_non2xx = (if 0 < err_response s then Some (err_response s) else None),
           ro_html = total_received s,
           ro_latency = lat,
           ro_rates = (case lat of None \<Rightarrow> None | Some _ \<Rightarrow> Some (report_rates cfg s))\<rparr>))))"

subsection \<open>Lemmas\<close>

lemma report_latencies_guard:
  "\<not> (response_time_data s \<noteq> [] \<and> 0 < total_response_time s) \<Longrightarrow> report_latencies s = Inr None"
  by (auto simp: report_latencies_def Let_def)

lemma report_div_mean:
  "stats_inv s \<Longrightarrow>
     report_div (total_response_time s) (total_success s)
       = (if response_time_data s = [] then 0
          else real_of_int (sum_list (response_time_data s)) / 1000000 / real (length (response_time_data s)))"
  by (simp add: report_div_def stats_inv_def)

lemma print_report_Inr:
  assumes "store c FieldServerName = Some (SString sv)" and "store c FieldContentSize = Some (SInt n)"
    and "report_latencies s = Inr lat"
  shows "print_report c s =
           Inr \<lparr>ro_server = sv, ro_host = host (ctx_config c), ro_port = port (ctx_config c),
                ro_doc_length = n, ro_concurrency = concurrency (ctx_config c),
                ro_time_taken = real_of_int (total_execution_time s) / 1000000000,
                ro_time_millis = total_response_time s sdiv 1000000,
                ro_complete = total_requests s, ro_success = total_success s,
                ro_failed = total_failed_requests s,
                ro_failed_table =
                  (if total_failed_requests s = 0 then None else Some (report_failed_table s)),
                ro_non2xx = (if 0 < err_response s then Some (err_response s) else None),
                ro_html = total_received s, ro_latency = lat,
                ro_rates = (case lat of None \<Rightarrow> None | Some _ \<Rightarrow> Some (report_rates (ctx_config c) s))\<rparr>"
  using assms by (simp add: print_report_def get_string_def get_int_def Let_def)

text \<open>C20: for the statistics of a campaign (the accounting invariant holds)
  and a probe that stored its two facts, \<open>PrintReport\<close> never panics. It
  reports every request as a success or a failure, prints the table of
  failure categories exactly when some request failed, with the success
  column's time the mean success latency in milliseconds, and prints the
  latency block exactly when there is a success and a positive total
  response time; the per-request times of that block are then finite.\<close>

theorem print_report_safe:
  assumes "stats_inv s" and "store c FieldServerName = Some (SString sv)"
    and "store c FieldContentSize = Some (SInt n)"
  shows "\<exists>out. print_report c s = Inr out \<and> ro_server out = sv \<and> ro_doc_length out = n
           \<and> ro_complete out = ro_success out + ro_failed out
           \<and> (ro_failed_table out \<noteq> None \<longleftrightarrow> ro_failed out \<noteq> 0)
           \<and> (\<forall>t. ro_failed_table out = Some t \<longrightarrow>
                 ft_times t ! 0 = (if response_time_data s = [] then 0
                   else real_of_int (sum_list (response_time_data s)) / 1000000
                        / real (length (response_time_data s))))
           \<and> (ro_latency out \<noteq> None \<longleftrightarrow> response_time_data s \<noteq> [] \<and> 0 < total_response_time s)
           \<and> (\<forall>r. ro_rates out = Some r \<longrightarrow>
                 (\<exists>x. rt_time_per_request r = Fin x) \<and> (\<exists>x. rt_time_per_request_all r = Fin x))"
proof -
  obtain lat where lat: "report_latencies s = Inr lat"
    and some: "lat \<noteq> None \<longleftrightarrow> response_time_data s \<noteq> [] \<and> 0 < total_response_time s"
  proof (cases "response_time_data s \<noteq> [] \<and> 0 < total_response_time s")
    case True
    then obtain sd where "report_latencies s =
        Inr (Some (summary sd (total_response_time s sdiv int (length (response_time_data s)))
                    (sort (response_time_data s))))"
      using report_latencies_defined [OF assms(1)] by blast
    with True that show ?thesis by blast
  next
    case False
    with report_latencies_guard [OF False] that show ?thesis by blast
  qed
  have tot: "total_requests s = total_success s + total_failed_requests s"
    "total_success s = int (length (response_time_data s))" "0 \<le> total_failed_requests s"
    using assms(1) by (simp_all add: stats_inv_def)
  have pos: "real_of_int (total_requests s) \<noteq> 0" if "lat \<noteq> None"
  proof -
    have "0 < int (length (response_time_data s))" using some that by simp
    with tot show ?thesis by linarith
  qed
  show ?thesis
    using print_report_Inr [OF assms(2,3) lat] some tot pos report_div_mean [OF assms(1)]
    by (auto simp: report_failed_table_def report_rates_def Let_def go_fdiv_def split: option.splits)
qed

text \<open>Witness for C20: three successes of 30, 10 and 20 ms after a probe of
  an \<open>nginx\<close> server with a 612-byte page.\<close>

theorem print_report_safe_witness:
  "\<exists>out. print_report
           (set_int (set_string (new_context (empty_config 3 1)) FieldServerName ''nginx'')
              FieldContentSize 612) sample_stats = Inr out
     \<and> ro_server out = ''nginx'' \<and> ro_doc_length out = 612 \<and> ro_latency out \<noteq> None"
proof -
  let ?c = "set_int (set_string (new_context (empty_config 3 1)) FieldServerName ''nginx'') FieldContentSize 612"
  have inv: "stats_inv sample_stats" by (simp add: sample_stats_def stats_inv_def)
  have "store ?c FieldServerName = Some (SString ''nginx'')" "store ?c FieldContentSize = Some (SInt 612)"
    by (simp_all add: set_int_def set_string_def FieldServerName_def FieldContentSize_def)
  from print_report_safe [OF inv this] show ?thesis by (auto simp: sample_stats_def)
qed

end
