(* ===== verification/StatsSpec.thy ===== *)
theory StatsSpec
  imports Monitor
begin

text \<open>
  A reference specification of the aggregator's accounting: the statistics
  of a list of results computed in one pass per field (filter, count, sum),
  as the report reads them. The aggregator of \<open>src/monitor.go\<close> keeps them
  as a running accumulator updated by \<open>updateStats\<close> one record at a time;
  the equivalence below says the streaming fold and the batch specification
  agree on every field, for every sequence of results. The classification
  \<open>class_of\<close> is the type switch of \<open>updateStats\<close>, default case included.
\<close>

datatype err_class = ClsLength | ClsConnect | ClsReceive | ClsException | ClsResponse

fun class_of :: "gb_error \<Rightarrow> err_class" where
  "class_of (ConnectError _) = ClsConnect"
| "class_of (ExceptionError _) = ClsException"
| "class_of (LengthError _) = ClsLength"
| "class_of (ReceiveError _) = ClsReceive"
| "class_of (ResponseError _) = ClsResponse"
| "class_of (ResponseTimeoutError _) = ClsException"
| "class_of (PlainError _) = ClsException"

definition succeeded :: "gb_record list \<Rightarrow> gb_record list" where
  "succeeded rs = filter (\<lambda>r. rec_error r = None) rs"

definition failed_in :: "err_class \<Rightarrow> gb_record list \<Rightarrow> gb_record list" where
  "failed_in c rs = filter (\<lambda>r. case rec_error r of None \<Rightarrow> False | Some e \<Rightarrow> class_of e = c) rs"

definition class_count :: "err_class \<Rightarrow> gb_record list \<Rightarrow> int" where
  "class_count c rs = int (length (failed_in c rs))"

definition class_dur :: "err_class \<Rightarrow> gb_record list \<Rightarrow> duration" where
  "class_dur c rs = sum_list (map response_time (failed_in c rs))"

definition stats_of :: "gb_record list \<Rightarrow> stats" where
  "stats_of rs =
     \<lparr>response_time_data = map response_time (succeeded rs),
      total_requests = int (length rs),
      total_success = int (length (succeeded rs)),
      total_execution_time = 0,
      total_response_time = sum_list (map response_time (succeeded rs)),
      total_received = sum_list (map content_size (succeeded rs)),
      total_failed_requests = int (length (filter (\<lambda>r. rec_error r \<noteq> None) rs)),
      err_length = class_count ClsLength rs, err_length_dur = class_dur ClsLength rs,
      err_connect = class_count ClsConnect rs, err_connect_dur = class_dur ClsConnect rs,
      err_receive = class_count ClsReceive rs, err_receive_dur = class_dur ClsReceive rs,
      err_exception = class_count ClsException rs, err_exception_dur = class_dur ClsException rs,
      err_response = class_count ClsResponse rs, err_response_dur = class_dur ClsResponse rs\<rparr>"

text \<open>The results a sequence of monitor events delivers, in arrival order.\<close>

definition collected :: "mon_event list \<Rightarrow> gb_record list" where
  "collected es = [r. Collected r \<leftarrow> es]"

subsection \<open>Lemmas\<close>

lemma stats_of_Nil: "stats_of [] = init_stats"
  by (simp add: stats_of_def init_stats_def succeeded_def class_count_def class_dur_def failed_in_def)

lemma failed_in_snoc_ok:
  "rec_error r = None \<Longrightarrow> failed_in c (rs @ [r]) = failed_in c rs"
  by (simp add: failed_in_def)

lemma failed_in_snoc_err:
  "rec_error r = Some e \<Longrightarrow>
     failed_in c (rs @ [r]) = (if class_of e = c then failed_in c rs @ [r] else failed_in c rs)"
  by (simp add: failed_in_def)

lemma count_error_class:
  "count_error e d s =
     (case class_of e of
        ClsLength \<Rightarrow> s\<lparr>err_length := err_length s + 1, err_length_dur := err_length_dur s + d\<rparr>
      | ClsConnect \<Rightarrow> s\<lparr>err_connect := err_connect s + 1, err_connect_dur := err_connect_dur s + d\<rparr>
      | ClsReceive \<Rightarrow> s\<lparr>err_receive := err_receive s + 1, err_receive_dur := err_receive_dur s + d\<rparr>
      | ClsException \<Rightarrow> s\<lparr>err_exception := err_exception s + 1, err_exception_dur := err_exception_dur s + d\<rparr>
      | ClsResponse \<Rightarrow> s\<lparr>err_response := err_response s + 1, err_response_dur := err_response_dur s + d\<rparr>)"
  by (cases e) simp_all

lemma stats_of_snoc: "stats_of (rs @ [r]) = update_stats (stats_of rs) r"
proof (cases "rec_error r")
  case None
  then show ?thesis
    by (simp add: stats_of_def update_stats_success succeeded_def failed_in_snoc_ok
        class_count_def class_dur_def)
next
  case (Some e)
  then show ?thesis
    by (cases "class_of e")
       (simp_all add: stats_of_def update_stats_error count_error_class succeeded_def
          failed_in_snoc_err class_count_def class_dur_def)
qed

text \<open>Whenever the monitor loop stops, the statistics it holds are those of
  the specification for the results it consumed before stopping, the
  results of an earlier segment \<open>xs\<close> included.\<close>

lemma monitor_loop_stopped_spec:
  "monitor_loop coe cfg (stats_of xs) es = LoopStopped s rest \<Longrightarrow>
     \<exists>pre. es = pre @ rest \<and> s = stats_of (xs @ collected pre)"
proof (induction es arbitrary: xs)
  case Nil
  then show ?case by simp
next
  case (Cons e es)
  show ?case
  proof (cases e)
    case (Collected r)
    have snoc: "update_stats (stats_of xs) r = stats_of (xs @ [r])" by (simp add: stats_of_snoc)
    show ?thesis
    proof (cases "monitor_loop coe cfg (stats_of (xs @ [r])) es = LoopStopped s rest")
      case True
      then obtain pre where "es = pre @ rest" "s = stats_of (xs @ [r] @ collected pre)"
        using Cons.IH by fastforce
      then show ?thesis using Collected
        by (intro exI[of _ "Collected r # pre"]) (simp add: collected_def)
    next
      case False
      then show ?thesis using Cons.prems Collected snoc
        by (auto simp: collected_def Let_def split: if_splits sum.splits)
    qed
  next
    case TimeLimitFired
    then show ?thesis using Cons.prems Cons.IH[of xs]
      by (cases "timelimit cfg > 0") (auto simp: collected_def intro: exI[of _ "[TimeLimitFired]"])
  next
    case UserInterrupt
    then show ?thesis using Cons.prems
      by (auto simp: collected_def intro: exI[of _ "[UserInterrupt]"])
  qed
qed

text \<open>C40: \<open>updateStats\<close>, folded over the results in arrival order from the
  zero \<open>Stats\<close>, computes exactly the batch statistics of the specification:
  every counter, every duration sum and the latency list agree.\<close>

theorem update_stats_fold_eq_spec: "foldl update_stats init_stats rs = stats_of rs"
proof (induction rs rule: rev_induct)
  case Nil
  then show ?case by (simp add: stats_of_Nil)
next
  case (snoc r rs)
  then show ?case by (simp add: stats_of_snoc)
qed

end
