(* ===== verification/Dispatcher.thy ===== *)
theory Dispatcher
  imports HttpWorker
begin

text \<open>
  The dispatcher (\<open>src/benchmark.go\<close>) and the request construction it
  uses (\<open>NewHTTPRequest\<close>, \<open>CopyHTTPRequest\<close> of \<open>src/http.go\<close>).
  A request keeps what the campaign sets: method, URL, the header map
  (\<open>http.Header\<close>, key to values; key canonicalisation is not modelled),
  the cookies, the basic-auth pair and its body. A body is a
  \<open>bytes.Reader\<close> over the configured content, identified by its address in
  a store of readers, so that sharing a reader between requests is visible.
  Addresses are handed out by a counter. \<open>http.NewRequest\<close>'s validation of
  method and URL is the parameter \<open>req_ok\<close>.
\<close>

type_synonym header = "string \<rightharpoonup> string list"

record http_request =
  rq_method :: string
  rq_url :: string
  rq_body :: "nat option"
  rq_header :: header
  rq_cookies :: "(string \<times> string) list"
  rq_auth :: "(string \<times> string) option"

text \<open>\<open>Header.Set\<close> and \<open>Header.Add\<close>.\<close>

definition header_set :: "header \<Rightarrow> string \<Rightarrow> string \<Rightarrow> header" where
  "header_set h k v = h(k \<mapsto> [v])"

definition header_add :: "header \<Rightarrow> string \<Rightarrow> string \<Rightarrow> header" where
  "header_add h k v = h(k \<mapsto> (case h k of None \<Rightarrow> [v] | Some vs \<Rightarrow> vs @ [v]))"

text \<open>\<open>pair := strings.Split(s, sep)\<close> followed by \<open>pair[0]\<close>, \<open>pair[1]\<close>.\<close>

definition split_pair :: "char \<Rightarrow> string \<Rightarrow> go_panic + (string \<times> string)" where
  "split_pair c s =
     (let pair = go_split c s in
      go_bind (go_index pair 0) (\<lambda>k. go_bind (go_index pair 1) (\<lambda>v. Inr (k, v))))"

text \<open>The loops over \<open>config.headers\<close> and \<open>config.cookies\<close>.\<close>

fun add_headers :: "header \<Rightarrow> string list \<Rightarrow> go_panic + header" where
  "add_headers h [] = Inr h"
| "add_headers h (x # xs) =
     go_bind (split_pair CHR '':'' x) (\<lambda>(k, v). add_headers (header_add h k v) xs)"

fun add_cookies :: "(string \<times> string) list \<Rightarrow> string list \<Rightarrow> go_panic + (string \<times> string) list" where
  "add_cookies cs [] = Inr cs"
| "add_cookies cs (x # xs) =
     go_bind (split_pair CHR ''='' x) (\<lambda>nv. add_cookies (cs @ [nv]) xs)"

text \<open>\<open>NewHTTPRequest\<close>: \<open>a\<close> is the next free reader address. A request
  \<open>http.NewRequest\<close> rejects is returned as \<open>nil\<close> (\<open>None\<close>).\<close>

definition new_http_request ::
  "(string \<Rightarrow> string \<Rightarrow> bool) \<Rightarrow> config \<Rightarrow> nat \<Rightarrow> go_panic + (http_request option \<times> nat)" where
  "new_http_request req_ok cfg a =
     (let post = (req_method cfg = ''POST'' \<or> req_method cfg = ''PUT'');
          body = (if post then Some a else None);
          a' = (if post then Suc a else a)
      in if \<not> req_ok (req_method cfg) (url cfg) then Inr (None, a')
         else
           (let h0 = header_set (header_set Map.empty ''Content-Type'' (content_type cfg))
                       ''User-Agent'' (user_agent cfg);
                h1 = (if keep_alive cfg then header_set h0 ''Connection'' ''keep-alive'' else h0)
            in go_bind (add_headers h1 (headers cfg)) (\<lambda>h2.
               go_bind (add_cookies [] (cookies cfg)) (\<lambda>cs.
               go_bind (if basic_authentication cfg \<noteq> []
                        then go_bind (split_pair CHR '':'' (basic_authentication cfg)) (\<lambda>up. Inr (Some up))
                        else Inr None) (\<lambda>auth.
               Inr (Some \<lparr>rq_method = req_method cfg, rq_url = url cfg, rq_body = body,
                          rq_header = h2, rq_cookies = cs, rq_auth = auth\<rparr>, a'))))))"

text \<open>\<open>CopyHTTPRequest\<close>: a shallow copy of \<open>*request\<close> (a nil request
  panics) whose body, if any, is a new reader over the configured content.\<close>

definition copy_http_request ::
  "nat \<Rightarrow> http_request option \<Rightarrow> go_panic + (http_request \<times> nat)" where
  "copy_http_request a r =
     (case r of
        None \<Rightarrow> Inl NilPointerDereference
      | Some q \<Rightarrow> if rq_body q \<noteq> None then Inr (q\<lparr>rq_body := Some a\<rparr>, Suc a) else Inr (q, a))"

text \<open>The enqueueing loop of \<open>Benchmark.Run\<close>: \<open>k\<close> copies of \<open>base\<close>.\<close>

fun clone_jobs :: "nat \<Rightarrow> http_request option \<Rightarrow> nat \<Rightarrow> go_panic + (http_request list \<times> nat)" where
  "clone_jobs 0 base a = Inr ([], a)"
| "clone_jobs (Suc k) base a =
     go_bind (copy_http_request a base) (\<lambda>(q, a1).
     go_bind (clone_jobs k base a1) (\<lambda>(qs, a2). Inr (q # qs, a2)))"

text \<open>What a dispatcher run leaves: the jobs it enqueued (\<open>nil\<close> ones
  included), the next reader address, and the context (the barrier).\<close>

record dispatch =
  d_jobs :: "http_request option list"
  d_next :: nat
  d_ctx :: gb_context

text \<open>\<open>make(chan T, n)\<close>: a negative size panics.\<close>

definition go_make_chan :: "int \<Rightarrow> go_panic + unit" where
  "go_make_chan n = (if n < 0 then Inl MakeChanSizeOutOfRange else Inr ())"

text \<open>The loop \<open>for i := 0; i < concurrency; i++ { go NewHTTPWorker(...).Run(i) }\<close>:
  the function value and its arguments of a \<open>go\<close> statement are evaluated
  by the calling goroutine, so \<open>NewHTTPWorker\<close> (and its \<open>GetInt\<close>) runs
  in the dispatcher, once per worker; only \<open>Run\<close> runs in the new goroutine
  (the Worker component).\<close>

fun spawn_workers :: "nat \<Rightarrow> gb_context \<Rightarrow> go_panic + unit" where
  "spawn_workers 0 c = Inr ()"
| "spawn_workers (Suc k) c = go_bind (new_http_worker c) (\<lambda>_. spawn_workers k c)"

text \<open>\<open>Benchmark.Run\<close> up to \<open><-b.c.stop\<close>: the jobs channel of capacity
  \<open>concurrency * GoMaxProcs\<close>, the workers, the base request (its error
  ignored) and the copies. It never calls \<open>b.c.start.Done()\<close>.\<close>

definition benchmark_run ::
  "int \<Rightarrow> (string \<Rightarrow> string \<Rightarrow> bool) \<Rightarrow> gb_context \<Rightarrow> go_panic + dispatch" where
  "benchmark_run gmp req_ok c =
     (let cfg = ctx_config c in
      go_bind (go_make_chan (concurrency cfg * gmp)) (\<lambda>_.
      go_bind (spawn_workers (nat (concurrency cfg)) c) (\<lambda>_.
      go_bind (new_http_request req_ok cfg 0) (\<lambda>(base, a).
      go_bind (clone_jobs (nat (requests cfg)) base a) (\<lambda>(qs, a').
      Inr \<lparr>d_jobs = map Some qs, d_next = a', d_ctx = c\<rparr>)))))"

text \<open>\<open>reqscount\<close> of \<open>RunCustom\<close>.\<close>

definition reqs_count :: "config \<Rightarrow> int" where
  "reqs_count cfg = (if skip_first cfg then requests cfg + concurrency cfg else requests cfg)"

text \<open>\<open>Benchmark.RunCustom\<close> up to \<open><-b.c.stop\<close>: the jobs channel of
  capacity \<open>reqscount\<close>, the workers (\<open>h.Custom = custom\<close> only sets a
  field of each), the base request and the jobs; \<open>prepare\<close> is
  \<open>custom.Prepare\<close> (its error is ignored, as in the code).\<close>

definition benchmark_run_custom ::
  "(string \<Rightarrow> string \<Rightarrow> bool) \<Rightarrow> (config \<Rightarrow> http_request option \<Rightarrow> int \<Rightarrow> http_request option) option
   \<Rightarrow> gb_context \<Rightarrow> go_panic + dispatch" where
  "benchmark_run_custom req_ok custom c =
     (let cfg = ctx_config c; n = nat (reqs_count cfg) in
      go_bind (go_make_chan (reqs_count cfg)) (\<lambda>_.
      go_bind (spawn_workers (nat (concurrency cfg)) c) (\<lambda>_.
      go_bind
        (case custom of
           Some prepare \<Rightarrow>
             (let base = prepare cfg None 0 in Inr (map (\<lambda>i. prepare cfg base (int i)) [0..<n], 0))
         | None \<Rightarrow>
             go_bind (new_http_request req_ok cfg 0) (\<lambda>(base, a).
             go_bind (clone_jobs n base a) (\<lambda>(qs, a'). Inr (map Some qs, a'))))
        (\<lambda>(js, a'). go_bind (start_done c) (\<lambda>c'. Inr \<lparr>d_jobs = js, d_next = a', d_ctx = c'\<rparr>)))))"

text \<open>The shape every request of a campaign has: method and URL of the
  plan, a body exactly for POST and PUT, the \<open>Content-Type\<close> and
  \<open>User-Agent\<close> headers, and no header key bound to an empty value list
  (\<open>Header.Get\<close> reads the first value).\<close>

definition wf_header :: "header \<Rightarrow> bool" where
  "wf_header h \<longleftrightarrow> (\<forall>k vs. h k = Some vs \<longrightarrow> vs \<noteq> [])"

definition wf_request :: "config \<Rightarrow> http_request \<Rightarrow> bool" where
  "wf_request cfg q \<longleftrightarrow>
     rq_method q = req_method cfg \<and> rq_url q = url cfg
   \<and> (rq_body q \<noteq> None \<longleftrightarrow> req_method cfg = ''POST'' \<or> req_method cfg = ''PUT'')
   \<and> rq_header q ''Content-Type'' \<noteq> None \<and> rq_header q ''User-Agent'' \<noteq> None
   \<and> wf_header (rq_header q)"

subsection \<open>Lemmas\<close>


lemma split_pair_eq:
  "split_pair c s =
     (if c \<in> set s then Inr (takeWhile (\<lambda>x. x \<noteq> c) s, takeWhile (\<lambda>x. x \<noteq> c) (tl (dropWhile (\<lambda>x. x \<noteq> c) s)))
      else Inl (IndexOutOfRange 1 1))"
proof (cases "c \<in> set s")
  case True
  then obtain k v where s: "s = k @ c # v" and k: "c \<notin> set k"
    by (metis split_list_first)
  have "go_split c s = k # go_split c v" using k by (simp add: s go_split_append_sep)
  moreover obtain w ws where "go_split c v = w # ws" by (cases "go_split c v") auto
  moreover have "w = takeWhile (\<lambda>x. x \<noteq> c) v"
    using go_split_hd [of c v] calculation(2) by simp
  ultimately show ?thesis using k True
    by (simp add: split_pair_def s go_index_def takeWhile_append dropWhile_append)
next
  case False
  then show ?thesis by (simp add: split_pair_def go_split_no_sep go_index_def)
qed

lemma split_pair_sep: "c \<notin> set k \<Longrightarrow> split_pair c (k @ c # v) = Inr (k, takeWhile (\<lambda>x. x \<noteq> c) v)"
  by (simp add: split_pair_eq takeWhile_append dropWhile_append)

lemma add_headers_ok:
  "\<forall>x\<in>set hs. CHR '':'' \<in> set x \<Longrightarrow> \<exists>h'. add_headers h hs = Inr h'"
  by (induction hs arbitrary: h) (auto simp: split_pair_eq)

lemma add_headers_bad:
  "\<exists>x\<in>set hs. CHR '':'' \<notin> set x \<Longrightarrow> add_headers h hs = Inl (IndexOutOfRange 1 1)"
  by (induction hs arbitrary: h) (auto simp: split_pair_eq)

lemma add_cookies_ok:
  "\<forall>x\<in>set xs. CHR ''='' \<in> set x \<Longrightarrow> \<exists>cs'. add_cookies cs xs = Inr cs'"
  by (induction xs arbitrary: cs) (auto simp: split_pair_eq)

lemma add_cookies_bad:
  "\<exists>x\<in>set xs. CHR ''='' \<notin> set x \<Longrightarrow> add_cookies cs xs = Inl (IndexOutOfRange 1 1)"
  by (induction xs arbitrary: cs) (auto simp: split_pair_eq)

lemma add_headers_Inl:
  "add_headers h hs = Inl p \<longleftrightarrow> (\<exists>x\<in>set hs. CHR '':'' \<notin> set x) \<and> p = IndexOutOfRange 1 1"
  by (induction hs arbitrary: h) (auto simp: split_pair_eq go_bind_eq_Inl)

lemma add_cookies_Inl:
  "add_cookies cs xs = Inl p \<longleftrightarrow> (\<exists>x\<in>set xs. CHR ''='' \<notin> set x) \<and> p = IndexOutOfRange 1 1"
  by (induction xs arbitrary: cs) (auto simp: split_pair_eq go_bind_eq_Inl)

lemma add_headers_Inr_iff:
  "(\<exists>h'. add_headers h hs = Inr h') \<longleftrightarrow> (\<forall>x\<in>set hs. CHR '':'' \<in> set x)"
  using add_headers_Inl [of h hs] by (cases "add_headers h hs") auto

lemma add_cookies_Inr_iff:
  "(\<exists>cs'. add_cookies cs xs = Inr cs') \<longleftrightarrow> (\<forall>x\<in>set xs. CHR ''='' \<in> set x)"
  using add_cookies_Inl [of cs xs] by (cases "add_cookies cs xs") auto

lemma copy_http_request_body:
  "rq_body q \<noteq> None \<Longrightarrow> copy_http_request a (Some q) = Inr (q\<lparr>rq_body := Some a\<rparr>, Suc a)"
  by (simp add: copy_http_request_def)

lemma clone_jobs_body:
  "rq_body q \<noteq> None \<Longrightarrow>
     clone_jobs k (Some q) a = Inr (map (\<lambda>i. q\<lparr>rq_body := Some (a + i)\<rparr>) [0..<k], a + k)"
proof (induction k arbitrary: a)
  case 0 then show ?case by simp
next
  case (Suc k)
  have "map (\<lambda>i. q\<lparr>rq_body := Some (Suc a + i)\<rparr>) [0..<k]
        = map (\<lambda>i. q\<lparr>rq_body := Some (a + i)\<rparr>) [1..<Suc k]"
    by (rule nth_equalityI) (simp_all del: upt_Suc)
  then show ?case using Suc by (simp add: copy_http_request_body upt_conv_Cons del: upt_Suc)
qed

lemma clone_jobs_nil: "0 < k \<Longrightarrow> clone_jobs k None a = Inl NilPointerDereference"
  by (cases k) (simp_all add: copy_http_request_def)

lemma spawn_workers_Inr: "new_http_worker c = Inr w \<Longrightarrow> spawn_workers k c = Inr ()"
  by (induction k) simp_all

lemma spawn_workers_Inl: "new_http_worker c = Inl p \<Longrightarrow> spawn_workers (Suc k) c = Inl p"
  by simp

lemma benchmark_run_ctx: "benchmark_run gmp req_ok c = Inr d \<Longrightarrow> d_ctx d = c"
  by (auto simp: benchmark_run_def go_bind_def Let_def split: sum.splits prod.splits)

lemma benchmark_run_custom_ctx:
  "benchmark_run_custom req_ok custom c = Inr d \<Longrightarrow> start_done c = Inr (d_ctx d)"
  by (auto simp: benchmark_run_custom_def go_bind_def Let_def split: sum.splits prod.splits option.splits)

text \<open>C23: \<open>NewHTTPRequest\<close> keeps of a header \<open>-H "k:v"\<close> only the part of
  \<open>v\<close> before its first colon (\<open>pair[1]\<close> of \<open>strings.Split(header, ":")\<close>):
  a header whose value contains a colon, such as a URL, is truncated.\<close>

theorem new_request_header_truncated:
  assumes "req_ok (req_method cfg) (url cfg)" and "headers cfg = [k @ CHR '':'' # v]"
    and "CHR '':'' \<notin> set k" and "cookies cfg = []" and "basic_authentication cfg = []"
    and "k \<notin> {''Content-Type'', ''User-Agent'', ''Connection''}"
  shows "\<exists>q a'. new_http_request req_ok cfg a = Inr (Some q, a')
                 \<and> rq_header q k = Some [takeWhile (\<lambda>x. x \<noteq> CHR '':'') v]"
  using assms by (simp add: new_http_request_def Let_def split_pair_sep header_add_def header_set_def)

text \<open>Witness for C23: \<open>-H "Referer: http://x"\<close> sends \<open>Referer: " http"\<close>.\<close>

theorem new_request_header_truncated_witness:
  "\<exists>q a'. new_http_request (\<lambda>_ _. True) ((empty_config 1 1)\<lparr>headers := [''Referer: http://x'']\<rparr>) 0
            = Inr (Some q, a') \<and> rq_header q ''Referer'' = Some ['' http'']"
  using new_request_header_truncated [of "\<lambda>_ _. True" "(empty_config 1 1)\<lparr>headers := [''Referer: http://x'']\<rparr>"
      "''Referer''" "'' http://x''" 0]
  by (simp add: empty_config_def)

text \<open>C24: once \<open>http.NewRequest\<close> accepts method and URL, \<open>NewHTTPRequest\<close>
  panics (index out of range \<open>[1]\<close> with length 1) exactly when a header has
  no colon, a cookie no \<open>=\<close>, or a non-empty basic-auth string no colon.\<close>

theorem new_request_panics_iff:
  "(\<exists>p. new_http_request req_ok cfg a = Inl p) \<longleftrightarrow>
     req_ok (req_method cfg) (url cfg) \<and>
     ((\<exists>x\<in>set (headers cfg). CHR '':'' \<notin> set x) \<or> (\<exists>x\<in>set (cookies cfg). CHR ''='' \<notin> set x)
      \<or> (basic_authentication cfg \<noteq> [] \<and> CHR '':'' \<notin> set (basic_authentication cfg)))"
proof (cases "req_ok (req_method cfg) (url cfg)")
  case False
  then show ?thesis by (simp add: new_http_request_def Let_def)
next
  case True
  have "\<And>h. (\<exists>h'. add_headers h (headers cfg) = Inr h') \<longleftrightarrow> (\<forall>x\<in>set (headers cfg). CHR '':'' \<in> set x)"
    "(\<exists>cs'. add_cookies [] (cookies cfg) = Inr cs') \<longleftrightarrow> (\<forall>x\<in>set (cookies cfg). CHR ''='' \<in> set x)"
    by (rule add_headers_Inr_iff add_cookies_Inr_iff)+
  with True show ?thesis
    by (auto simp: new_http_request_def Let_def go_bind_eq_Inl add_headers_Inl add_cookies_Inl split_pair_eq)
qed

text \<open>Witness for C24: a header \<open>-H "X-Debug"\<close> makes request construction panic.\<close>

theorem new_request_panics_iff_witness:
  "\<exists>p. new_http_request (\<lambda>_ _. True) ((empty_config 1 1)\<lparr>headers := [''X-Debug'']\<rparr>) 0 = Inl p"
  using new_request_panics_iff [of "\<lambda>_ _. True" "(empty_config 1 1)\<lparr>headers := [''X-Debug'']\<rparr>" 0]
  by (simp add: empty_config_def)

text \<open>C25: the copies \<open>Benchmark.Run\<close> enqueues of a request with a body
  each get a reader of their own (\<open>CopyHTTPRequest\<close>): \<open>k\<close> copies, pairwise
  distinct readers, none the base request's, and nothing else changed.\<close>

theorem run_copies_fresh_bodies:
  assumes "rq_body q = Some b" and "b < a"
  shows "\<exists>qs. clone_jobs k (Some q) a = Inr (qs, a + k) \<and> length qs = k
              \<and> distinct (map rq_body qs) \<and> Some b \<notin> set (map rq_body qs)
              \<and> (\<forall>q'\<in>set qs. q'\<lparr>rq_body := Some b\<rparr> = q)"
  using assms by (auto simp: clone_jobs_body distinct_map inj_on_def dest: arg_cong [where f = rq_body])

text \<open>Witness for C25: three copies of a POST request.\<close>

theorem run_copies_fresh_bodies_witness:
  "\<exists>qs. clone_jobs 3 (Some \<lparr>rq_method = ''POST'', rq_url = ''http://h/'', rq_body = Some 0,
                          rq_header = Map.empty, rq_cookies = [], rq_auth = None\<rparr>) 1 = Inr (qs, 4)
        \<and> length qs = 3 \<and> distinct (map rq_body qs) \<and> Some 0 \<notin> set (map rq_body qs)
        \<and> (\<forall>q'\<in>set qs. q'\<lparr>rq_body := Some 0\<rparr> = \<lparr>rq_method = ''POST'', rq_url = ''http://h/'',
              rq_body = Some 0, rq_header = Map.empty, rq_cookies = [], rq_auth = None\<rparr>)"
  using run_copies_fresh_bodies [of "\<lparr>rq_method = ''POST'', rq_url = ''http://h/'', rq_body = Some 0,
      rq_header = Map.empty, rq_cookies = [], rq_auth = None\<rparr>" 0 1 3]
  by simp

text \<open>When \<open>http.NewRequest\<close> rejects method or URL, \<open>Benchmark.Run\<close>
  (which discards that error) panics: first in \<open>NewHTTPWorker\<close> if the
  store cannot size a worker, else at the first \<open>CopyHTTPRequest\<close> of the
  \<open>nil\<close> base request.\<close>

lemma run_rejected_request:
  assumes "\<not> req_ok (req_method (ctx_config c)) (url (ctx_config c))"
    and "0 < concurrency (ctx_config c)" and "0 \<le> concurrency (ctx_config c) * gmp"
    and "0 < requests (ctx_config c)"
  shows "benchmark_run gmp req_ok c =
           Inl (case new_http_worker c of Inl p \<Rightarrow> p | Inr _ \<Rightarrow> NilPointerDereference)"
proof (cases "new_http_worker c")
  case (Inl p)
  obtain k where "nat (concurrency (ctx_config c)) = Suc k" using assms(2) by (cases "nat (concurrency (ctx_config c))") auto
  with Inl assms(3) show ?thesis by (simp add: benchmark_run_def go_make_chan_def Let_def)
next
  case (Inr w)
  with assms show ?thesis
    by (simp add: benchmark_run_def go_make_chan_def Let_def spawn_workers_Inr new_http_request_def
        clone_jobs_nil)
qed

text \<open>\<open>Benchmark.RunCustom\<close> enqueues \<open>requests\<close> jobs, plus one
  warm-up job per worker under \<open>skipFirst\<close>, and then signals the startup
  barrier once.\<close>

lemma run_custom_jobs:
  assumes "0 < start c" and "0 \<le> requests (ctx_config c)" and "0 \<le> concurrency (ctx_config c)"
    and "new_http_worker c = Inr w"
  shows "\<exists>d. benchmark_run_custom req_ok (Some prep) c = Inr d
             \<and> length (d_jobs d) = nat (requests (ctx_config c))
                  + (if skip_first (ctx_config c) then nat (concurrency (ctx_config c)) else 0)
             \<and> start (d_ctx d) = start c - 1"
  using assms by (simp add: benchmark_run_custom_def reqs_count_def Let_def start_done_def wg_done_def
      wg_add_def nat_add_distrib go_make_chan_def spawn_workers_Inr)


lemma wf_header_set [simp]: "wf_header h \<Longrightarrow> wf_header (header_set h k v)"
  by (simp add: wf_header_def header_set_def)

lemma wf_header_add [simp]: "wf_header h \<Longrightarrow> wf_header (header_add h k v)"
  by (auto simp: wf_header_def header_add_def split: option.splits)

lemma header_add_keeps_key: "h k' \<noteq> None \<Longrightarrow> header_add h k v k' \<noteq> None"
  by (simp add: header_add_def)

lemma add_headers_wf:
  "add_headers h hs = Inr h' \<Longrightarrow> wf_header h \<Longrightarrow> wf_header h' \<and> (\<forall>k. h k \<noteq> None \<longrightarrow> h' k \<noteq> None)"
proof (induction hs arbitrary: h)
  case Nil
  then show ?case by simp
next
  case (Cons x xs)
  then obtain k v where "split_pair CHR '':'' x = Inr (k, v)"
    and r: "add_headers (header_add h k v) xs = Inr h'"
    by (cases "split_pair CHR '':'' x") auto
  have "wf_header h' \<and> (\<forall>ka. header_add h k v ka \<noteq> None \<longrightarrow> h' ka \<noteq> None)"
    using Cons.IH [OF r] Cons.prems(2) by simp
  then show ?case using header_add_keeps_key by blast
qed

lemma new_http_request_Some:
  "new_http_request req_ok cfg a = Inr (Some q, a') \<Longrightarrow>
     \<exists>h0. add_headers h0 (headers cfg) = Inr (rq_header q) \<and> wf_header h0
        \<and> h0 ''Content-Type'' \<noteq> None \<and> h0 ''User-Agent'' \<noteq> None
        \<and> rq_method q = req_method cfg \<and> rq_url q = url cfg
        \<and> (rq_body q \<noteq> None \<longleftrightarrow> req_method cfg = ''POST'' \<or> req_method cfg = ''PUT'')"
  by (auto simp: new_http_request_def Let_def go_bind_def header_set_def wf_header_def
           split: sum.splits if_splits)

lemma new_http_request_wf:
  assumes "new_http_request req_ok cfg a = Inr (Some q, a')"
  shows "wf_request cfg q"
proof -
  from new_http_request_Some [OF assms] obtain h0 where
    h: "add_headers h0 (headers cfg) = Inr (rq_header q)" "wf_header h0"
       "h0 ''Content-Type'' \<noteq> None" "h0 ''User-Agent'' \<noteq> None"
    and f: "rq_method q = req_method cfg" "rq_url q = url cfg"
       "rq_body q \<noteq> None \<longleftrightarrow> req_method cfg = ''POST'' \<or> req_method cfg = ''PUT''"
    by blast
  from add_headers_wf [OF h(1,2)] h(3,4) f show ?thesis by (simp add: wf_request_def)
qed


lemma copy_http_request_wf:
  "copy_http_request a (Some q) = Inr (q', a') \<Longrightarrow> wf_request cfg q \<Longrightarrow> wf_request cfg q'"
  by (auto simp: copy_http_request_def wf_request_def split: if_splits)

lemma clone_jobs_wf:
  "clone_jobs k (Some q) a = Inr (qs, a') \<Longrightarrow> wf_request cfg q \<Longrightarrow> \<forall>q'\<in>set qs. wf_request cfg q'"
proof (induction k arbitrary: a qs)
  case 0
  then show ?case by simp
next
  case (Suc k)
  then obtain q1 a1 qs' where c: "copy_http_request a (Some q) = Inr (q1, a1)"
    and r: "clone_jobs k (Some q) a1 = Inr (qs', a')" and qs: "qs = q1 # qs'"
    by (auto simp: go_bind_def split: sum.splits prod.splits)
  from copy_http_request_wf [OF c Suc.prems(2)] Suc.IH [OF r Suc.prems(2)] qs show ?case by simp
qed

lemma clone_jobs_None: "clone_jobs k None a = Inr (qs, a') \<Longrightarrow> qs = []"
  by (cases k) (simp_all add: copy_http_request_def)

text \<open>C27: every job \<open>Benchmark.Run\<close> enqueues, when it does not panic, is
  a request (not \<open>nil\<close>) of the campaign's shape \<open>wf_request\<close>: the plan's
  method and URL, a body exactly for POST and PUT, \<open>Content-Type\<close> and
  \<open>User-Agent\<close> set, no empty header value list.\<close>

theorem run_jobs_well_formed:
  assumes "benchmark_run gmp req_ok c = Inr d"
  shows "\<forall>j\<in>set (d_jobs d). \<exists>q. j = Some q \<and> wf_request (ctx_config c) q"
proof -
  obtain base a qs a' where
    n: "new_http_request req_ok (ctx_config c) 0 = Inr (base, a)" and
    cl: "clone_jobs (nat (requests (ctx_config c))) base a = Inr (qs, a')" and
    d: "d_jobs d = map Some qs"
    using assms by (auto simp: benchmark_run_def go_bind_def Let_def split: sum.splits prod.splits)
  show ?thesis
  proof (cases base)
    case None
    with cl have "qs = []" by (simp add: clone_jobs_None)
    with d show ?thesis by simp
  next
    case (Some q)
    with n have "wf_request (ctx_config c) q" by (simp add: new_http_request_wf)
    with cl Some d show ?thesis using clone_jobs_wf by fastforce
  qed
qed

text \<open>Witness for C27: two copies of a POST request.\<close>

theorem run_jobs_well_formed_witness:
  "\<exists>d. benchmark_run 4 (\<lambda>_ _. True)
         (set_int (new_context ((empty_config 2 1)\<lparr>req_method := ''POST'', url := ''http://h/''\<rparr>))
            FieldContentSize 612) = Inr d
       \<and> length (d_jobs d) = 2
       \<and> (\<forall>j\<in>set (d_jobs d). \<exists>q. j = Some q
            \<and> wf_request ((empty_config 2 1)\<lparr>req_method := ''POST'', url := ''http://h/''\<rparr>) q)"
proof -
  let ?c = "set_int (new_context ((empty_config 2 1)\<lparr>req_method := ''POST'', url := ''http://h/''\<rparr>))
              FieldContentSize 612"
  obtain d where d: "benchmark_run 4 (\<lambda>_ _. True) ?c = Inr d" and "length (d_jobs d) = 2"
    by (simp add: benchmark_run_def new_http_request_def new_context_def empty_config_def Let_def
        copy_http_request_def numeral_2_eq_2 go_make_chan_def new_http_worker_def MaxBufferSize_def)
  moreover have "\<forall>j\<in>set (d_jobs d). \<exists>q. j = Some q \<and> wf_request (ctx_config ?c) q"
    by (rule run_jobs_well_formed [OF d])
  ultimately show ?thesis by (auto simp: new_context_def)
qed

end
