(* ===== verification/Campaign.thy ===== *)
theory Campaign
  imports Dispatcher
begin

text \<open>
  The startup protocol of a campaign as a transition system over the
  goroutines that meet at the two wait groups of the context
  (\<open>src/context.go\<close>): the \<open>concurrency\<close> workers (\<open>HTTPWorker.Run\<close>:
  \<open>start.Done()\<close>, then \<open>startRun.Wait()\<close>, then take jobs), the dispatcher
  (\<open>Benchmark.Run\<close> or \<open>Benchmark.RunCustom\<close>: enqueue the jobs into a
  channel of bounded capacity, \<open>close(jobs)\<close>, and, in \<open>RunCustom\<close> only,
  \<open>start.Done()\<close>) and the monitor (\<open>Monitor.Run\<close>: \<open>start.Wait()\<close>, then
  \<open>startRun.Done()\<close>). Every interleaving of their steps is a path of
  \<open>boot_step\<close>.
\<close>

datatype run_kind = PlainRun | CustomRun

text \<open>The number of jobs the dispatcher enqueues and the capacity of the
  \<open>jobs\<close> channel: \<open>concurrency * GoMaxProcs\<close> in \<open>Run\<close>, \<open>reqscount\<close> in
  \<open>RunCustom\<close>.\<close>

definition job_total :: "run_kind \<Rightarrow> config \<Rightarrow> nat" where
  "job_total k cfg = (case k of PlainRun \<Rightarrow> nat (requests cfg) | CustomRun \<Rightarrow> nat (reqs_count cfg))"

definition job_capacity :: "run_kind \<Rightarrow> int \<Rightarrow> config \<Rightarrow> nat" where
  "job_capacity k gmp cfg =
     (case k of PlainRun \<Rightarrow> nat (concurrency cfg * gmp) | CustomRun \<Rightarrow> nat (reqs_count cfg))"

record boot =
  b_ctx :: gb_context
  arrived :: nat      \<comment> \<open>workers past \<open>start.Done()\<close>\<close>
  enqueued :: nat     \<comment> \<open>jobs sent by the dispatcher\<close>
  queued :: nat       \<comment> \<open>jobs in the channel\<close>
  jobs_closed :: bool \<comment> \<open>\<open>close(jobs)\<close> done\<close>
  signalled :: bool   \<comment> \<open>the dispatcher's \<open>start.Done()\<close> done\<close>
  begun :: bool       \<comment> \<open>the monitor is past \<open>start.Wait()\<close> and \<open>startRun.Done()\<close>\<close>

definition boot0 :: "config \<Rightarrow> boot" where
  "boot0 cfg =
     \<lparr>b_ctx = new_context cfg, arrived = 0, enqueued = 0, queued = 0,
      jobs_closed = False, signalled = False, begun = False\<rparr>"

inductive boot_step :: "run_kind \<Rightarrow> int \<Rightarrow> boot \<Rightarrow> boot \<Rightarrow> bool" for k gmp where
  worker_ready:
    "int (arrived s) < concurrency (ctx_config (b_ctx s)) \<Longrightarrow> start_done (b_ctx s) = Inr c'
     \<Longrightarrow> boot_step k gmp s (s\<lparr>b_ctx := c', arrived := Suc (arrived s)\<rparr>)"
| enqueue:
    "\<not> jobs_closed s \<Longrightarrow> enqueued s < job_total k (ctx_config (b_ctx s))
     \<Longrightarrow> queued s < job_capacity k gmp (ctx_config (b_ctx s))
     \<Longrightarrow> boot_step k gmp s (s\<lparr>enqueued := Suc (enqueued s), queued := Suc (queued s)\<rparr>)"
| close_jobs:
    "\<not> jobs_closed s \<Longrightarrow> enqueued s = job_total k (ctx_config (b_ctx s))
     \<Longrightarrow> boot_step k gmp s (s\<lparr>jobs_closed := True\<rparr>)"
| dispatcher_done:
    "k = CustomRun \<Longrightarrow> jobs_closed s \<Longrightarrow> \<not> signalled s \<Longrightarrow> start_done (b_ctx s) = Inr c'
     \<Longrightarrow> boot_step k gmp s (s\<lparr>b_ctx := c', signalled := True\<rparr>)"
| monitor_begin:
    "wg_released (start (b_ctx s)) \<Longrightarrow> \<not> begun s \<Longrightarrow> start_run_done (b_ctx s) = Inr c'
     \<Longrightarrow> boot_step k gmp s (s\<lparr>b_ctx := c', begun := True\<rparr>)"
| worker_take:
    "wg_released (start_run (b_ctx s)) \<Longrightarrow> 0 < queued s
     \<Longrightarrow> boot_step k gmp s (s\<lparr>queued := queued s - 1\<rparr>)"

inductive boot_reach :: "run_kind \<Rightarrow> int \<Rightarrow> config \<Rightarrow> boot \<Rightarrow> bool" for k gmp cfg where
  init: "boot_reach k gmp cfg (boot0 cfg)"
| step: "boot_reach k gmp cfg s \<Longrightarrow> boot_step k gmp s s' \<Longrightarrow> boot_reach k gmp cfg s'"

text \<open>What every reachable state satisfies.\<close>

definition boot_inv :: "run_kind \<Rightarrow> config \<Rightarrow> boot \<Rightarrow> bool" where
  "boot_inv k cfg s \<longleftrightarrow>
     ctx_config (b_ctx s) = cfg
   \<and> start (b_ctx s) = concurrency cfg + 1 - int (arrived s) - (if signalled s then 1 else 0)
   \<and> int (arrived s) \<le> concurrency cfg
   \<and> (signalled s \<longrightarrow> k = CustomRun \<and> jobs_closed s)
   \<and> enqueued s \<le> job_total k cfg
   \<and> (jobs_closed s \<longrightarrow> enqueued s = job_total k cfg)
   \<and> start_run (b_ctx s) = (if begun s then 0 else 1)
   \<and> (begun s \<longrightarrow> start (b_ctx s) = 0)
   \<and> queued s \<le> enqueued s
   \<and> (\<not> begun s \<longrightarrow> queued s = enqueued s)"

inductive_cases boot_step_cases: "boot_step k gmp s s'"

lemma boot_inv_init: "0 \<le> concurrency cfg \<Longrightarrow> boot_inv k cfg (boot0 cfg)"
  by (simp add: boot_inv_def boot0_def new_context_def)

lemma boot_step_inv: "boot_step k gmp s s' \<Longrightarrow> boot_inv k cfg s \<Longrightarrow> boot_inv k cfg s'"
  by (induction rule: boot_step.induct)
     (auto simp: boot_inv_def start_done_Inr start_run_done_Inr wg_released_def)

lemma boot_reach_inv: "boot_reach k gmp cfg s \<Longrightarrow> 0 \<le> concurrency cfg \<Longrightarrow> boot_inv k cfg s"
  by (induction rule: boot_reach.induct) (auto intro: boot_inv_init boot_step_inv)

lemma boot_reach_arrive:
  assumes "boot_reach k gmp cfg s" and "0 \<le> concurrency cfg" and "\<not> signalled s"
    and "int (arrived s) + int n \<le> concurrency cfg"
  shows "boot_reach k gmp cfg
           (s\<lparr>b_ctx := (b_ctx s)\<lparr>start := start (b_ctx s) - int n\<rparr>, arrived := arrived s + n\<rparr>)"
  using assms
proof (induction n arbitrary: s)
  case 0
  then show ?case by simp
next
  case (Suc n)
  have inv: "boot_inv k cfg s" using Suc.prems(1,2) by (rule boot_reach_inv)
  let ?s1 = "s\<lparr>b_ctx := (b_ctx s)\<lparr>start := start (b_ctx s) - 1\<rparr>, arrived := Suc (arrived s)\<rparr>"
  have "boot_step k gmp s ?s1"
    using inv Suc.prems(3,4) by (intro boot_step.worker_ready) (auto simp: boot_inv_def start_done_Inr)
  with Suc.prems(1) have "boot_reach k gmp cfg ?s1" by (rule boot_reach.step)
  from Suc.IH [OF this] Suc.prems(2-4) show ?case by (simp add: algebra_simps)
qed

lemma boot_reach_enqueue:
  assumes "boot_reach k gmp cfg s" and "0 \<le> concurrency cfg" and "\<not> jobs_closed s"
    and "enqueued s + n \<le> job_total k cfg" and "queued s + n \<le> job_capacity k gmp cfg"
  shows "boot_reach k gmp cfg (s\<lparr>enqueued := enqueued s + n, queued := queued s + n\<rparr>)"
  using assms
proof (induction n arbitrary: s)
  case 0
  then show ?case by simp
next
  case (Suc n)
  have inv: "boot_inv k cfg s" using Suc.prems(1,2) by (rule boot_reach_inv)
  let ?s1 = "s\<lparr>enqueued := Suc (enqueued s), queued := Suc (queued s)\<rparr>"
  have "boot_step k gmp s ?s1"
    using inv Suc.prems(3-5) by (intro boot_step.enqueue) (auto simp: boot_inv_def)
  with Suc.prems(1) have "boot_reach k gmp cfg ?s1" by (rule boot_reach.step)
  from Suc.IH [OF this] Suc.prems(2-5) show ?case by simp
qed

lemma boot_reach_take:
  assumes "boot_reach k gmp cfg s" and "start_run (b_ctx s) = 0" and "n \<le> queued s"
  shows "boot_reach k gmp cfg (s\<lparr>queued := queued s - n\<rparr>)"
  using assms
proof (induction n arbitrary: s)
  case 0
  then show ?case by simp
next
  case (Suc n)
  let ?s1 = "s\<lparr>queued := queued s - 1\<rparr>"
  have "boot_step k gmp s ?s1"
    using Suc.prems(2,3) by (intro boot_step.worker_take) (auto simp: wg_released_def)
  with Suc.prems(1) have "boot_reach k gmp cfg ?s1" by (rule boot_reach.step)
  from Suc.IH [OF this] Suc.prems(2,3) show ?case by simp
qed

text \<open>A \<open>RunCustom\<close> campaign in which every goroutine is scheduled: all
  workers arrive, all jobs are enqueued and the channel closed, the
  dispatcher signals, the monitor begins, and the workers take every job.\<close>

lemma custom_boot_path:
  assumes "0 \<le> concurrency cfg" and "0 \<le> requests cfg"
  shows "boot_reach CustomRun gmp cfg
           \<lparr>b_ctx = (new_context cfg)\<lparr>start := 0, start_run := 0\<rparr>, arrived = nat (concurrency cfg),
            enqueued = nat (reqs_count cfg), queued = 0, jobs_closed = True, signalled = True, begun = True\<rparr>"
proof -
  let ?n = "nat (concurrency cfg)" and ?t = "nat (reqs_count cfg)"
  have r1: "boot_reach CustomRun gmp cfg
      ((boot0 cfg)\<lparr>b_ctx := (new_context cfg)\<lparr>start := 1\<rparr>, arrived := ?n\<rparr>)"
    using boot_reach_arrive [OF boot_reach.init assms(1), of ?n] assms(1)
    by (simp add: boot0_def new_context_def)
  let ?s1 = "(boot0 cfg)\<lparr>b_ctx := (new_context cfg)\<lparr>start := 1\<rparr>, arrived := ?n\<rparr>"
  have r2: "boot_reach CustomRun gmp cfg (?s1\<lparr>enqueued := ?t, queued := ?t\<rparr>)"
    using boot_reach_enqueue [OF r1 assms(1), of ?t]
    by (simp add: boot0_def job_total_def job_capacity_def new_context_def)
  let ?s2 = "?s1\<lparr>enqueued := ?t, queued := ?t\<rparr>"
  have r3: "boot_reach CustomRun gmp cfg (?s2\<lparr>jobs_closed := True\<rparr>)"
    by (rule boot_reach.step [OF r2 boot_step.close_jobs])
       (simp_all add: boot0_def job_total_def new_context_def)
  let ?s3 = "?s2\<lparr>jobs_closed := True\<rparr>"
  have r4: "boot_reach CustomRun gmp cfg (?s3\<lparr>b_ctx := (b_ctx ?s3)\<lparr>start := 0\<rparr>, signalled := True\<rparr>)"
    by (rule boot_reach.step [OF r3 boot_step.dispatcher_done])
       (simp_all add: boot0_def start_done_Inr new_context_def)
  let ?s4 = "?s3\<lparr>b_ctx := (b_ctx ?s3)\<lparr>start := 0\<rparr>, signalled := True\<rparr>"
  have r5: "boot_reach CustomRun gmp cfg (?s4\<lparr>b_ctx := (b_ctx ?s4)\<lparr>start_run := 0\<rparr>, begun := True\<rparr>)"
    by (rule boot_reach.step [OF r4 boot_step.monitor_begin])
       (simp_all add: boot0_def start_run_done_Inr wg_released_def new_context_def)
  from boot_reach_take [OF r5, of ?t] show ?thesis
    by (simp add: boot0_def new_context_def)
qed

text \<open>C28: \<open>Benchmark.Run\<close> never calls \<open>start.Done()\<close>, so the startup
  barrier of \<open>concurrency + 1\<close> never reaches zero: in every interleaving the
  monitor stays in \<open>start.Wait()\<close>, \<open>startRun\<close> is never released and no
  worker takes a single job. A campaign driven by \<open>Run\<close> deadlocks at
  startup.\<close>

theorem run_startup_deadlock:
  assumes "boot_reach PlainRun gmp cfg s" and "0 \<le> concurrency cfg"
  shows "\<not> begun s \<and> 0 < start (b_ctx s) \<and> start_run (b_ctx s) = 1 \<and> queued s = enqueued s"
proof -
  have "boot_inv PlainRun cfg s" using assms by (rule boot_reach_inv)
  then show ?thesis by (auto simp: boot_inv_def)
qed

text \<open>Witness for C28: two workers have passed the barrier and one job is
  queued; the barrier still stands at one.\<close>

theorem run_startup_deadlock_witness:
  "boot_reach PlainRun 1 (empty_config 5 2)
     ((boot0 (empty_config 5 2))\<lparr>b_ctx := (new_context (empty_config 5 2))\<lparr>start := 1\<rparr>,
        arrived := 2, enqueued := 1, queued := 1\<rparr>)
   \<and> start (b_ctx ((boot0 (empty_config 5 2))\<lparr>b_ctx := (new_context (empty_config 5 2))\<lparr>start := 1\<rparr>,
        arrived := 2, enqueued := 1, queued := 1\<rparr>)) = 1"
proof -
  let ?c = "empty_config 5 2"
  let ?s = "(boot0 ?c)\<lparr>b_ctx := (new_context ?c)\<lparr>start := 1\<rparr>, arrived := 2\<rparr>"
  have a: "boot_reach PlainRun 1 ?c ?s"
    using boot_reach_arrive [OF boot_reach.init, where k = PlainRun and gmp = 1 and cfg = ?c and n = 2]
    by (simp add: boot0_def new_context_def empty_config_def numeral_2_eq_2)
  have b: "boot_reach PlainRun 1 ?c (?s\<lparr>enqueued := 1, queued := 1\<rparr>)"
    using boot_reach_enqueue [OF a, of 1]
    by (simp add: boot0_def new_context_def empty_config_def job_total_def job_capacity_def)
  have "\<not> begun (?s\<lparr>enqueued := 1, queued := 1\<rparr>)"
    using run_startup_deadlock [OF b] by (simp add: empty_config_def)
  with b show ?thesis by (simp add: boot0_def new_context_def)
qed

text \<open>C29: with \<open>Benchmark.RunCustom\<close> the startup completes: there is an
  interleaving in which all workers pass the barrier, all \<open>reqscount\<close> jobs
  are enqueued (the channel holds them all) and the channel is closed, the
  dispatcher's \<open>start.Done()\<close> releases the monitor, the monitor opens
  \<open>startRun\<close>, and the workers take every job.\<close>

theorem custom_startup_completes:
  assumes "0 \<le> concurrency cfg" and "0 \<le> requests cfg"
  shows "\<exists>s. boot_reach CustomRun gmp cfg s \<and> begun s \<and> jobs_closed s
             \<and> enqueued s = nat (reqs_count cfg) \<and> queued s = 0"
proof -
  let ?s = "\<lparr>b_ctx = (new_context cfg)\<lparr>start := 0, start_run := 0\<rparr>, arrived = nat (concurrency cfg),
            enqueued = nat (reqs_count cfg), queued = 0, jobs_closed = True, signalled = True, begun = True\<rparr>"
  have "boot_reach CustomRun gmp cfg ?s" by (rule custom_boot_path [OF assms])
  then show ?thesis by (intro exI [of _ ?s]) simp
qed

text \<open>Witness for C29: 5 requests, 2 workers, skip-first (7 jobs).\<close>

theorem custom_startup_completes_witness:
  "\<exists>s. boot_reach CustomRun 1 ((empty_config 5 2)\<lparr>skip_first := True\<rparr>) s \<and> begun s \<and> jobs_closed s
        \<and> enqueued s = 7 \<and> queued s = 0"
  using custom_startup_completes [of "(empty_config 5 2)\<lparr>skip_first := True\<rparr>" 1]
  by (simp add: empty_config_def reqs_count_def)



end
