(* ===== verification/StartupSpec.thy ===== *)
theory StartupSpec
  imports Campaign
begin

text \<open>
  The contract of the startup barrier as the specification states it, as
  an abstract transition system: \<open>n\<close> workers become ready one by one, the
  dispatcher sends its \<open>total\<close> jobs and then declares itself ready, the
  barrier is released once, only when every worker and the dispatcher are
  ready, and jobs are taken only after the release. The concrete protocol
  of \<open>Campaign\<close> (wait-group counters, channel, close) refines it: the
  mapping \<open>abs_boot\<close> sends every reachable concrete state to a reachable
  abstract one, each concrete step being an abstract step or a stutter.
\<close>

record barrier_abs =
  ab_ready :: nat
  ab_disp_ready :: bool
  ab_released :: bool
  ab_sent :: nat
  ab_taken :: nat

definition barrier0 :: barrier_abs where
  "barrier0 = \<lparr>ab_ready = 0, ab_disp_ready = False, ab_released = False, ab_sent = 0, ab_taken = 0\<rparr>"

inductive barrier_step :: "nat \<Rightarrow> nat \<Rightarrow> barrier_abs \<Rightarrow> barrier_abs \<Rightarrow> bool" for n total where
  a_ready: "ab_ready a < n \<Longrightarrow> barrier_step n total a (a\<lparr>ab_ready := Suc (ab_ready a)\<rparr>)"
| a_send: "\<not> ab_disp_ready a \<Longrightarrow> ab_sent a < total \<Longrightarrow>
             barrier_step n total a (a\<lparr>ab_sent := Suc (ab_sent a)\<rparr>)"
| a_disp_ready: "\<not> ab_disp_ready a \<Longrightarrow> ab_sent a = total \<Longrightarrow>
             barrier_step n total a (a\<lparr>ab_disp_ready := True\<rparr>)"
| a_release: "\<not> ab_released a \<Longrightarrow> ab_ready a = n \<Longrightarrow> ab_disp_ready a \<Longrightarrow>
             barrier_step n total a (a\<lparr>ab_released := True\<rparr>)"
| a_take: "ab_released a \<Longrightarrow> ab_taken a < ab_sent a \<Longrightarrow>
             barrier_step n total a (a\<lparr>ab_taken := Suc (ab_taken a)\<rparr>)"

inductive barrier_reach :: "nat \<Rightarrow> nat \<Rightarrow> barrier_abs \<Rightarrow> bool" for n total where
  a_init: "barrier_reach n total barrier0"
| a_step: "barrier_reach n total a \<Longrightarrow> barrier_step n total a a' \<Longrightarrow> barrier_reach n total a'"

text \<open>The refinement mapping: ready workers are those past \<open>start.Done()\<close>,
  the dispatcher is ready once it has signalled, the barrier is released
  once the monitor has opened \<open>startRun\<close>, and the jobs taken are those
  enqueued and no longer in the channel.\<close>

definition abs_boot :: "boot \<Rightarrow> barrier_abs" where
  "abs_boot s =
     \<lparr>ab_ready = arrived s, ab_disp_ready = signalled s, ab_released = begun s,
      ab_sent = enqueued s, ab_taken = enqueued s - queued s\<rparr>"

subsection \<open>Lemmas\<close>

lemma abs_boot_init: "abs_boot (boot0 cfg) = barrier0"
  by (simp add: abs_boot_def boot0_def barrier0_def)

lemma boot_step_simulated:
  assumes "boot_step k gmp s s'" and "boot_inv k cfg s"
  shows "abs_boot s' = abs_boot s \<or>
         barrier_step (nat (concurrency cfg)) (job_total k cfg) (abs_boot s) (abs_boot s')"
  using assms
proof (induction rule: boot_step.induct)
  case (worker_ready s c')
  then have "arrived s < nat (concurrency cfg)" by (auto simp: boot_inv_def)
  then show ?case
    using barrier_step.a_ready [of "abs_boot s"] by (simp add: abs_boot_def)
next
  case (enqueue s)
  then have "\<not> signalled s" "enqueued s < job_total k cfg" "queued s = enqueued s \<or> begun s"
    by (auto simp: boot_inv_def)
  then have "barrier_step (nat (concurrency cfg)) (job_total k cfg) (abs_boot s)
               ((abs_boot s)\<lparr>ab_sent := Suc (ab_sent (abs_boot s))\<rparr>)"
    by (intro barrier_step.a_send) (simp_all add: abs_boot_def)
  moreover have "queued s \<le> enqueued s" using enqueue.prems by (simp add: boot_inv_def)
  ultimately show ?case by (simp add: abs_boot_def Suc_diff_le)
next
  case (close_jobs s)
  then show ?case by (simp add: abs_boot_def)
next
  case (dispatcher_done s c')
  then have "enqueued s = job_total k cfg" by (simp add: boot_inv_def)
  with dispatcher_done show ?case
    using barrier_step.a_disp_ready [of "abs_boot s"] by (simp add: abs_boot_def)
next
  case (monitor_begin s c')
  then have "int (arrived s) = concurrency cfg" "signalled s"
    by (auto simp: boot_inv_def wg_released_def split: if_splits)
  then have "arrived s = nat (concurrency cfg)" "signalled s" by auto
  with monitor_begin show ?case
    using barrier_step.a_release [of "abs_boot s" "nat (concurrency cfg)" "job_total k cfg"]
    by (simp add: abs_boot_def)
next
  case (worker_take s)
  then have "queued s \<le> enqueued s" "begun s"
    by (auto simp: boot_inv_def wg_released_def split: if_splits)
  with worker_take show ?case
    using barrier_step.a_take [of "abs_boot s"] by (simp add: abs_boot_def Suc_diff_le)
qed

lemma barrier_reach_stutter:
  "barrier_reach n t a \<Longrightarrow> a' = a \<or> barrier_step n t a a' \<Longrightarrow> barrier_reach n t a'"
  by (auto intro: barrier_reach.a_step)

text \<open>What the abstract contract guarantees in every reachable state: the
  barrier is released only with all workers and the dispatcher ready and
  every job sent, and no job is taken before the release.\<close>

lemma barrier_reach_safe:
  "barrier_reach n t a \<Longrightarrow>
     ab_ready a \<le> n \<and> ab_sent a \<le> t \<and> ab_taken a \<le> ab_sent a
     \<and> (ab_disp_ready a \<longrightarrow> ab_sent a = t)
     \<and> (ab_released a \<longrightarrow> ab_ready a = n \<and> ab_disp_ready a)
     \<and> (\<not> ab_released a \<longrightarrow> ab_taken a = 0)"
  by (induction rule: barrier_reach.induct)
     (auto simp: barrier0_def elim!: barrier_step.cases)

text \<open>C36: the concrete startup protocol refines the barrier contract: every
  state reachable by any interleaving of workers, dispatcher (\<open>Run\<close> or
  \<open>RunCustom\<close>) and monitor maps to a reachable state of the abstract
  barrier with \<open>concurrency\<close> workers and the dispatcher's job count.\<close>

theorem startup_refines_barrier:
  assumes "boot_reach k gmp cfg s" and "0 \<le> concurrency cfg"
  shows "barrier_reach (nat (concurrency cfg)) (job_total k cfg) (abs_boot s)"
  using assms
proof (induction rule: boot_reach.induct)
  case init
  then show ?case by (simp add: abs_boot_init barrier_reach.a_init)
next
  case (step s s')
  have "boot_inv k cfg s" using step.hyps(1) step.prems by (rule boot_reach_inv)
  with step.hyps(2) step.IH [OF step.prems] show ?case
    by (blast intro: barrier_reach_stutter dest: boot_step_simulated)
qed

text \<open>Witness for C36: the completed \<open>RunCustom\<close> startup of 2 workers and
  5 jobs is the abstract state with everything ready, released and taken.\<close>

theorem startup_refines_barrier_witness:
  "barrier_reach 2 5
     \<lparr>ab_ready = 2, ab_disp_ready = True, ab_released = True, ab_sent = 5, ab_taken = 5\<rparr>"
proof -
  let ?s = "\<lparr>b_ctx = (new_context (empty_config 5 2))\<lparr>start := 0, start_run := 0\<rparr>, arrived = 2,
             enqueued = 5, queued = 0, jobs_closed = True, signalled = True, begun = True\<rparr>"
  have r: "boot_reach CustomRun 1 (empty_config 5 2) ?s"
    using custom_boot_path [of "empty_config 5 2" 1] by (simp add: empty_config_def reqs_count_def)
  have "barrier_reach (nat (concurrency (empty_config 5 2))) (job_total CustomRun (empty_config 5 2))
          (abs_boot ?s)"
    by (rule startup_refines_barrier [OF r]) (simp add: empty_config_def)
  then show ?thesis by (simp add: abs_boot_def empty_config_def job_total_def reqs_count_def)
qed

end
