(* ===== verification/Collector.thy ===== *)
theory Collector
  imports Campaign
begin

text \<open>
  The results queue: \<open>NewBenchmark\<close> (\<open>src/benchmark.go\<close>) allocates the
  collector channel with a buffer of \<open>requests\<close> records, and every worker
  sends its records into it. Jobs reach the workers through one channel, so
  the jobs of a campaign are split among the workers, each job going to one
  of them. Since a worker emits at most one record per job, whatever the
  outcome of each job's \<open>select\<close>, the records of a
  \<open>Benchmark.RunCustom\<close> campaign (the one whose workers get past the
  startup barrier) fit into the buffer when skip-first is off, and exceed it
  by at most one warm-up record per worker when it is on.
\<close>

record benchmark =
  bm_ctx :: gb_context
  bm_collector_cap :: nat

text \<open>\<open>NewBenchmark\<close>: \<open>make(chan *Record, requests)\<close>, which panics on a
  negative size.\<close>

definition new_benchmark :: "gb_context \<Rightarrow> go_panic + benchmark" where
  "new_benchmark c =
     (if requests (ctx_config c) < 0 then Inl MakeChanSizeOutOfRange
      else Inr \<lparr>bm_ctx = c, bm_collector_cap = nat (requests (ctx_config c))\<rparr>)"

text \<open>The records the workers emit, each worker running its job loop on the
  jobs it took, with its own limiter.\<close>

definition emitted :: "bool \<Rightarrow> (('rl \<Rightarrow> 'rl option) \<times> 'rl \<times> worker_job list) list \<Rightarrow> nat" where
  "emitted skip ws = sum_list (map (\<lambda>(tk, rl, js). length (fst (worker_loop tk skip 0 rl js))) ws)"

subsection \<open>Lemmas\<close>

lemma emitted_le_jobs:
  "emitted skip ws \<le> sum_list (map (\<lambda>(tk, rl, js). length js) ws)"
  unfolding emitted_def
  by (induction ws) (auto intro: add_mono worker_loop_records_le)

text \<open>C31: in a \<open>Benchmark.RunCustom\<close> campaign, whose \<open>reqscount\<close> jobs
  the workers can all take (C29), however the jobs are shared among the
  workers and whatever happens to each job (result, timeout or stop), the
  workers emit at most as many records as the collector buffer that
  \<open>NewBenchmark\<close> allocates, plus one warm-up job per worker under
  skip-first. Skip-first is never set by \<open>LoadConfig\<close>, so in this program
  the records always fit and no worker blocks on the collector, even when
  the monitor has stopped reading.\<close>

theorem custom_records_fit_collector:
  assumes "new_benchmark c = Inr b" and "0 \<le> concurrency (ctx_config c)"
    and "sum_list (map (\<lambda>(tk, rl, js). length js) ws) = job_total CustomRun (ctx_config c)"
  shows "emitted (skip_first (ctx_config c)) ws
           \<le> bm_collector_cap b
              + (if skip_first (ctx_config c) then nat (concurrency (ctx_config c)) else 0)"
proof -
  have "bm_collector_cap b + (if skip_first (ctx_config c) then nat (concurrency (ctx_config c)) else 0)
          = job_total CustomRun (ctx_config c)"
    using assms(1,2) by (auto simp: new_benchmark_def job_total_def reqs_count_def nat_add_distrib
                             split: if_splits)
  with emitted_le_jobs [of "skip_first (ctx_config c)" ws] assms(3) show ?thesis by simp
qed

text \<open>Witness for C31: two requests, one worker, a result and a timeout.\<close>

theorem custom_records_fit_collector_witness:
  "emitted False [(\<lambda>u::unit. Some u, (),
       [(0, Some \<lparr>response_time = 40, content_size = 9, rec_error = None\<rparr>, ResultReady),
        (1, None, TimerFired)])] \<le> 2"
proof -
  have b: "new_benchmark (new_context (empty_config 2 1))
             = Inr \<lparr>bm_ctx = new_context (empty_config 2 1), bm_collector_cap = 2\<rparr>"
    by (simp add: new_benchmark_def new_context_def empty_config_def)
  have "emitted (skip_first (ctx_config (new_context (empty_config 2 1)))) [(\<lambda>u::unit. Some u, (),
       [(0, Some \<lparr>response_time = 40, content_size = 9, rec_error = None\<rparr>, ResultReady),
        (1, None, TimerFired)])]
        \<le> bm_collector_cap \<lparr>bm_ctx = new_context (empty_config 2 1), bm_collector_cap = 2\<rparr>
           + (if skip_first (ctx_config (new_context (empty_config 2 1)))
              then nat (concurrency (ctx_config (new_context (empty_config 2 1)))) else 0)"
    by (rule custom_records_fit_collector [OF b])
       (simp_all add: new_context_def empty_config_def job_total_def reqs_count_def)
  then show ?thesis by (simp add: new_context_def empty_config_def)
qed

end
