(* ===== verification/Probe.thy ===== *)
theory Probe
  imports Dispatcher
begin

text \<open>
  The probe \<open>DetectHost\<close> (\<open>src/http.go\<close>) and what it leaves in the
  context store for \<open>NewHTTPWorker\<close>: the \<open>Server\<close> header under
  \<open>ServerName\<close> and the content size under \<open>ContentSize\<close>, read from the
  \<open>Content-Length\<close> header with \<open>strconv.Atoi\<close> (its error ignored) or,
  without the header, the length of the body. \<open>client.Do\<close> is the
  environment: an error message or a response. A panic inside (from
  \<open>NewHTTPRequest\<close>) is recovered by the deferred function, reported to
  \<open>TraceException\<close>, and \<open>DetectHost\<close> returns its named result, still
  \<open>nil\<close>.
\<close>

text \<open>The text of a recovered run-time panic, as \<open>fmt.Sprintf("%s", r)\<close> renders it.\<close>

fun panic_msg :: "go_panic \<Rightarrow> string" where
  "panic_msg DivideByZero = ''runtime error: integer divide by zero''"
| "panic_msg CloseOfClosedChannel = ''close of closed channel''"
| "panic_msg NegativeWaitGroupCounter = ''sync: negative WaitGroup counter''"
| "panic_msg (InterfaceConversion k) = ''interface conversion: interface {} is nil, not int''"
| "panic_msg MakeSliceLenOutOfRange = ''runtime error: makeslice: len out of range''"
| "panic_msg MakeSliceCapOutOfRange = ''runtime error: makeslice: cap out of range''"
| "panic_msg MakeChanSizeOutOfRange = ''makechan: size out of range''"
| "panic_msg (IndexOutOfRange i n) =
     ''runtime error: index out of range ['' @ int_digits i @ ''] with length '' @ int_digits n"
| "panic_msg NilPointerDereference = ''runtime error: invalid memory address or nil pointer dereference''"
| "panic_msg (CustomPanic s) = s"

datatype probe_error = RequestRejected | DoFailed string

record probe_response =
  pr_server :: string
  pr_content_length :: string
  pr_body_len :: nat

text \<open>\<open>DetectHost\<close>: the returned error, the context, and the diagnostics state.\<close>

definition detect_host ::
  "int \<Rightarrow> diag \<Rightarrow> (string \<Rightarrow> string \<Rightarrow> bool) \<Rightarrow> string + probe_response \<Rightarrow> gb_context
   \<Rightarrow> probe_error option \<times> gb_context \<times> diag" where
  "detect_host v d req_ok resp c =
     (case new_http_request req_ok (ctx_config c) 0 of
        Inl p \<Rightarrow> (None, c, fst (trace_exception v d (panic_msg p)))
      | Inr (None, _) \<Rightarrow> (Some RequestRejected, c, d)
      | Inr (Some q, _) \<Rightarrow>
          (case resp of
             Inl e \<Rightarrow> (Some (DoFailed e), c, d)
           | Inr r \<Rightarrow>
               (let c1 = set_string c FieldServerName (pr_server r)
                in (None,
                    if pr_content_length r \<noteq> [] then set_int c1 FieldContentSize (go_atoi (pr_content_length r))
                    else set_int c1 FieldContentSize (int (pr_body_len r)),
                    d))))"

subsection \<open>Lemmas\<close>

lemma detect_host_response:
  assumes "new_http_request req_ok (ctx_config c) 0 = Inr (Some q, a)"
  shows "detect_host v d req_ok (Inr r) c =
           (None, set_int (set_string c FieldServerName (pr_server r)) FieldContentSize
                    (if pr_content_length r \<noteq> [] then go_atoi (pr_content_length r) else int (pr_body_len r)), d)"
  using assms by (simp add: detect_host_def Let_def)

lemma get_int_probe [simp]:
  "get_int (set_int (set_string c FieldServerName sv) FieldContentSize n) FieldContentSize = Inr n"
  by simp

text \<open>C32: after a probe that succeeds with a \<open>Content-Length\<close> of \<open>n \<ge> 0\<close>,
  every worker is built with a scratch buffer of \<open>min n 8192\<close> bytes.\<close>

theorem probe_sizes_worker_buffer:
  assumes "new_http_request req_ok (ctx_config c) 0 = Inr (Some q, a)"
    and "pr_content_length r = int_digits n" and "0 \<le> n" and "n \<le> 2 ^ 63 - 1"
    and "detect_host v d req_ok (Inr r) c = (err, c', d')"
  shows "err = None \<and> new_http_worker c' = Inr \<lparr>discard_len = nat (min n 8192), custom_handler = None\<rparr>"
proof -
  have "pr_content_length r \<noteq> []" using assms(2,3) nat_digits_hd [of "nat n"] by (auto simp: int_digits_def)
  moreover have "go_atoi (int_digits n) = n" using assms(3,4) by (simp add: go_atoi_def parse_decimal_int_digits)
  ultimately have "c' = set_int (set_string c FieldServerName (pr_server r)) FieldContentSize n"
    and "err = None"
    using assms(2,5) detect_host_response [OF assms(1), of v d r] by auto
  with assms(3) show ?thesis by (simp add: new_http_worker_def MaxBufferSize_def min_def)
qed

text \<open>Witness for C32: the probe of a GET request answers \<open>Content-Length: 612\<close>.\<close>

theorem probe_sizes_worker_buffer_witness:
  "new_http_worker (fst (snd (detect_host 1 init_diag (\<lambda>_ _. True)
       (Inr \<lparr>pr_server = ''nginx'', pr_content_length = ''612'', pr_body_len = 612\<rparr>)
       (new_context ((empty_config 1 1)\<lparr>req_method := ''GET''\<rparr>)))))
   = Inr \<lparr>discard_len = 612, custom_handler = None\<rparr>"
proof -
  let ?c = "new_context ((empty_config 1 1)\<lparr>req_method := ''GET''\<rparr>)"
  let ?r = "\<lparr>pr_server = ''nginx'', pr_content_length = ''612'', pr_body_len = 612\<rparr>"
  obtain q a where q: "new_http_request (\<lambda>_ _. True) (ctx_config ?c) 0 = Inr (Some q, a)"
    by (simp add: new_http_request_def new_context_def empty_config_def Let_def)
  have d: "''612'' = int_digits 612" by code_simp
  obtain err c' d' where e: "detect_host 1 init_diag (\<lambda>_ _. True) (Inr ?r) ?c = (err, c', d')"
    by (cases "detect_host 1 init_diag (\<lambda>_ _. True) (Inr ?r) ?c") auto
  have "err = None \<and> new_http_worker c' = Inr \<lparr>discard_len = nat (min 612 8192), custom_handler = None\<rparr>"
    by (rule probe_sizes_worker_buffer [OF q _ _ _ e]) (simp_all add: d)
  with e show ?thesis by simp
qed

text \<open>A \<open>Content-Length\<close> that \<open>Atoi\<close> rejects is stored as 0: the error
  of \<open>strconv.Atoi\<close> is ignored.\<close>

lemma detect_host_bad_length:
  assumes "new_http_request req_ok (ctx_config c) 0 = Inr (Some q, a)"
    and "pr_content_length r \<noteq> []" and "parse_decimal (pr_content_length r) = None"
    and "detect_host v d req_ok (Inr r) c = (err, c', d')"
  shows "err = None \<and> c' = set_int (set_string c FieldServerName (pr_server r)) FieldContentSize 0"
proof -
  have "detect_host v d req_ok (Inr r) c
          = (None, set_int (set_string c FieldServerName (pr_server r)) FieldContentSize 0, d)"
    using detect_host_response [OF assms(1)] assms(2,3) by (simp add: go_atoi_def)
  with assms(4) show ?thesis by auto
qed

text \<open>C33: composition of the probe with the workers. A \<open>Content-Length\<close>
  that \<open>Atoi\<close> rejects is read as 0 (the error is ignored), so every worker
  gets a zero-length buffer and its \<open>send\<close> never finishes on a later
  response with a body: \<open>Discard.ReadFrom\<close> spins on \<open>0, nil\<close> reads.\<close>

theorem probe_bad_length_hangs:
  assumes "new_http_request req_ok (ctx_config c) 0 = Inr (Some q, a)"
    and "pr_content_length r \<noteq> []" and "parse_decimal (pr_content_length r) = None"
    and "detect_host v d req_ok (Inr r) c = (err, c', d')"
    and "fst (retry_loop att 3 0) = DoResponse st b" and "0 < remaining b"
  shows "err = None \<and>
         (\<exists>w. new_http_worker c' = Inr w \<and> discard_len w = 0 \<and> send_record w att el = None)"
proof -
  from detect_host_bad_length [OF assms(1-4)]
  have "err = None" and "get_int c' FieldContentSize = Inr 0" by simp_all
  with zero_probe_send_hangs [OF _ assms(5,6)] show ?thesis by blast
qed

text \<open>Witness for C33: \<open>Content-Length: 1e3\<close>, then a 1024-byte response.\<close>

theorem probe_bad_length_hangs_witness:
  "\<exists>w. new_http_worker (fst (snd (detect_host 1 init_diag (\<lambda>_ _. True)
       (Inr \<lparr>pr_server = ''nginx'', pr_content_length = ''1e3'', pr_body_len = 1000\<rparr>)
       (new_context ((empty_config 1 1)\<lparr>req_method := ''GET''\<rparr>)))))
   = Inr w \<and> discard_len w = 0 \<and>
   send_record w (\<lambda>i. DoResponse 200 \<lparr>remaining = 1024, body_end = EOF\<rparr>) 25 = None"
proof -
  let ?c = "new_context ((empty_config 1 1)\<lparr>req_method := ''GET''\<rparr>)"
  let ?r = "\<lparr>pr_server = ''nginx'', pr_content_length = ''1e3'', pr_body_len = 1000\<rparr>"
  let ?att = "\<lambda>i::nat. DoResponse 200 \<lparr>remaining = 1024, body_end = EOF\<rparr>"
  obtain q a where q: "new_http_request (\<lambda>_ _. True) (ctx_config ?c) 0 = Inr (Some q, a)"
    by (simp add: new_http_request_def new_context_def empty_config_def Let_def)
  obtain err c' d' where e: "detect_host 1 init_diag (\<lambda>_ _. True) (Inr ?r) ?c = (err, c', d')"
    by (cases "detect_host 1 init_diag (\<lambda>_ _. True) (Inr ?r) ?c") auto
  have "err = None \<and> (\<exists>w. new_http_worker c' = Inr w \<and> discard_len w = 0 \<and> send_record w ?att 25 = None)"
    by (rule probe_bad_length_hangs [OF q _ _ e, of ?att 200 "\<lparr>remaining = 1024, body_end = EOF\<rparr>"])
       (simp_all add: parse_decimal_def digit_val_def retry_loop_3)
  with e show ?thesis by simp
qed



text \<open>C34: when request construction panics (a malformed \<open>-H\<close>, \<open>-C\<close> or
  \<open>-A\<close>), \<open>DetectHost\<close> recovers and reports success with the store
  untouched; on a fresh context \<open>NewHTTPWorker\<close> then panics in
  \<open>GetInt("ContentSize")\<close>.\<close>

theorem probe_panic_breaks_worker:
  assumes "new_http_request req_ok (ctx_config c) 0 = Inl p" and "store c FieldContentSize = None"
    and "detect_host v d req_ok resp c = (err, c', d')"
  shows "err = None \<and> c' = c \<and> new_http_worker c' = Inl (InterfaceConversion FieldContentSize)"
  using assms by (simp add: detect_host_def new_http_worker_def get_int_def)

text \<open>Witness for C34: \<open>-H "X-Debug"\<close> on a fresh context.\<close>

theorem probe_panic_breaks_worker_witness:
  "new_http_worker (fst (snd (detect_host 1 init_diag (\<lambda>_ _. True) (Inl ''unused'')
       (new_context ((empty_config 1 1)\<lparr>headers := [''X-Debug'']\<rparr>)))))
   = Inl (InterfaceConversion FieldContentSize)"
proof -
  let ?c = "new_context ((empty_config 1 1)\<lparr>headers := [''X-Debug'']\<rparr>)"
  have p: "new_http_request (\<lambda>_ _. True) (ctx_config ?c) 0 = Inl (IndexOutOfRange 1 1)"
    by (simp add: new_http_request_def new_context_def empty_config_def Let_def split_pair_def
        go_index_def header_set_def)
  obtain err c' d' where e: "detect_host 1 init_diag (\<lambda>_ _. True) (Inl ''unused'') ?c = (err, c', d')"
    by (cases "detect_host 1 init_diag (\<lambda>_ _. True) (Inl ''unused'') ?c") auto
  have "err = None \<and> c' = ?c \<and> new_http_worker c' = Inl (InterfaceConversion FieldContentSize)"
    by (rule probe_panic_breaks_worker [OF p _ e]) (simp add: new_context_def)
  then have "new_http_worker c' = Inl (InterfaceConversion FieldContentSize)" by blast
  with e show ?thesis by simp
qed

end
