(* ===== verification/RateLimit.thy ===== *)
theory RateLimit
  imports Prelude
begin

text \<open>
  The request-rate limiter of \<open>src/http.go\<close>: the package variables
  \<open>freq\<close> and \<open>bucket\<close>, \<open>SetRatelimit\<close>, and \<open>TakeRatelimitToken\<close>,
  which every worker calls before each job. The token bucket itself
  (\<open>github.com/tsenart/tb\<close>) is a library: its \<open>Take(1)\<close> answers are the
  environment, the sequence \<open>take\<close> of results of the successive calls.
  The retry loop may never end; it is a \<open>partial_function\<close> in the option
  monad, \<open>None\<close> when no call ever yields a token.
\<close>

record rate_limiter =
  rl_freq :: duration
  rl_bucket :: "int option" \<comment> \<open>\<open>nil\<close>, or a bucket of the given rate\<close>

definition no_rate_limit :: rate_limiter where
  "no_rate_limit = \<lparr>rl_freq = 0, rl_bucket = None\<rparr>"

text \<open>\<open>SetRatelimit(rate)\<close>: \<open>freq = time.Duration(1e9 / rate)\<close>, an
  \<open>int64\<close> division.\<close>

definition set_ratelimit :: "int \<Rightarrow> go_panic + rate_limiter" where
  "set_ratelimit rate =
     go_bind (go_div 1000000000 rate) (\<lambda>f. Inr \<lparr>rl_freq = f, rl_bucket = Some rate\<rparr>)"

text \<open>The \<open>for got != 1 { got = bucket.Take(1); time.Sleep(freq) }\<close> loop from
  the \<open>i\<close>-th call on: the index of the call that yields the token.\<close>

partial_function (option) take_retry :: "(nat \<Rightarrow> int) \<Rightarrow> nat \<Rightarrow> nat option" where
  "take_retry tk i = (if tk i = 1 then Some i else take_retry tk (Suc i))"

text \<open>\<open>TakeRatelimitToken\<close>: the number of \<open>Take\<close> calls made and the total
  time slept, or \<open>None\<close> when it never returns.\<close>

definition take_ratelimit_token :: "rate_limiter \<Rightarrow> (nat \<Rightarrow> int) \<Rightarrow> (nat \<times> duration) option" where
  "take_ratelimit_token rl tk =
     (case rl_bucket rl of
        None \<Rightarrow> Some (0, 0)
      | Some _ \<Rightarrow>
          if tk 0 = 1 then Some (1, 0)
          else map_option (\<lambda>i. (Suc i, int i * rl_freq rl)) (take_retry tk 1))"

subsection \<open>Lemmas\<close>

lemma take_retry_unfold: "take_retry tk i = (if tk i = 1 then Some i else take_retry tk (Suc i))"
  by (rule take_retry.simps)

lemma take_retry_found:
  "tk (i + k) = 1 \<Longrightarrow> \<forall>j<k. tk (i + j) \<noteq> 1 \<Longrightarrow> take_retry tk i = Some (i + k)"
proof (induction k arbitrary: i)
  case 0
  then show ?case by (simp add: take_retry_unfold)
next
  case (Suc k)
  from Suc.prems(2) have "tk i \<noteq> 1" by (metis add_0_right zero_less_Suc)
  moreover have "\<forall>j<k. tk (Suc i + j) \<noteq> 1"
  proof (intro allI impI)
    fix j assume "j < k"
    then have "Suc j < Suc k" by simp
    with Suc.prems(2) have "tk (i + Suc j) \<noteq> 1" by blast
    then show "tk (Suc i + j) \<noteq> 1" by simp
  qed
  then have "take_retry tk (Suc i) = Some (Suc i + k)"
    using Suc.prems(1) by (intro Suc.IH) simp_all
  ultimately show ?case by (simp add: take_retry_unfold [of tk i])
qed

lemma take_retry_never:
  assumes "\<forall>j\<ge>i. tk j \<noteq> 1"
  shows "take_retry tk i = None"
proof (rule ccontr)
  assume "take_retry tk i \<noteq> None"
  then obtain r where ret: "take_retry tk i = Some r" by blast
  have "\<not> (\<forall>j\<ge>i. tk j \<noteq> 1)"
  proof (rule take_retry.raw_induct [where P = "\<lambda>tk i r. \<not> (\<forall>j\<ge>i. tk j \<noteq> 1)", OF _ ret])
    fix f :: "(nat \<Rightarrow> int) \<Rightarrow> nat \<Rightarrow> nat option" and tk i r
    assume IH: "\<And>tk i r. f tk i = Some r \<Longrightarrow> \<not> (\<forall>j\<ge>i. tk j \<noteq> 1)"
      and eq: "(if tk i = 1 then Some i else f tk (Suc i)) = Some r"
    show "\<not> (\<forall>j\<ge>i. tk j \<noteq> 1)"
    proof (cases "tk i = 1")
      case True
      then show ?thesis by auto
    next
      case False
      with eq IH [of tk "Suc i" r] show ?thesis by (auto simp: Suc_le_eq intro: less_imp_le)
    qed
  qed
  with assms show False by blast
qed

lemma take_token_found:
  assumes "rl_bucket rl = Some r" and "tk k = 1" and "\<forall>j<k. tk j \<noteq> 1"
  shows "take_ratelimit_token rl tk = Some (Suc k, int k * rl_freq rl)"
proof (cases k)
  case 0
  with assms show ?thesis by (simp add: take_ratelimit_token_def)
next
  case (Suc k')
  with assms(3) have "tk 0 \<noteq> 1" by blast
  moreover have "take_retry tk 1 = Some (1 + k')"
    using assms(2,3) Suc by (intro take_retry_found) simp_all
  ultimately show ?thesis using assms(1) Suc by (simp add: take_ratelimit_token_def)
qed

text \<open>C35: \<open>TakeRatelimitToken\<close> returns at once without a bucket; with a
  bucket it returns exactly when some \<open>Take(1)\<close> yields the token, and then,
  if the first success is the \<open>k\<close>-th call (from 0), after \<open>k + 1\<close> calls and
  \<open>k\<close> sleeps of one period, one after each retry, the successful one
  included. When no call ever yields a token it never returns.\<close>

theorem take_token_terminates_iff:
  "take_ratelimit_token rl tk =
     (case rl_bucket rl of
        None \<Rightarrow> Some (0, 0)
      | Some _ \<Rightarrow>
          if \<exists>k. tk k = 1
          then Some (Suc (LEAST k. tk k = 1), int (LEAST k. tk k = 1) * rl_freq rl)
          else None)"
proof (cases "rl_bucket rl")
  case None
  then show ?thesis by (simp add: take_ratelimit_token_def)
next
  case (Some r)
  show ?thesis
  proof (cases "\<exists>k. tk k = 1")
    case True
    then have "tk (LEAST k. tk k = 1) = 1" by (rule LeastI_ex)
    moreover have "\<forall>j<(LEAST k. tk k = 1). tk j \<noteq> 1" using not_less_Least by blast
    ultimately have "take_ratelimit_token rl tk
                       = Some (Suc (LEAST k. tk k = 1), int (LEAST k. tk k = 1) * rl_freq rl)"
      by (rule take_token_found [OF Some])
    with Some True show ?thesis by (simp only: option.case if_True)
  next
    case False
    then have "tk 0 \<noteq> 1" "\<forall>j\<ge>1. tk j \<noteq> 1" by auto
    moreover from this(2) have "take_retry tk 1 = None" by (rule take_retry_never)
    ultimately show ?thesis using Some False
      by (simp add: take_ratelimit_token_def del: take_retry.simps)
  qed
qed

text \<open>C37: for a positive rate, \<open>SetRatelimit\<close> sets the period to the
  largest whole number of nanoseconds with \<open>freq * rate \<le> 1s\<close>; it is 0,
  so that the retry loop never sleeps, exactly when the rate exceeds
  \<open>10^9\<close> per second. A rate of 0 panics.\<close>

theorem set_ratelimit_period:
  "set_ratelimit 0 = Inl DivideByZero \<and>
   (0 < rate \<longrightarrow> (\<exists>rl. set_ratelimit rate = Inr rl \<and> rl_bucket rl = Some rate
       \<and> rl_freq rl * rate \<le> 1000000000 \<and> 1000000000 < (rl_freq rl + 1) * rate
       \<and> (rl_freq rl = 0 \<longleftrightarrow> 1000000000 < rate)))"
proof -
  have "set_ratelimit 0 = Inl DivideByZero" by (simp add: set_ratelimit_def go_div_def)
  moreover have "0 < rate \<Longrightarrow> ?thesis"
  proof -
    assume r: "0 < rate"
    let ?f = "1000000000 div rate"
    have s: "set_ratelimit rate = Inr \<lparr>rl_freq = ?f, rl_bucket = Some rate\<rparr>"
      using r by (simp add: set_ratelimit_def go_div_nonneg)
    have dm: "?f * rate + 1000000000 mod rate = 1000000000" by (rule div_mult_mod_eq)
    have m: "0 \<le> 1000000000 mod rate" "1000000000 mod rate < rate" using r by simp_all
    have lo: "?f * rate \<le> 1000000000" using dm m by linarith
    have hi: "1000000000 < (?f + 1) * rate"
    proof -
      have "(?f + 1) * rate = ?f * rate + rate" by (simp add: distrib_right)
      with dm m show ?thesis by linarith
    qed
    have z: "?f = 0 \<longleftrightarrow> 1000000000 < rate"
    proof
      assume "?f = 0"
      with hi show "1000000000 < rate" by simp
    next
      assume "1000000000 < rate"
      then show "?f = 0" by (simp add: div_pos_pos_trivial)
    qed
    from lo hi z show ?thesis using s \<open>set_ratelimit 0 = Inl DivideByZero\<close> by simp
  qed
  ultimately show ?thesis by blast
qed

text \<open>Witness for C37: at \<open>2 * 10^9\<close> requests per second the period is 0.\<close>

theorem set_ratelimit_period_witness:
  "\<exists>rl. set_ratelimit 2000000000 = Inr rl \<and> rl_freq rl = 0"
  using set_ratelimit_period [of 2000000000] by auto

end
