(* ===== verification/Spec2Isabelle.thy ===== *)
theory Spec2Isabelle
  imports PrintReport StatsSpec StartupSpec Collector Probe RateLimit CommandLine
begin

text \<open>
  \<^bold>\<open>A shallow embedding of gohttpbench (package \<open>gb\<close>, \<open>src/*.go\<close>).\<close>

  \<^bold>\<open>The program.\<close> A benchmark campaign is a load plan (\<open>Config\<close>, theory \<open>LoadPlan\<close>), a
  shared context (\<open>Context\<close>: two wait groups, a stop channel, a probe-fact
  store), a probe of the target (\<open>DetectHost\<close>), a dispatcher
  (\<open>Benchmark.Run\<close> / \<open>RunCustom\<close>) that fills a channel of requests, a
  pool of \<open>concurrency\<close> workers (\<open>HTTPWorker.Run\<close>) that take requests,
  pace themselves with a token bucket, send with bounded retry under an
  execution timeout and put one \<open>Record\<close> per job on the collector, and a
  monitor (\<open>Monitor.Run\<close>) that folds the records into \<open>Stats\<close> until a
  termination condition and then closes \<open>stop\<close>; \<open>PrintReport\<close> reduces the
  statistics. Diagnostics go through \<open>TraceException\<close>.

  \<^bold>\<open>Theories, in import order.\<close>
  \<^item> \<open>Prelude\<close>: Go run-time panics as the datatype \<open>go_panic\<close>; \<open>go_div\<close>,
    \<open>go_mod\<close> (truncating, panicking on 0, via \<open>sdiv\<close>/\<open>smod\<close>),
    \<open>go_index\<close> (bounds-checked indexing), \<open>go_bind\<close> (sequencing in
    \<open>go_panic + 'a\<close>), \<open>go_split\<close> (\<open>strings.Split\<close>), \<open>go_last_index\<close>
    (\<open>strings.LastIndex\<close>), \<open>has_suffix\<close>.
  \<^item> \<open>Strconv\<close>: the standard-library conversions the code uses, \<open>%d\<close>
    (\<open>int_digits\<close>) and \<open>strconv.Atoi\<close> (\<open>go_atoi\<close>, 0 on a syntax error
    as the code ignores the error, clamped to 64 bits), modelled from the
    Go documentation, with their round trip.
  \<^item> \<open>LoadPlan\<close> (\<open>config.go\<close>): the record \<open>config\<close>, \<open>extractHostAndPort\<close>
    (\<open>extract_host_and_port\<close>), \<open>LoadConfig\<close> as \<open>load_config\<close> with flag
    parsing, file reading and \<open>url.Parse\<close> as parameters; \<open>plan_ok\<close> is its
    validity contract.
  \<^item> \<open>CommandLine\<close> (\<open>config.go\<close>): the front of \<open>LoadConfig\<close>
    (\<open>load_config_args\<close>: \<open>-h\<close>, the positional-argument count,
    \<open>strings.Trim\<close>, the URL check), the flag defaults, \<open>stringSet.Set\<close>
    and \<open>GetKeepAlive\<close>; the check \<open>regexp.MatchString(`http.*?://.*`)\<close> is
    the executable scan \<open>url_match\<close> (two literal searches with
    \<open>scan_for\<close>), proved equal to the pattern's language \<open>url_pattern\<close>.
  \<^item> \<open>RunContext\<close> (\<open>context.go\<close>): \<open>gb_context\<close>; a \<open>WaitGroup\<close> is its
    counter (\<open>wg_add\<close>, \<open>wg_done\<close>, \<open>wg_released\<close>), \<open>stop\<close> a closed flag,
    the store a map with panicking type assertions (\<open>get_int\<close>,
    \<open>get_string\<close>); \<open>NewContext\<close> (\<open>go_new_context\<close>) panics on a
    negative \<open>concurrency + 1\<close>.
  \<^item> \<open>Results\<close>: \<open>Record\<close> and the error wrapper types of \<open>http.go\<close>.
  \<^item> \<open>Diagnostics\<close> (\<open>common.go\<close>): \<open>StopWatch\<close> with the clock as an
    argument; \<open>TraceException\<close> over its package state \<open>diag\<close>, returning
    what it prints; \<open>trace_all\<close> for a sequence of calls.
  \<^item> \<open>Monitor\<close> (\<open>monitor.go\<close>): \<open>update_stats\<close>, and the \<open>select\<close> loop
    \<open>monitor_loop\<close> driven by the list of events the environment makes
    ready (a record, the time-limit timer, an interrupt); \<open>monitor_run\<close>
    adds the latency slice (its \<open>make\<close> panics on a negative plan), the
    barrier wait and \<open>close(stop)\<close>.
  \<^item> \<open>HttpWorker\<close> (\<open>http.go\<close>): \<open>NewHTTPWorker\<close>, \<open>Discard.ReadFrom\<close> as a
    \<open>partial_function (option)\<close> (it spins forever on a zero-length
    buffer), the retry loop \<open>retry_loop\<close> (a terminating \<open>function\<close>),
    \<open>send_record\<close>/\<open>send\<close> (classification, recovery, diagnostics) with
    \<open>client.Do\<close> as a function from attempt number to outcome, and the job
    loop \<open>worker_loop\<close>, where each job comes with the \<open>select\<close> branch that
    fired and the limiter is the parameter \<open>take_token\<close>;
    \<open>NewClient\<close> as the settings it gives the transport (certificate
    check skipped, compression, keep-alive, idle connections per host,
    proxy).
  \<^item> \<open>Dispatcher\<close> (\<open>http.go\<close> \<open>NewHTTPRequest\<close>, \<open>CopyHTTPRequest\<close>;
    \<open>benchmark.go\<close> \<open>Run\<close>, \<open>RunCustom\<close>): requests with their header map
    and body readers named by address, so that sharing a reader is visible;
    the job lists the dispatcher enqueues and its effect on the barrier.
    The runs make the jobs channel (\<open>go_make_chan\<close>, panicking on a
    negative size) and evaluate \<open>NewHTTPWorker\<close> for every worker in the
    dispatcher (\<open>spawn_workers\<close>: the operands of a \<open>go\<close> statement are
    evaluated by the caller) before they build any request.
  \<^item> \<open>Campaign\<close>: the startup protocol as the inductive relation
    \<open>boot_step\<close> over every interleaving of workers (\<open>start.Done\<close>, then
    \<open>startRun.Wait\<close>, then take jobs), dispatcher (enqueue into a channel of
    bounded capacity, \<open>close(jobs)\<close>, \<open>start.Done\<close> in \<open>RunCustom\<close>) and
    monitor (\<open>start.Wait\<close>, \<open>startRun.Done\<close>); \<open>boot_inv\<close> is proved for
    all reachable states by rule induction.
  \<^item> \<open>Probe\<close> (\<open>http.go\<close> \<open>DetectHost\<close>): the probe's effect on the store,
    with \<open>strconv.Atoi\<close> on \<open>Content-Length\<close>, and the recovered panic path.
  \<^item> \<open>RateLimit\<close> (\<open>http.go\<close> \<open>SetRatelimit\<close>, \<open>TakeRatelimitToken\<close>): the
    retry loop as a \<open>partial_function (option)\<close> over the sequence of
    \<open>Take(1)\<close> answers of the \<open>tb\<close> library.
  \<^item> \<open>Report\<close> (\<open>report.go\<close>): \<open>stdDev\<close> and the latency block of
    \<open>PrintReport\<close>, with \<open>float64\<close> as \<open>real\<close>; \<open>PrintReport\<close> the whole
    report as the values it prints (probe facts from the store, totals, the
    failure table, the rates), a \<open>float64\<close> quotient by zero being an
    infinity or NaN (\<open>go_float\<close>).
  \<^item> \<open>StatsSpec\<close>: a batch reference specification of the statistics
    (\<open>stats_of\<close>: filter, count and sum per field) against which the
    streaming \<open>updateStats\<close> is proved equivalent; \<open>collected\<close> reads
    the results out of a sequence of monitor events.
  \<^item> \<open>StartupSpec\<close>: the startup barrier's contract as an abstract
    transition system (\<open>barrier_step\<close>) and the refinement mapping
    \<open>abs_boot\<close> from the concrete protocol of \<open>Campaign\<close>.
  \<^item> \<open>Collector\<close> (\<open>benchmark.go\<close> \<open>NewBenchmark\<close>): the capacity of the
    record channel and the number of records the workers of a
    \<open>RunCustom\<close> campaign send into it.

  \<^bold>\<open>What is proved.\<close> Each theory states its claims next to their
  definitions; every claim with a hypothesis has a witness that applies it
  at a concrete input: the monitor's
  termination policy and its statistics invariant (\<open>Monitor\<close>); the load
  plan's validity and the host/port split, including its misreading of
  IPv6 literals (\<open>LoadPlan\<close>); the URL matcher against its pattern
  and the panic an accepted non-HTTP URL causes (\<open>CommandLine\<close>); the \<open>Atoi\<close> round trip (\<open>Strconv\<close>);
  diagnostics suppression (\<open>Diagnostics\<close>);
  retry, classification, body draining, the zero-buffer hang, the per-job
  accounting of the job loop, timeouts, skip-first and stop
  (\<open>HttpWorker\<close>); header parsing, panics of request construction,
  fresh readers for copies, and the job counts (\<open>Dispatcher\<close>); the
  startup deadlock of \<open>Benchmark.Run\<close> and the completion of
  \<open>RunCustom\<close> (\<open>Campaign\<close>); what the probe leaves for the workers,
  and the panic of \<open>Benchmark.Run\<close> after a rejected probe request
  (\<open>Probe\<close>); termination and non-termination of
  token acquisition and the period bounds (\<open>RateLimit\<close>); \<open>stdDev\<close> on one
  sample and on none, the percentile table and the uniform-latency campaign
  of the specification end to end, monitor and reducer together
  (\<open>Report\<close>); that the report never
  panics on a campaign's statistics (\<open>PrintReport\<close>); the equivalence of
  the aggregator with its batch specification (\<open>StatsSpec\<close>); the
  refinement of the barrier contract by the startup protocol
  (\<open>StartupSpec\<close>); the well-formedness of every enqueued request
  (\<open>Dispatcher\<close>); that a \<open>RunCustom\<close> campaign's records fit the
  collector's buffer (\<open>Collector\<close>). The root theory composes the monitor
  with the specification of the statistics: a finished campaign reports
  exactly the batch statistics of the results its loop consumed before the
  events it left unread.

  \<^bold>\<open>Bounds and fuel.\<close> No fuel is used. Loops that may not end
  (\<open>Discard.ReadFrom\<close>, the token retry loop) are partial functions whose
  non-termination is the value \<open>None\<close>, and their termination claims are
  stated as results \<open>Some\<close>. The retry loop is bounded by its counter (3).
  Select loops consume a finite list of ready events: running out of events
  means still blocked (\<open>LoopWaiting\<close>), not terminated.

  \<^bold>\<open>Not modelled.\<close> The flag library's parser (its result, the flag
  values and the positional arguments, is an input), \<open>url.Parse\<close>,
  printing and formatting, the Document Path line of \<open>PrintReport\<close>
  (\<open>url.Parse\<close> and \<open>RequestURI\<close> of a URL \<open>LoadConfig\<close> already
  parsed), the inside of the HTTP transport (connection pooling, TLS,
  proxies; only the settings \<open>NewClient\<close> passes it are modelled), the
  \<open>tb\<close> bucket's refill goroutine (its answers are the environment), \<open>ReportAll\<close> (printing
  only), the canonicalisation of header keys, and the wire encoding of
  cookies and basic authentication. Go's 64-bit counters and durations
  are unbounded integers (their wrap-around at 2^63 is not modelled) and
  \<open>float64\<close> is real arithmetic; the claims on \<open>stdDev\<close> (C19, C22) hold
  in \<open>float64\<close> too, as their deviations are exactly 0. \<open>make\<close> is
  modelled failing on negative sizes only, not on sizes too large to
  allocate. \<open>CopyHTTPRequest\<close>'s shallow copy shares the header map, which
  records copied by value do not show; no code writes a header after
  copying, so the difference is not observable. The Go scheduler enters only through
  the choice of interleaving (\<open>boot_step\<close>) or of the ready event lists.
\<close>

text \<open>C14: composition of the monitor with the aggregator's specification.
  Whenever \<open>Monitor\<close> finishes a campaign (the barrier released, the begin
  gate opened, the select loop stopped and \<open>stop\<close> closed), its loop
  stopped with some events \<open>rest\<close> left unread, and the statistics it hands
  to the report are the batch statistics \<open>stats_of\<close> of exactly the results
  among the events before \<open>rest\<close>, in arrival order (the result that made
  it stop included), with the elapsed time set.\<close>

theorem monitor_reports_spec_stats:
  assumes "monitor_run coe c elapsed es = MonDone s c'"
  shows "\<exists>pre rest. es = pre @ rest \<and>
           monitor_loop coe (ctx_config c) init_stats es = LoopStopped (stats_of (collected pre)) rest \<and>
           s = (stats_of (collected pre))\<lparr>total_execution_time := elapsed\<rparr>"
proof -
  obtain s0 rest where loop: "monitor_loop coe (ctx_config c) init_stats es = LoopStopped s0 rest"
    and s: "s = s0\<lparr>total_execution_time := elapsed\<rparr>"
    using assms by (auto simp: monitor_run_def split: if_splits sum.splits loop_result.splits)
  have "monitor_loop coe (ctx_config c) (stats_of []) es = LoopStopped s0 rest"
    using loop by (simp add: stats_of_Nil)
  then obtain pre where "es = pre @ rest" "s0 = stats_of (collected pre)"
    using monitor_loop_stopped_spec by fastforce
  then show ?thesis using loop s by blast
qed

text \<open>Witness for C14: a success, a time-limit tick that does not count (no
  \<open>-t\<close>), a connection error that completes the plan of two, and an
  interrupt left unread.\<close>

theorem monitor_reports_spec_stats_witness:
  "monitor_run True ((new_context (empty_config 2 1))\<lparr>start := 0\<rparr>) 100
     [Collected \<lparr>response_time = 40, content_size = 12, rec_error = None\<rparr>,
      TimeLimitFired,
      Collected \<lparr>response_time = 7, content_size = 0, rec_error = Some (ConnectError ''refused'')\<rparr>,
      UserInterrupt] =
   MonDone (stats_of [\<lparr>response_time = 40, content_size = 12, rec_error = None\<rparr>,
       \<lparr>response_time = 7, content_size = 0, rec_error = Some (ConnectError ''refused'')\<rparr>]
       \<lparr>total_execution_time := 100\<rparr>)
     ((new_context (empty_config 2 1))\<lparr>start := 0, start_run := 0, stop_closed := True\<rparr>) \<and>
   (\<exists>pre rest.
     [Collected \<lparr>response_time = 40, content_size = 12, rec_error = None\<rparr>,
      TimeLimitFired,
      Collected \<lparr>response_time = 7, content_size = 0, rec_error = Some (ConnectError ''refused'')\<rparr>,
      UserInterrupt] = pre @ rest \<and>
     monitor_loop True (empty_config 2 1) init_stats
       [Collected \<lparr>response_time = 40, content_size = 12, rec_error = None\<rparr>,
        TimeLimitFired,
        Collected \<lparr>response_time = 7, content_size = 0, rec_error = Some (ConnectError ''refused'')\<rparr>,
        UserInterrupt] = LoopStopped (stats_of (collected pre)) rest \<and>
     stats_of [\<lparr>response_time = 40, content_size = 12, rec_error = None\<rparr>,
       \<lparr>response_time = 7, content_size = 0, rec_error = Some (ConnectError ''refused'')\<rparr>]
       \<lparr>total_execution_time := 100\<rparr> =
     (stats_of (collected pre))\<lparr>total_execution_time := 100\<rparr>)"
  (is "?run \<and> ?ex")
proof
  show run: ?run
    by (simp add: monitor_run_def new_context_def empty_config_def wg_released_def
        start_run_done_def wg_done_def wg_add_def close_stop_def progress_due_def Let_def
        stats_of_def init_stats_def succeeded_def failed_in_def class_count_def class_dur_def
        update_stats_def)
  show ?ex using monitor_reports_spec_stats [OF run] by (simp add: new_context_def)
qed

end
